theory Spec2Isabelle
  imports Main "HOL-Library.Sublist"
begin

section \<open>Gateway custom resource: the embedding\<close>

text \<open>
  The program is \<^verbatim>\<open>infra-cdk/lambdas/gateway-custom-resource/index.py\<close>, a CloudFormation
  custom resource that reconciles an AgentCore gateway and its Lambda target. It is a chain
  of calls to three collaborators (the control-plane client, the parameter store client and
  an HTTP pool) with \<^verbatim>\<open>try\<close>/\<^verbatim>\<open>except\<close> around some of them.

  \<^item> A raised exception is the left summand of a result; \<open>str\<close> is Python's \<^verbatim>\<open>str(e)\<close>.
    Only \<^verbatim>\<open>except Exception\<close> occurs in the source, so the class of an exception matters
    only for its text.
  \<^item> The collaborators are a record of methods over a remote state \<open>'r\<close> that the program
    cannot see. Every method returns either an exception or a reply, and the next remote
    state: nothing is assumed about what the remote side does.
  \<^item> The world threaded through the program is that remote state, a clock in whole
    seconds, and the log of the calls issued so far, each with the reply it got.
    \<^verbatim>\<open>time.sleep(n)\<close> advances the clock by \<open>n\<close>; a remote call advances it by the
    latency the collaborator record gives.
  \<^item> Log statements have no effect on the result and are left out.
\<close>

subsection \<open>Exceptions and results\<close>

datatype exn = KeyError string | ValueError string | Exception string

fun str :: "exn \<Rightarrow> string" where
  "str (KeyError k) = [CHR 0x27] @ k @ [CHR 0x27]"
| "str (ValueError m) = m"
| "str (Exception m) = m"

definition ok :: "'a \<Rightarrow> 'w \<Rightarrow> (exn + 'a) \<times> 'w" where
  "ok x w = (Inr x, w)"

definition raise :: "exn \<Rightarrow> 'w \<Rightarrow> (exn + 'a) \<times> 'w" where
  "raise e w = (Inl e, w)"

definition and_then ::
  "('w \<Rightarrow> (exn + 'a) \<times> 'w) \<Rightarrow> ('a \<Rightarrow> 'w \<Rightarrow> (exn + 'b) \<times> 'w) \<Rightarrow> 'w \<Rightarrow> (exn + 'b) \<times> 'w" where
  "and_then m f w = (case m w of (Inl e, w1) \<Rightarrow> (Inl e, w1) | (Inr x, w1) \<Rightarrow> f x w1)"

text \<open>\<^verbatim>\<open>try: m  except Exception as e: h(e)\<close>\<close>

definition try_except ::
  "('w \<Rightarrow> (exn + 'a) \<times> 'w) \<Rightarrow> (exn \<Rightarrow> 'w \<Rightarrow> (exn + 'a) \<times> 'w) \<Rightarrow> 'w \<Rightarrow> (exn + 'a) \<times> 'w" where
  "try_except m h w = (case m w of (Inl e, w1) \<Rightarrow> h e w1 | (Inr x, w1) \<Rightarrow> (Inr x, w1))"

text \<open>\<^verbatim>\<open>d[key]\<close> on a dictionary: a missing key raises \<^verbatim>\<open>KeyError(key)\<close>.\<close>

definition getitem :: "'a option \<Rightarrow> string \<Rightarrow> 'w \<Rightarrow> (exn + 'a) \<times> 'w" where
  "getitem v key w = (case v of None \<Rightarrow> (Inl (KeyError key), w) | Some x \<Rightarrow> (Inr x, w))"

text \<open>\<^verbatim>\<open>x or d\<close> on an optional string: \<^verbatim>\<open>None\<close> and the empty string are falsy.\<close>

definition py_or :: "string option \<Rightarrow> string \<Rightarrow> string" where
  "py_or x d = (case x of None \<Rightarrow> d | Some s \<Rightarrow> if s = [] then d else s)"

text \<open>\<^verbatim>\<open>sub in s\<close> on strings.\<close>

fun str_in :: "string \<Rightarrow> string \<Rightarrow> bool" where
  "str_in sub [] = (sub = [])"
| "str_in sub (c # cs) = (prefix sub (c # cs) \<or> str_in sub cs)"

text \<open>The decimal text of a natural number, as an f-string prints it.\<close>

fun str_nat :: "nat \<Rightarrow> string" where
  "str_nat n = (if n < 10 then [''0123456789'' ! n]
                else str_nat (n div 10) @ [''0123456789'' ! (n mod 10)])"

subsection \<open>Data\<close>

type_synonym props = "string \<rightharpoonup> string"

text \<open>
  The CloudFormation event is a dictionary; a field that is absent is \<open>None\<close>.
  \<^verbatim>\<open>ResourceProperties\<close> and \<^verbatim>\<open>OldResourceProperties\<close> are dictionaries of strings.
\<close>

record event =
  RequestType :: "string option"
  ResourceProperties :: "props option"
  OldResourceProperties :: "props option"
  PhysicalResourceId :: "string option"
  StackId :: "string option"
  RequestId :: "string option"
  LogicalResourceId :: "string option"
  ResponseURL :: "string option"

text \<open>The body of the callback, with the keys of the source's \<^verbatim>\<open>response_body\<close>.\<close>

record response_body =
  Status :: string
  Reason :: string
  body_PhysicalResourceId :: string
  body_StackId :: string
  body_RequestId :: string
  body_LogicalResourceId :: string
  Data :: "(string \<times> string) list"

text \<open>
  What the control plane reports about a gateway (\<^verbatim>\<open>list_gateways\<close> items,
  \<^verbatim>\<open>get_gateway\<close> and \<^verbatim>\<open>create_gateway\<close> replies) and about a target. The service
  always sends \<^verbatim>\<open>gatewayId\<close>, \<^verbatim>\<open>name\<close>, \<^verbatim>\<open>status\<close> and \<^verbatim>\<open>targetId\<close>;
  \<^verbatim>\<open>gatewayUrl\<close> may be missing. The fields \<open>gw_name\<close> and \<open>gw_status\<close> are the keys
  \<^verbatim>\<open>name\<close> and \<^verbatim>\<open>status\<close>.
\<close>

record gateway_record =
  gatewayId :: string
  gw_name :: string
  gw_status :: string
  gatewayUrl :: "string option"

record target_record =
  targetId :: string

datatype json =
    JNull | JBool bool | JNum int | JStr string | JArr "json list" | JObj "(string \<times> json) list"

text \<open>
  The calls the program issues, with their arguments. The constant arguments
  \<^verbatim>\<open>credentialProviderConfigurations\<close>, \<^verbatim>\<open>Type="String"\<close>, \<^verbatim>\<open>Overwrite=True\<close> and the
  \<^verbatim>\<open>Content-Type\<close> header are the same at every call and are not recorded.
\<close>

datatype call =
    ListGateways
  | GetGateway string
  | CreateGateway string string string string string "string list" string
  | DeleteGateway string
  | ListGatewayTargets string
  | CreateGatewayTarget string string string string json
  | UpdateGatewayTarget string string string string json
  | DeleteGatewayTarget string string
  | PutParameter string string
  | HttpPut string response_body
  | Sleep nat

text \<open>What a call came back with: an exception, nothing of interest, or the reply.\<close>

datatype reply =
    Raised exn
  | Done
  | Gateways "gateway_record list"
  | Gateway gateway_record
  | Targets "target_record list"
  | Target target_record

record 'r clients =
  agentcore_list_gateways :: "'r \<Rightarrow> (exn + gateway_record list) \<times> 'r"
  agentcore_get_gateway :: "string \<Rightarrow> 'r \<Rightarrow> (exn + gateway_record) \<times> 'r"
  agentcore_create_gateway ::
    "string \<Rightarrow> string \<Rightarrow> string \<Rightarrow> string \<Rightarrow> string \<Rightarrow> string list \<Rightarrow> string \<Rightarrow> 'r
      \<Rightarrow> (exn + gateway_record) \<times> 'r"
  agentcore_delete_gateway :: "string \<Rightarrow> 'r \<Rightarrow> (exn + unit) \<times> 'r"
  agentcore_list_gateway_targets :: "string \<Rightarrow> 'r \<Rightarrow> (exn + target_record list) \<times> 'r"
  agentcore_create_gateway_target ::
    "string \<Rightarrow> string \<Rightarrow> string \<Rightarrow> string \<Rightarrow> json \<Rightarrow> 'r \<Rightarrow> (exn + target_record) \<times> 'r"
  agentcore_update_gateway_target ::
    "string \<Rightarrow> string \<Rightarrow> string \<Rightarrow> string \<Rightarrow> json \<Rightarrow> 'r \<Rightarrow> (exn + unit) \<times> 'r"
  agentcore_delete_gateway_target :: "string \<Rightarrow> string \<Rightarrow> 'r \<Rightarrow> (exn + unit) \<times> 'r"
  ssm_put_parameter :: "string \<Rightarrow> string \<Rightarrow> 'r \<Rightarrow> (exn + unit) \<times> 'r"
  http_request :: "string \<Rightarrow> response_body \<Rightarrow> 'r \<Rightarrow> (exn + unit) \<times> 'r"
  json_loads :: "string \<Rightarrow> exn + json"
  latency :: "call \<Rightarrow> 'r \<Rightarrow> nat"

record 'r world =
  remote :: 'r
  clock :: nat
  trace :: "(call \<times> reply) list"

text \<open>A call to a collaborator: the reply and the next remote state are the
  collaborator's, the call and its reply are appended to the trace, the clock moves by
  the call's latency. \<open>log\<close> says how a reply of the method is logged.\<close>

definition invoke ::
  "'r clients \<Rightarrow> call \<Rightarrow> ('a \<Rightarrow> reply) \<Rightarrow> ('r \<Rightarrow> (exn + 'a) \<times> 'r)
    \<Rightarrow> 'r world \<Rightarrow> (exn + 'a) \<times> 'r world" where
  "invoke cl c log f w =
     (case f (remote w) of
        (x, r1) \<Rightarrow>
          (x, \<lparr>remote = r1, clock = clock w + latency cl c (remote w),
               trace = trace w @ [(c, case x of Inl e \<Rightarrow> Raised e | Inr v \<Rightarrow> log v)]\<rparr>))"

text \<open>\<^verbatim>\<open>time.sleep(n)\<close>\<close>

definition sleep :: "nat \<Rightarrow> 'r world \<Rightarrow> 'r world" where
  "sleep n w = w\<lparr>clock := clock w + n, trace := trace w @ [(Sleep n, Done)]\<rparr>"

subsection \<open>\<^verbatim>\<open>send_response\<close>\<close>

definition send_response ::
  "'r clients \<Rightarrow> event \<Rightarrow> string \<Rightarrow> string option \<Rightarrow> (string \<times> string) list option
    \<Rightarrow> string option \<Rightarrow> 'r world \<Rightarrow> (exn + response_body) \<times> 'r world" where
  "send_response cl event status reason data physical_resource_id =
     and_then (getitem (StackId event) ''StackId'') (\<lambda>stack_id.
     and_then (getitem (RequestId event) ''RequestId'') (\<lambda>request_id.
     and_then (getitem (LogicalResourceId event) ''LogicalResourceId'') (\<lambda>logical_resource_id.
     let response_body =
       \<lparr>Status = status,
        Reason = py_or reason (status @ '': See CloudWatch logs''),
        body_PhysicalResourceId =
          py_or physical_resource_id
            (case PhysicalResourceId event of None \<Rightarrow> ''NONE'' | Some p \<Rightarrow> p),
        body_StackId = stack_id,
        body_RequestId = request_id,
        body_LogicalResourceId = logical_resource_id,
        Data = (case data of None \<Rightarrow> [] | Some d \<Rightarrow> d)\<rparr>
     in
     and_then (getitem (ResponseURL event) ''ResponseURL'') (\<lambda>url.
     and_then (invoke cl (HttpPut url response_body) (\<lambda>_. Done) (http_request cl url response_body)) (\<lambda>_.
     ok response_body)))))"

subsection \<open>The collaborators' methods, as the program calls them\<close>

definition call_list_gateways :: "'r clients \<Rightarrow> 'r world \<Rightarrow> (exn + gateway_record list) \<times> 'r world" where
  "call_list_gateways cl = invoke cl ListGateways Gateways (agentcore_list_gateways cl)"

definition call_get_gateway ::
  "'r clients \<Rightarrow> string \<Rightarrow> 'r world \<Rightarrow> (exn + gateway_record) \<times> 'r world" where
  "call_get_gateway cl gatewayIdentifier =
     invoke cl (GetGateway gatewayIdentifier) Gateway
       (agentcore_get_gateway cl gatewayIdentifier)"

definition call_create_gateway ::
  "'r clients \<Rightarrow> string \<Rightarrow> string \<Rightarrow> string \<Rightarrow> string \<Rightarrow> string \<Rightarrow> string list \<Rightarrow> string
    \<Rightarrow> 'r world \<Rightarrow> (exn + gateway_record) \<times> 'r world" where
  "call_create_gateway cl nm description roleArn protocolType authorizerType allowedClients
       discoveryUrl =
     invoke cl
       (CreateGateway nm description roleArn protocolType authorizerType allowedClients
          discoveryUrl)
       Gateway
       (agentcore_create_gateway cl nm description roleArn protocolType authorizerType
          allowedClients discoveryUrl)"

definition call_delete_gateway :: "'r clients \<Rightarrow> string \<Rightarrow> 'r world \<Rightarrow> (exn + unit) \<times> 'r world" where
  "call_delete_gateway cl gatewayIdentifier =
     invoke cl (DeleteGateway gatewayIdentifier) (\<lambda>_. Done)
       (agentcore_delete_gateway cl gatewayIdentifier)"

definition call_list_gateway_targets ::
  "'r clients \<Rightarrow> string \<Rightarrow> 'r world \<Rightarrow> (exn + target_record list) \<times> 'r world" where
  "call_list_gateway_targets cl gatewayIdentifier =
     invoke cl (ListGatewayTargets gatewayIdentifier) Targets
       (agentcore_list_gateway_targets cl gatewayIdentifier)"

definition call_create_gateway_target ::
  "'r clients \<Rightarrow> string \<Rightarrow> string \<Rightarrow> string \<Rightarrow> string \<Rightarrow> json
    \<Rightarrow> 'r world \<Rightarrow> (exn + target_record) \<times> 'r world" where
  "call_create_gateway_target cl gatewayIdentifier nm description lambdaArn inlinePayload =
     invoke cl (CreateGatewayTarget gatewayIdentifier nm description lambdaArn inlinePayload)
       Target
       (agentcore_create_gateway_target cl gatewayIdentifier nm description lambdaArn
          inlinePayload)"

definition call_update_gateway_target ::
  "'r clients \<Rightarrow> string \<Rightarrow> string \<Rightarrow> string \<Rightarrow> string \<Rightarrow> json
    \<Rightarrow> 'r world \<Rightarrow> (exn + unit) \<times> 'r world" where
  "call_update_gateway_target cl gatewayIdentifier tid nm lambdaArn inlinePayload =
     invoke cl (UpdateGatewayTarget gatewayIdentifier tid nm lambdaArn inlinePayload)
       (\<lambda>_. Done)
       (agentcore_update_gateway_target cl gatewayIdentifier tid nm lambdaArn inlinePayload)"

definition call_delete_gateway_target ::
  "'r clients \<Rightarrow> string \<Rightarrow> string \<Rightarrow> 'r world \<Rightarrow> (exn + unit) \<times> 'r world" where
  "call_delete_gateway_target cl gatewayIdentifier tid =
     invoke cl (DeleteGatewayTarget gatewayIdentifier tid) (\<lambda>_. Done)
       (agentcore_delete_gateway_target cl gatewayIdentifier tid)"

definition call_put_parameter ::
  "'r clients \<Rightarrow> string \<Rightarrow> string \<Rightarrow> 'r world \<Rightarrow> (exn + unit) \<times> 'r world" where
  "call_put_parameter cl Name Value =
     invoke cl (PutParameter Name Value) (\<lambda>_. Done) (ssm_put_parameter cl Name Value)"

subsection \<open>\<^verbatim>\<open>update_ssm_parameters\<close>\<close>

definition update_ssm_parameters ::
  "'r clients \<Rightarrow> gateway_record \<Rightarrow> string \<Rightarrow> props \<Rightarrow> 'r world \<Rightarrow> (exn + unit) \<times> 'r world" where
  "update_ssm_parameters cl gateway_details target_id props =
     and_then (getitem (props ''SsmPrefix'') ''SsmPrefix'') (\<lambda>ssm_prefix.
     and_then
       (case gatewayUrl gateway_details of
          None \<Rightarrow> ok ()
        | Some gateway_url \<Rightarrow>
            if gateway_url \<noteq> []
            then call_put_parameter cl (ssm_prefix @ ''/gateway_url'') gateway_url
            else ok ()) (\<lambda>_.
     and_then (call_put_parameter cl (ssm_prefix @ ''/target_id'') target_id) (\<lambda>_.
     call_put_parameter cl (ssm_prefix @ ''/gateway_id'') (gatewayId gateway_details))))"

subsection \<open>\<^verbatim>\<open>wait_for_gateway_ready\<close>\<close>

text \<open>The \<^verbatim>\<open>while\<close> loop; \<open>start_time\<close> is the clock read before it.\<close>

function wait_loop ::
  "'r clients \<Rightarrow> string \<Rightarrow> nat \<Rightarrow> nat \<Rightarrow> 'r world \<Rightarrow> (exn + unit) \<times> 'r world" where
  "wait_loop cl gateway_id max_wait start_time w =
     (if clock w - start_time < max_wait then
        (case call_get_gateway cl gateway_id w of
           (Inl e, w1) \<Rightarrow> (Inl e, w1)
         | (Inr response, w1) \<Rightarrow>
             if gw_status response = ''READY'' then (Inr (), w1)
             else if gw_status response \<in> set [''FAILED'', ''DELETING'']
             then (Inl (Exception (''Gateway in unexpected status: '' @ gw_status response)), w1)
             else wait_loop cl gateway_id max_wait start_time (sleep 10 w1))
      else (Inl (Exception (''Gateway not ready after '' @ str_nat max_wait @ ''s'')), w))"
  by pat_completeness auto

termination
  apply (relation "measure (\<lambda>(cl, gateway_id, max_wait, start_time, w). start_time + max_wait - clock w)")
   apply simp
  apply (auto simp: call_get_gateway_def invoke_def sleep_def split: prod.splits)
  done

definition wait_for_gateway_ready ::
  "'r clients \<Rightarrow> string \<Rightarrow> nat \<Rightarrow> 'r world \<Rightarrow> (exn + unit) \<times> 'r world" where
  "wait_for_gateway_ready cl gateway_id max_wait w = wait_loop cl gateway_id max_wait (clock w) w"

subsection \<open>\<^verbatim>\<open>create_target_with_retry\<close> and \<^verbatim>\<open>create_or_update_target\<close>\<close>

text \<open>The \<^verbatim>\<open>for attempt in range(max_retries)\<close> loop, over the attempts still to make.\<close>

fun create_target_attempts ::
  "'r clients \<Rightarrow> string \<Rightarrow> string \<Rightarrow> json \<Rightarrow> nat \<Rightarrow> nat list
    \<Rightarrow> 'r world \<Rightarrow> (exn + string) \<times> 'r world" where
  "create_target_attempts cl gateway_id lambda_arn api_spec max_retries [] w =
     (Inl (Exception (''Failed to create target after '' @ str_nat max_retries @ '' attempts'')), w)"
| "create_target_attempts cl gateway_id lambda_arn api_spec max_retries (attempt # rest) w =
     (case call_create_gateway_target cl gateway_id ''GASPAgent'' ''GASP Agent Lambda Target''
             lambda_arn api_spec w of
        (Inr response, w1) \<Rightarrow> (Inr (targetId response), w1)
      | (Inl e, w1) \<Rightarrow>
          if str_in ''CREATING'' (str e) \<or> str_in ''UPDATING'' (str e)
          then create_target_attempts cl gateway_id lambda_arn api_spec max_retries rest
                 (sleep (2 ^ attempt) w1)
          else (Inl e, w1))"

definition create_target_with_retry ::
  "'r clients \<Rightarrow> string \<Rightarrow> string \<Rightarrow> json \<Rightarrow> nat \<Rightarrow> 'r world \<Rightarrow> (exn + string) \<times> 'r world" where
  "create_target_with_retry cl gateway_id lambda_arn api_spec max_retries =
     create_target_attempts cl gateway_id lambda_arn api_spec max_retries [0..<max_retries]"

text \<open>
  The \<^verbatim>\<open>try\<close> block returns the id of the first listed target after updating it; with no
  target listed, or after any exception in the block, the function goes on to
  \<^verbatim>\<open>create_target_with_retry\<close> with the default of 5 attempts.
\<close>

definition create_or_update_target ::
  "'r clients \<Rightarrow> string \<Rightarrow> string \<Rightarrow> json \<Rightarrow> 'r world \<Rightarrow> (exn + string) \<times> 'r world" where
  "create_or_update_target cl gateway_id lambda_arn api_spec w =
     (case and_then (call_list_gateway_targets cl gateway_id) (\<lambda>targets.
             case targets of
               [] \<Rightarrow> ok None
             | t # _ \<Rightarrow>
                 and_then (call_update_gateway_target cl gateway_id (targetId t) ''GASPAgent''
                             lambda_arn api_spec) (\<lambda>_.
                 ok (Some (targetId t)))) w of
        (Inr (Some target_id), w1) \<Rightarrow> (Inr target_id, w1)
      | (Inr None, w1) \<Rightarrow> create_target_with_retry cl gateway_id lambda_arn api_spec 5 w1
      | (Inl e, w1) \<Rightarrow> create_target_with_retry cl gateway_id lambda_arn api_spec 5 w1)"

subsection \<open>\<^verbatim>\<open>delete_gateway\<close>\<close>

text \<open>The \<^verbatim>\<open>for target in targets\<close> loop.\<close>

fun delete_targets ::
  "'r clients \<Rightarrow> string \<Rightarrow> target_record list \<Rightarrow> 'r world \<Rightarrow> (exn + unit) \<times> 'r world" where
  "delete_targets cl gateway_id [] w = (Inr (), w)"
| "delete_targets cl gateway_id (target # rest) w =
     (case call_delete_gateway_target cl gateway_id (targetId target) w of
        (Inl e, w1) \<Rightarrow> (Inl e, w1)
      | (Inr _, w1) \<Rightarrow> delete_targets cl gateway_id rest (sleep 5 w1))"

definition delete_gateway ::
  "'r clients \<Rightarrow> event \<Rightarrow> 'r world \<Rightarrow> (exn + response_body) \<times> 'r world" where
  "delete_gateway cl event =
     and_then (getitem (PhysicalResourceId event) ''PhysicalResourceId'') (\<lambda>gateway_id.
     and_then
       (try_except
          (and_then (call_list_gateway_targets cl gateway_id) (\<lambda>targets.
           and_then (delete_targets cl gateway_id targets) (\<lambda>_.
           call_delete_gateway cl gateway_id)))
          (\<lambda>e. ok ())) (\<lambda>_.
     send_response cl event ''SUCCESS'' None None (Some gateway_id)))"

subsection \<open>\<^verbatim>\<open>create_gateway\<close>\<close>

text \<open>
  The block \<^verbatim>\<open>gateway_url = gateway_details.get("gatewayUrl"); if not gateway_url: ...\<close>,
  which the source repeats in \<^verbatim>\<open>create_gateway\<close> (twice) and \<^verbatim>\<open>update_gateway\<close>.
\<close>

definition gateway_url_or_constructed ::
  "gateway_record \<Rightarrow> string \<Rightarrow> props \<Rightarrow> 'w \<Rightarrow> (exn + string) \<times> 'w" where
  "gateway_url_or_constructed gateway_details gateway_id props =
     (case gatewayUrl gateway_details of
        Some gateway_url \<Rightarrow>
          if gateway_url \<noteq> [] then ok gateway_url
          else and_then (getitem (props ''Region'') ''Region'') (\<lambda>region.
               ok (''https://'' @ gateway_id @ ''.gateway.bedrock-agentcore.'' @ region
                     @ ''.amazonaws.com/mcp''))
      | None \<Rightarrow>
          and_then (getitem (props ''Region'') ''Region'') (\<lambda>region.
          ok (''https://'' @ gateway_id @ ''.gateway.bedrock-agentcore.'' @ region
                @ ''.amazonaws.com/mcp'')))"

text \<open>The body of the \<^verbatim>\<open>if gw["name"] == gateway_name\<close> branch.\<close>

definition existing_gateway ::
  "'r clients \<Rightarrow> event \<Rightarrow> props \<Rightarrow> string \<Rightarrow> json \<Rightarrow> gateway_record
    \<Rightarrow> 'r world \<Rightarrow> (exn + response_body) \<times> 'r world" where
  "existing_gateway cl event props lambda_arn api_spec gw =
     (let gateway_id = gatewayId gw in
      and_then (call_get_gateway cl gateway_id) (\<lambda>gateway_details.
      and_then (create_or_update_target cl gateway_id lambda_arn api_spec) (\<lambda>target_id.
      and_then (update_ssm_parameters cl gateway_details target_id props) (\<lambda>_.
      and_then (gateway_url_or_constructed gateway_details gateway_id props) (\<lambda>gateway_url.
      send_response cl event ''SUCCESS'' None
        (Some [(''GatewayId'', gateway_id), (''GatewayUrl'', gateway_url),
               (''TargetId'', target_id)])
        (Some gateway_id))))))"

text \<open>The \<^verbatim>\<open>for gw in gateways.get("items", [])\<close> loop: \<open>Some\<close> is a \<^verbatim>\<open>return\<close> from
  inside the loop, \<open>None\<close> is the loop running to its end.\<close>

fun scan_gateways ::
  "'r clients \<Rightarrow> event \<Rightarrow> props \<Rightarrow> string \<Rightarrow> string \<Rightarrow> json \<Rightarrow> gateway_record list
    \<Rightarrow> 'r world \<Rightarrow> (exn + response_body option) \<times> 'r world" where
  "scan_gateways cl event props gateway_name lambda_arn api_spec [] = ok None"
| "scan_gateways cl event props gateway_name lambda_arn api_spec (gw # rest) =
     (if gw_name gw = gateway_name
      then and_then (existing_gateway cl event props lambda_arn api_spec gw) (\<lambda>body.
           ok (Some body))
      else scan_gateways cl event props gateway_name lambda_arn api_spec rest)"

text \<open>The part of \<^verbatim>\<open>create_gateway\<close> after the \<^verbatim>\<open>try\<close> statement.\<close>

definition create_new_gateway ::
  "'r clients \<Rightarrow> event \<Rightarrow> props \<Rightarrow> string \<Rightarrow> string \<Rightarrow> json \<Rightarrow> string
    \<Rightarrow> 'r world \<Rightarrow> (exn + response_body) \<times> 'r world" where
  "create_new_gateway cl event props gateway_name lambda_arn api_spec gateway_role_arn =
     and_then (getitem (props ''CognitoClientId'') ''CognitoClientId'') (\<lambda>client_id.
     and_then (getitem (props ''CognitoDiscoveryUrl'') ''CognitoDiscoveryUrl'') (\<lambda>discovery_url.
     and_then (call_create_gateway cl gateway_name ''GASP Gateway (CDK Managed)''
                 gateway_role_arn ''MCP'' ''CUSTOM_JWT'' [client_id] discovery_url) (\<lambda>response.
     let gateway_id = gatewayId response in
     and_then (wait_for_gateway_ready cl gateway_id 120) (\<lambda>_.
     and_then (call_get_gateway cl gateway_id) (\<lambda>gateway_details.
     and_then (create_target_with_retry cl gateway_id lambda_arn api_spec 5) (\<lambda>target_id.
     and_then (update_ssm_parameters cl gateway_details target_id props) (\<lambda>_.
     and_then (gateway_url_or_constructed gateway_details gateway_id props) (\<lambda>gateway_url.
     send_response cl event ''SUCCESS'' None
       (Some [(''GatewayId'', gateway_id), (''GatewayUrl'', gateway_url),
              (''TargetId'', target_id)])
       (Some gateway_id)))))))))"

definition create_gateway ::
  "'r clients \<Rightarrow> event \<Rightarrow> props \<Rightarrow> 'r world \<Rightarrow> (exn + response_body) \<times> 'r world" where
  "create_gateway cl event props =
     and_then (getitem (props ''GatewayName'') ''GatewayName'') (\<lambda>gateway_name.
     and_then (getitem (props ''LambdaArn'') ''LambdaArn'') (\<lambda>lambda_arn.
     and_then (getitem (props ''ApiSpec'') ''ApiSpec'') (\<lambda>api_spec_text.
     and_then (Pair (json_loads cl api_spec_text)) (\<lambda>api_spec.
     and_then (getitem (props ''GatewayRoleArn'') ''GatewayRoleArn'') (\<lambda>gateway_role_arn.
     (\<lambda>w. case and_then (call_list_gateways cl)
                  (scan_gateways cl event props gateway_name lambda_arn api_spec) w of
            (Inr (Some body), w1) \<Rightarrow> (Inr body, w1)
          | (Inr None, w1) \<Rightarrow>
              create_new_gateway cl event props gateway_name lambda_arn api_spec
                gateway_role_arn w1
          | (Inl e, w1) \<Rightarrow>
              create_new_gateway cl event props gateway_name lambda_arn api_spec
                gateway_role_arn w1))))))"

subsection \<open>\<^verbatim>\<open>update_gateway\<close>\<close>

definition update_gateway ::
  "'r clients \<Rightarrow> event \<Rightarrow> props \<Rightarrow> 'r world \<Rightarrow> (exn + response_body) \<times> 'r world" where
  "update_gateway cl event props =
     and_then (getitem (PhysicalResourceId event) ''PhysicalResourceId'') (\<lambda>gateway_id.
     and_then (getitem (props ''LambdaArn'') ''LambdaArn'') (\<lambda>lambda_arn.
     and_then (getitem (props ''ApiSpec'') ''ApiSpec'') (\<lambda>api_spec_text.
     and_then (Pair (json_loads cl api_spec_text)) (\<lambda>api_spec.
     let old_props = (case OldResourceProperties event of None \<Rightarrow> Map.empty | Some p \<Rightarrow> p) in
     if old_props ''GatewayName'' \<noteq> props ''GatewayName''
     then and_then (delete_gateway cl event) (\<lambda>_. create_gateway cl event props)
     else
       and_then (create_or_update_target cl gateway_id lambda_arn api_spec) (\<lambda>target_id.
       and_then (call_get_gateway cl gateway_id) (\<lambda>gateway_details.
       and_then (update_ssm_parameters cl gateway_details target_id props) (\<lambda>_.
       and_then (gateway_url_or_constructed gateway_details gateway_id props) (\<lambda>gateway_url.
       send_response cl event ''SUCCESS'' None
         (Some [(''GatewayId'', gateway_id), (''GatewayUrl'', gateway_url),
                (''TargetId'', target_id)])
         (Some gateway_id)))))))))"

subsection \<open>\<^verbatim>\<open>handler\<close>\<close>

text \<open>The body of the \<^verbatim>\<open>try\<close> statement.\<close>

definition dispatch ::
  "'r clients \<Rightarrow> event \<Rightarrow> string \<Rightarrow> props \<Rightarrow> 'r world \<Rightarrow> (exn + response_body) \<times> 'r world" where
  "dispatch cl event request_type props =
     (if request_type = ''Create'' then create_gateway cl event props
      else if request_type = ''Update'' then update_gateway cl event props
      else if request_type = ''Delete'' then delete_gateway cl event
      else raise (ValueError (''Unknown request type: '' @ request_type)))"

text \<open>The \<^verbatim>\<open>context\<close> argument is unused. The two reads of the event stand before the
  \<^verbatim>\<open>try\<close> statement, as in the source.\<close>

definition handler ::
  "'r clients \<Rightarrow> event \<Rightarrow> 'r world \<Rightarrow> (exn + response_body) \<times> 'r world" where
  "handler cl event =
     and_then (getitem (RequestType event) ''RequestType'') (\<lambda>request_type.
     and_then (getitem (ResourceProperties event) ''ResourceProperties'') (\<lambda>props.
     try_except (dispatch cl event request_type props)
       (\<lambda>e. send_response cl event ''FAILED'' (Some (str e)) None None)))"

subsection \<open>A scripted control plane for concrete runs\<close>

text \<open>
  A collaborator record to run the program on: every call succeeds, no gateway and no
  target is listed, a created gateway gets the id \<open>gw-new\<close> and a created target the id
  \<open>tgt-1\<close>. The remote state is a script: the statuses \<^verbatim>\<open>get_gateway\<close> reports at the
  next calls (\<open>READY\<close> once they are used up) and the exceptions
  \<^verbatim>\<open>create_gateway_target\<close> raises at the next calls (it succeeds once they are used up).
  Calls take no time.
\<close>

record script =
  poll_statuses :: "string list"
  target_failures :: "exn list"

definition scripted :: "script clients" where
  "scripted =
     \<lparr>agentcore_list_gateways = (\<lambda>r. (Inr [], r)),
      agentcore_get_gateway = (\<lambda>gid r.
        case poll_statuses r of
          [] \<Rightarrow> (Inr \<lparr>gatewayId = gid, gw_name = ''demo'', gw_status = ''READY'',
                       gatewayUrl = None\<rparr>, r)
        | s # ss \<Rightarrow> (Inr \<lparr>gatewayId = gid, gw_name = ''demo'', gw_status = s,
                           gatewayUrl = None\<rparr>, r\<lparr>poll_statuses := ss\<rparr>)),
      agentcore_create_gateway = (\<lambda>nm description roleArn protocolType authorizerType
          allowedClients discoveryUrl r.
        (Inr \<lparr>gatewayId = ''gw-new'', gw_name = nm, gw_status = ''CREATING'',
              gatewayUrl = None\<rparr>, r)),
      agentcore_delete_gateway = (\<lambda>gid r. (Inr (), r)),
      agentcore_list_gateway_targets = (\<lambda>gid r. (Inr [], r)),
      agentcore_create_gateway_target = (\<lambda>gid nm description lambdaArn inlinePayload r.
        case target_failures r of
          [] \<Rightarrow> (Inr \<lparr>targetId = ''tgt-1''\<rparr>, r)
        | e # es \<Rightarrow> (Inl e, r\<lparr>target_failures := es\<rparr>)),
      agentcore_update_gateway_target = (\<lambda>gid tid nm lambdaArn inlinePayload r. (Inr (), r)),
      agentcore_delete_gateway_target = (\<lambda>gid tid r. (Inr (), r)),
      ssm_put_parameter = (\<lambda>Name Value r. (Inr (), r)),
      http_request = (\<lambda>url body r. (Inr (), r)),
      json_loads = (\<lambda>text. if text = ''[]'' then Inr (JArr []) else Inl (ValueError ''Expecting value'')),
      latency = (\<lambda>c r. 0)\<rparr>"

definition world0 :: "script world" where
  "world0 = \<lparr>remote = \<lparr>poll_statuses = [], target_failures = []\<rparr>, clock = 0, trace = []\<rparr>"

definition demo_props :: props where
  "demo_props = map_of
     [(''GatewayName'', ''demo''), (''LambdaArn'', ''arn:aws:lambda:fn''), (''ApiSpec'', ''[]''),
      (''GatewayRoleArn'', ''arn:aws:iam:role''), (''CognitoClientId'', ''client''),
      (''CognitoDiscoveryUrl'', ''https://idp''), (''Region'', ''us-east-1''),
      (''SsmPrefix'', ''/app'')]"

definition demo_event :: "string \<Rightarrow> event" where
  "demo_event request_type =
     \<lparr>RequestType = Some request_type, ResourceProperties = Some demo_props,
      OldResourceProperties = None, PhysicalResourceId = None, StackId = Some ''stack'',
      RequestId = Some ''req'', LogicalResourceId = Some ''Gateway'',
      ResponseURL = Some ''https://cfn''\<rparr>"

definition creating :: exn where
  "creating = Exception ''Gateway is CREATING''"

definition always_creating :: "script world" where
  "always_creating =
     world0\<lparr>remote := \<lparr>poll_statuses = [], target_failures = replicate 5 creating\<rparr>\<rparr>"

definition reported :: "string \<Rightarrow> string \<Rightarrow> gateway_record" where
  "reported gid s = \<lparr>gatewayId = gid, gw_name = ''demo'', gw_status = s, gatewayUrl = None\<rparr>"

definition polls :: "string list \<Rightarrow> script world" where
  "polls statuses = world0\<lparr>remote := \<lparr>poll_statuses = statuses, target_failures = []\<rparr>\<rparr>"

definition network_down :: "script clients" where
  "network_down =
     scripted\<lparr>agentcore_list_gateway_targets := (\<lambda>gid r. (Inl (Exception ''network error''), r))\<rparr>"

definition already_deleted :: "script clients" where
  "already_deleted =
     scripted\<lparr>agentcore_delete_gateway :=
                (\<lambda>gid r. (Inl (Exception ''ResourceNotFoundException''), r))\<rparr>"

definition delete_event :: event where
  "delete_event = (demo_event ''Delete'')\<lparr>PhysicalResourceId := Some ''gw-1''\<rparr>"

definition deleted_body :: response_body where
  "deleted_body =
     \<lparr>Status = ''SUCCESS'', Reason = ''SUCCESS: See CloudWatch logs'',
      body_PhysicalResourceId = ''gw-1'', body_StackId = ''stack'', body_RequestId = ''req'',
      body_LogicalResourceId = ''Gateway'', Data = []\<rparr>"

definition http_down :: "script clients" where
  "http_down =
     scripted\<lparr>http_request := (\<lambda>url body r. (Inl (Exception ''connection refused''), r))\<rparr>"

definition silent_failure :: "script clients" where
  "silent_failure =
     scripted\<lparr>agentcore_create_gateway :=
       (\<lambda>nm description roleArn protocolType authorizerType allowedClients discoveryUrl r.
          (Inl (Exception []), r))\<rparr>"

definition unknown_body :: response_body where
  "unknown_body =
     \<lparr>Status = ''FAILED'', Reason = ''Unknown request type: Replace'',
      body_PhysicalResourceId = ''NONE'', body_StackId = ''stack'', body_RequestId = ''req'',
      body_LogicalResourceId = ''Gateway'', Data = []\<rparr>"

definition update_event :: event where
  "update_event =
     (demo_event ''Update'')\<lparr>OldResourceProperties := Some demo_props,
                              PhysicalResourceId := Some ''gw-1''\<rparr>"

definition blank_url :: "script clients" where
  "blank_url =
     scripted\<lparr>agentcore_get_gateway := (\<lambda>gid r.
       (Inr \<lparr>gatewayId = gid, gw_name = ''demo'', gw_status = ''READY'', gatewayUrl = Some []\<rparr>, r))\<rparr>"

definition updated_body :: response_body where
  "updated_body =
     \<lparr>Status = ''SUCCESS'', Reason = ''SUCCESS: See CloudWatch logs'',
      body_PhysicalResourceId = ''gw-1'', body_StackId = ''stack'', body_RequestId = ''req'',
      body_LogicalResourceId = ''Gateway'',
      Data = [(''GatewayId'', ''gw-1''),
              (''GatewayUrl'', ''https://gw-1.gateway.bedrock-agentcore.us-east-1.amazonaws.com/mcp''),
              (''TargetId'', ''tgt-1'')]\<rparr>"

definition updated_trace :: "gateway_record \<Rightarrow> (call \<times> reply) list" where
  "updated_trace d =
     [(ListGatewayTargets ''gw-1'', Targets []),
      (CreateGatewayTarget ''gw-1'' ''GASPAgent'' ''GASP Agent Lambda Target''
         ''arn:aws:lambda:fn'' (JArr []), Target \<lparr>targetId = ''tgt-1''\<rparr>),
      (GetGateway ''gw-1'', Gateway d),
      (PutParameter ''/app/target_id'' ''tgt-1'', Done),
      (PutParameter ''/app/gateway_id'' ''gw-1'', Done),
      (HttpPut ''https://cfn'' updated_body, Done)]"

definition created_body :: response_body where
  "created_body =
     \<lparr>Status = ''SUCCESS'', Reason = ''SUCCESS: See CloudWatch logs'',
      body_PhysicalResourceId = ''gw-new'', body_StackId = ''stack'', body_RequestId = ''req'',
      body_LogicalResourceId = ''Gateway'',
      Data = [(''GatewayId'', ''gw-new''),
              (''GatewayUrl'', ''https://gw-new.gateway.bedrock-agentcore.us-east-1.amazonaws.com/mcp''),
              (''TargetId'', ''tgt-1'')]\<rparr>"

definition created_trace :: "(call \<times> reply) list" where
  "created_trace =
     [(ListGateways, Gateways []),
      (CreateGateway ''demo'' ''GASP Gateway (CDK Managed)'' ''arn:aws:iam:role'' ''MCP''
         ''CUSTOM_JWT'' [''client''] ''https://idp'',
       Gateway \<lparr>gatewayId = ''gw-new'', gw_name = ''demo'', gw_status = ''CREATING'',
                gatewayUrl = None\<rparr>),
      (GetGateway ''gw-new'', Gateway (reported ''gw-new'' ''READY'')),
      (GetGateway ''gw-new'', Gateway (reported ''gw-new'' ''READY'')),
      (CreateGatewayTarget ''gw-new'' ''GASPAgent'' ''GASP Agent Lambda Target''
         ''arn:aws:lambda:fn'' (JArr []), Target \<lparr>targetId = ''tgt-1''\<rparr>),
      (PutParameter ''/app/target_id'' ''tgt-1'', Done),
      (PutParameter ''/app/gateway_id'' ''gw-new'', Done),
      (HttpPut ''https://cfn'' created_body, Done)]"

definition renamed_event :: event where
  "renamed_event =
     (demo_event ''Update'')\<lparr>OldResourceProperties := Some (demo_props(''GatewayName'' \<mapsto> ''old'')),
                              PhysicalResourceId := Some ''gw-1''\<rparr>"

definition renamed_same_id_event :: event where
  "renamed_same_id_event =
     (demo_event ''Update'')\<lparr>OldResourceProperties := Some (demo_props(''GatewayName'' \<mapsto> ''old'')),
                              PhysicalResourceId := Some ''gw-new''\<rparr>"

definition listed_but_throttled :: "script clients" where
  "listed_but_throttled =
     scripted\<lparr>agentcore_list_gateways := (\<lambda>r. (Inr [reported ''gw-1'' ''READY''], r)),
              agentcore_get_gateway := (\<lambda>gid r.
                if gid = ''gw-1'' then (Inl (Exception ''ThrottlingException''), r)
                else (Inr (reported gid ''READY''), r))\<rparr>"

definition listed :: "script clients" where
  "listed =
     scripted\<lparr>agentcore_list_gateways := (\<lambda>r. (Inr [reported ''gw-1'' ''READY''], r)),
              agentcore_list_gateway_targets := (\<lambda>gid r. (Inr [\<lparr>targetId = ''tgt-1''\<rparr>], r))\<rparr>"

definition reused_trace :: "(call \<times> reply) list" where
  "reused_trace =
     [(ListGateways, Gateways [reported ''gw-1'' ''READY'']),
      (GetGateway ''gw-1'', Gateway (reported ''gw-1'' ''READY'')),
      (ListGatewayTargets ''gw-1'', Targets [\<lparr>targetId = ''tgt-1''\<rparr>]),
      (UpdateGatewayTarget ''gw-1'' ''tgt-1'' ''GASPAgent'' ''arn:aws:lambda:fn'' (JArr []), Done),
      (PutParameter ''/app/target_id'' ''tgt-1'', Done),
      (PutParameter ''/app/gateway_id'' ''gw-1'', Done),
      (HttpPut ''https://cfn'' updated_body, Done)]"

definition deleted_trace :: "(call \<times> reply) list" where
  "deleted_trace =
     [(ListGatewayTargets ''gw-1'', Targets []),
      (DeleteGateway ''gw-1'', Done),
      (HttpPut ''https://cfn'' deleted_body, Done)]"





subsection \<open>Notions used to state the properties\<close>

text \<open>The condition under which \<^verbatim>\<open>create_target_with_retry\<close> retries.\<close>

definition gateway_not_ready :: "exn \<Rightarrow> bool" where
  "gateway_not_ready e = (str_in ''CREATING'' (str e) \<or> str_in ''UPDATING'' (str e))"

text \<open>The trace of failed attempts of a call \<open>c\<close>, each followed by its backoff sleep.\<close>

definition retry_entries :: "call \<Rightarrow> (nat \<times> exn) list \<Rightarrow> (call \<times> reply) list" where
  "retry_entries c failed =
     concat (map (\<lambda>(attempt, e). [(c, Raised e), (Sleep (2 ^ attempt), Done)]) failed)"

text \<open>The trace of polls that saw the gateways \<open>seen\<close>, each followed by the 10 second sleep.\<close>

definition poll_entries :: "string \<Rightarrow> gateway_record list \<Rightarrow> (call \<times> reply) list" where
  "poll_entries gateway_id seen =
     concat (map (\<lambda>d. [(GetGateway gateway_id, Gateway d), (Sleep 10, Done)]) seen)"

text \<open>The calls of the best-effort teardown of \<^verbatim>\<open>delete_gateway\<close>.\<close>

definition teardown_call :: "string \<Rightarrow> call \<Rightarrow> bool" where
  "teardown_call gateway_id c =
     (case c of
        ListGatewayTargets g \<Rightarrow> g = gateway_id
      | DeleteGatewayTarget g t \<Rightarrow> g = gateway_id
      | Sleep n \<Rightarrow> n = 5
      | DeleteGateway g \<Rightarrow> g = gateway_id
      | _ \<Rightarrow> False)"

text \<open>An event that carries the four fields \<^verbatim>\<open>send_response\<close> reads with \<^verbatim>\<open>event[...]\<close>.\<close>

definition well_formed :: "event \<Rightarrow> bool" where
  "well_formed event =
     (StackId event \<noteq> None \<and> RequestId event \<noteq> None \<and> LogicalResourceId event \<noteq> None \<and>
      ResponseURL event \<noteq> None)"

text \<open>The body \<^verbatim>\<open>send_response\<close> builds.\<close>

definition body_of ::
  "event \<Rightarrow> string \<Rightarrow> string option \<Rightarrow> (string \<times> string) list option \<Rightarrow> string option
    \<Rightarrow> response_body" where
  "body_of event status reason data physical_resource_id =
     \<lparr>Status = status,
      Reason = (case reason of None \<Rightarrow> status @ '': See CloudWatch logs''
                | Some r \<Rightarrow> if r = [] then status @ '': See CloudWatch logs'' else r),
      body_PhysicalResourceId =
        (case physical_resource_id of
           None \<Rightarrow> (case PhysicalResourceId event of None \<Rightarrow> ''NONE'' | Some p \<Rightarrow> p)
         | Some p \<Rightarrow>
             if p = [] then (case PhysicalResourceId event of None \<Rightarrow> ''NONE'' | Some p \<Rightarrow> p)
             else p),
      body_StackId = the (StackId event),
      body_RequestId = the (RequestId event),
      body_LogicalResourceId = the (LogicalResourceId event),
      Data = (case data of None \<Rightarrow> [] | Some d \<Rightarrow> d)\<rparr>"

definition issues_only :: "(call \<Rightarrow> bool) \<Rightarrow> ('r world \<Rightarrow> 'b \<times> 'r world) \<Rightarrow> bool" where
  "issues_only P m =
     (\<forall>w r w1. m w = (r, w1) \<longrightarrow> (\<exists>new. trace w1 = trace w @ new \<and> (\<forall>c\<in>fst ` set new. P c)))"

definition constructed_url :: "string \<Rightarrow> string \<Rightarrow> string" where
  "constructed_url gateway_id region =
     ''https://'' @ gateway_id @ ''.gateway.bedrock-agentcore.'' @ region @ ''.amazonaws.com/mcp''"

definition url_of :: "gateway_record \<Rightarrow> string \<Rightarrow> props \<Rightarrow> string option" where
  "url_of d gateway_id props =
     (case gatewayUrl d of
        Some u \<Rightarrow> if u \<noteq> [] then Some u
                  else map_option (constructed_url gateway_id) (props ''Region'')
      | None \<Rightarrow> map_option (constructed_url gateway_id) (props ''Region''))"

definition success_data :: "string \<Rightarrow> string \<Rightarrow> string \<Rightarrow> (string \<times> string) list" where
  "success_data gateway_id gateway_url target_id =
     [(''GatewayId'', gateway_id), (''GatewayUrl'', gateway_url), (''TargetId'', target_id)]"

text \<open>The statements that end each successful path: persist, resolve the URL, report.\<close>

definition persist_and_report ::
  "'r clients \<Rightarrow> event \<Rightarrow> props \<Rightarrow> gateway_record \<Rightarrow> string \<Rightarrow> string
    \<Rightarrow> 'r world \<Rightarrow> (exn + response_body) \<times> 'r world" where
  "persist_and_report cl event props gateway_details gateway_id target_id =
     and_then (update_ssm_parameters cl gateway_details target_id props) (\<lambda>_.
     and_then (gateway_url_or_constructed gateway_details gateway_id props) (\<lambda>gateway_url.
     send_response cl event ''SUCCESS'' None
       (Some [(''GatewayId'', gateway_id), (''GatewayUrl'', gateway_url),
              (''TargetId'', target_id)])
       (Some gateway_id)))"

definition gets_gateway :: "call \<Rightarrow> bool" where
  "gets_gateway c = (case c of GetGateway g \<Rightarrow> True | _ \<Rightarrow> False)"

text \<open>The branch of \<^verbatim>\<open>update_gateway\<close> for an unchanged name.\<close>

definition update_in_place ::
  "'r clients \<Rightarrow> event \<Rightarrow> props \<Rightarrow> string \<Rightarrow> string \<Rightarrow> json
    \<Rightarrow> 'r world \<Rightarrow> (exn + response_body) \<times> 'r world" where
  "update_in_place cl event props gateway_id lambda_arn api_spec =
     and_then (create_or_update_target cl gateway_id lambda_arn api_spec) (\<lambda>target_id.
     and_then (call_get_gateway cl gateway_id) (\<lambda>gateway_details.
     persist_and_report cl event props gateway_details gateway_id target_id))"

text \<open>Every call but a parameter write; of the parameter writes, those of
  \<open>target_id\<close> and \<open>gateway_id\<close> under the prefix of the properties.\<close>

definition plain_call :: "props \<Rightarrow> call \<Rightarrow> bool" where
  "plain_call props c =
     (case c of
        PutParameter n v \<Rightarrow>
          (case props ''SsmPrefix'' of
             None \<Rightarrow> False
           | Some p \<Rightarrow> n = p @ ''/target_id'' \<or> n = p @ ''/gateway_id'')
      | _ \<Rightarrow> True)"

definition fetched :: "'r clients \<Rightarrow> string \<Rightarrow> gateway_record \<Rightarrow> bool" where
  "fetched cl gid d = (\<exists>r r1. agentcore_get_gateway cl gid r = (Inr d, r1))"

text \<open>Between the traces \<open>tr0\<close> and \<open>tr1\<close>, a body that carries data reports the URL
  resolved from the gateway record that was fetched last.\<close>

definition url_from_last_fetch ::
  "'r clients \<Rightarrow> props \<Rightarrow> (call \<times> reply) list \<Rightarrow> (call \<times> reply) list \<Rightarrow> response_body \<Rightarrow> bool" where
  "url_from_last_fetch cl props tr0 tr1 body =
     (Data body = [] \<or>
      (\<exists>pre gid d post u tid.
         tr1 = tr0 @ pre @ (GetGateway gid, Gateway d) # post \<and>
         (\<forall>c\<in>fst ` set post. \<not> gets_gateway c) \<and>
         fetched cl gid d \<and>
         url_of d gid props = Some u \<and>
         Data body = success_data gid u tid))"

definition reports_last_fetched ::
  "'r clients \<Rightarrow> props \<Rightarrow> ('r world \<Rightarrow> (exn + response_body) \<times> 'r world) \<Rightarrow> bool" where
  "reports_last_fetched cl props m =
     (\<forall>w body w1. m w = (Inr body, w1) \<longrightarrow>
        url_from_last_fetch cl props (trace w) (trace w1) body)"

text \<open>The callbacks in a trace: the bodies put, each with what the PUT came back with.\<close>

definition callbacks :: "(call \<times> reply) list \<Rightarrow> (response_body \<times> reply) list" where
  "callbacks tr =
     concat (map (\<lambda>(c, rep). case c of HttpPut url body \<Rightarrow> [(body, rep)] | _ \<Rightarrow> []) tr)"

text \<open>\<^verbatim>\<open>old_props.get("GatewayName")\<close>\<close>

definition old_gateway_name :: "event \<Rightarrow> string option" where
  "old_gateway_name event =
     (case OldResourceProperties event of None \<Rightarrow> Map.empty | Some p \<Rightarrow> p) ''GatewayName''"

text \<open>The calls of an update in place of the gateway \<open>gateway_id\<close>.\<close>

definition in_place_call :: "string \<Rightarrow> call \<Rightarrow> bool" where
  "in_place_call gateway_id c =
     (case c of
        ListGatewayTargets g \<Rightarrow> g = gateway_id
      | UpdateGatewayTarget g t nm arn spec \<Rightarrow> g = gateway_id
      | CreateGatewayTarget g nm description arn spec \<Rightarrow> g = gateway_id
      | GetGateway g \<Rightarrow> g = gateway_id
      | Sleep n \<Rightarrow> True
      | PutParameter n v \<Rightarrow> True
      | HttpPut url body \<Rightarrow> True
      | _ \<Rightarrow> False)"

definition target_call :: "call \<Rightarrow> bool" where
  "target_call c =
     (case c of
        ListGatewayTargets g \<Rightarrow> True
      | UpdateGatewayTarget g t nm arn spec \<Rightarrow> True
      | CreateGatewayTarget g nm description arn spec \<Rightarrow> True
      | _ \<Rightarrow> False)"

text \<open>The calls of the retry loop for the gateway \<open>gateway_id\<close>, with its five backoffs.\<close>

definition retry_call :: "string \<Rightarrow> call \<Rightarrow> bool" where
  "retry_call gateway_id c =
     (case c of
        CreateGatewayTarget g nm description arn spec \<Rightarrow> g = gateway_id
      | Sleep n \<Rightarrow> n \<in> {1, 2, 4, 8, 16}
      | _ \<Rightarrow> False)"

definition persists_or_reports :: "call \<Rightarrow> bool" where
  "persists_or_reports c =
     (case c of PutParameter n v \<Rightarrow> True | HttpPut url body \<Rightarrow> True | _ \<Rightarrow> False)"

text \<open>The traces of \<^verbatim>\<open>create_or_update_target\<close>: the listed target is updated and nothing
  else happens, or, with no target listed or after an exception, the retry loop runs.\<close>

definition target_trace :: "string \<Rightarrow> string \<Rightarrow> json \<Rightarrow> (call \<times> reply) list \<Rightarrow> bool" where
  "target_trace gateway_id lambda_arn api_spec tr =
     ((\<exists>t ts. tr = [(ListGatewayTargets gateway_id, Targets (t # ts)),
                     (UpdateGatewayTarget gateway_id (targetId t) ''GASPAgent'' lambda_arn api_spec,
                      Done)]) \<or>
      (\<exists>first retry.
         tr = first @ retry \<and>
         (first = [(ListGatewayTargets gateway_id, Targets [])] \<or>
          (\<exists>e. first = [(ListGatewayTargets gateway_id, Raised e)]) \<or>
          (\<exists>t ts e. first = [(ListGatewayTargets gateway_id, Targets (t # ts)),
                             (UpdateGatewayTarget gateway_id (targetId t) ''GASPAgent'' lambda_arn
                                api_spec, Raised e)])) \<and>
         (\<forall>c\<in>fst ` set retry. retry_call gateway_id c)))"

text \<open>The calls that delete something.\<close>

definition deletes :: "call \<Rightarrow> bool" where
  "deletes c = (case c of DeleteGateway g \<Rightarrow> True | DeleteGatewayTarget g t \<Rightarrow> True | _ \<Rightarrow> False)"

text \<open>The callback.\<close>

definition reports :: "call \<Rightarrow> bool" where
  "reports c = (case c of HttpPut url body \<Rightarrow> True | _ \<Rightarrow> False)"

text \<open>The gateway ids the control plane gave in a trace, in order: at a listing, the id of
  the first gateway listed under the requested name; at a gateway creation, the id of the
  gateway created.\<close>

definition gateway_ids_given :: "props \<Rightarrow> (call \<times> reply) list \<Rightarrow> string list" where
  "gateway_ids_given props tr =
     concat (map (\<lambda>(c, rep).
       case c of
         ListGateways \<Rightarrow>
           (case rep of
              Gateways gws \<Rightarrow>
                (case find (\<lambda>gw. Some (gw_name gw) = props ''GatewayName'') gws of
                   None \<Rightarrow> []
                 | Some gw \<Rightarrow> [gatewayId gw])
            | _ \<Rightarrow> [])
       | CreateGateway nm description role protocol authorizer clients discovery \<Rightarrow>
           (case rep of Gateway d \<Rightarrow> [gatewayId d] | _ \<Rightarrow> [])
       | _ \<Rightarrow> []) tr)"

text \<open>A \<^verbatim>\<open>SUCCESS\<close> body for the gateway \<open>gateway_id\<close>; \<^verbatim>\<open>send_response\<close> falls back to the
  physical id of the event when the id is empty.\<close>

definition reports_gateway :: "event \<Rightarrow> string \<Rightarrow> response_body \<Rightarrow> bool" where
  "reports_gateway event gateway_id body =
     (Status body = ''SUCCESS'' \<and>
      (\<exists>u tid. Data body =
         [(''GatewayId'', gateway_id), (''GatewayUrl'', u), (''TargetId'', tid)]) \<and>
      body_PhysicalResourceId body =
        (if gateway_id = []
         then (case PhysicalResourceId event of None \<Rightarrow> ''NONE'' | Some p \<Rightarrow> p)
         else gateway_id))"

text \<open>The part of \<^verbatim>\<open>create_new_gateway\<close> after the gateway \<open>gid\<close> is created.\<close>

definition after_create ::
  "'r clients \<Rightarrow> event \<Rightarrow> props \<Rightarrow> string \<Rightarrow> json \<Rightarrow> string
    \<Rightarrow> 'r world \<Rightarrow> (exn + response_body) \<times> 'r world" where
  "after_create cl event props arn spec gid =
     and_then (wait_for_gateway_ready cl gid 120) (\<lambda>_.
     and_then (call_get_gateway cl gid) (\<lambda>gateway_details.
     and_then (create_target_with_retry cl gid arn spec 5) (\<lambda>target_id.
     persist_and_report cl event props gateway_details gid target_id)))"

section \<open>Properties\<close>

declare wait_loop.simps [simp del]

declare str_nat.simps [simp del]

lemmas run_defs = and_then_def try_except_def getitem_def ok_def raise_def invoke_def sleep_def
  py_or_def Let_def

lemma str_in_iff_sublist: "str_in sub s \<longleftrightarrow> sublist sub s"
  by (induction s) (auto simp: sublist_Cons_right)

lemma invoke_trace:
  "invoke cl c lg f w = (res, w1) \<Longrightarrow>
     trace w1 = trace w @ [(c, case res of Inl e \<Rightarrow> Raised e | Inr v \<Rightarrow> lg v)]"
  by (auto simp: invoke_def split: prod.splits)

lemma trace_sleep: "trace (sleep n w) = trace w @ [(Sleep n, Done)]"
  by (simp add: sleep_def)

lemma upt_5: "[0..<5] = [0, 1, 2, 3, 4]"
  by (simp add: upt_rec)

lemma str_nat_5: "str_nat 5 = ''5''"
  by (simp add: str_nat.simps)

lemma str_nat_5_Suc: "str_nat (Suc (Suc (Suc (Suc (Suc 0))))) = ''5''"
  using str_nat_5 by (simp add: numeral_eq_Suc)

lemma str_nat_120: "str_nat 120 = ''120''"
  by (simp add: str_nat.simps)

subsection \<open>The callback body\<close>

text \<open>
  C10. Whenever \<^verbatim>\<open>send_response\<close> sends a callback, it is one HTTP PUT to the event's
  \<^verbatim>\<open>ResponseURL\<close> whose body has the given status; with no reason supplied its
  \<^verbatim>\<open>Reason\<close> is the status followed by \<^verbatim>\<open>: See CloudWatch logs\<close>; with no physical
  resource id supplied its \<^verbatim>\<open>PhysicalResourceId\<close> is the event's, or \<^verbatim>\<open>NONE\<close> when the
  event has none; with no data supplied its \<^verbatim>\<open>Data\<close> is empty. The body returned is the
  body sent.
\<close>

theorem send_response_defaults:
  assumes "send_response cl event status reason data physical_resource_id w = (res, w1)"
    and "trace w1 \<noteq> trace w"
  shows "\<exists>url body rep.
           ResponseURL event = Some url \<and> trace w1 = trace w @ [(HttpPut url body, rep)] \<and>
           (\<forall>b. res = Inr b \<longrightarrow> b = body) \<and>
           Status body = status \<and>
           (reason = None \<longrightarrow> Reason body = status @ '': See CloudWatch logs'') \<and>
           (physical_resource_id = None \<longrightarrow>
              body_PhysicalResourceId body =
                (case PhysicalResourceId event of Some p \<Rightarrow> p | None \<Rightarrow> ''NONE'')) \<and>
           (data = None \<longrightarrow> Data body = [])"
  using assms
  by (auto simp: send_response_def run_defs split: option.splits prod.splits sum.splits)

theorem send_response_defaults_witness:
  "\<exists>res w1 url body rep.
     send_response scripted (demo_event ''Create'') ''SUCCESS'' None None None world0 = (res, w1) \<and>
     trace w1 \<noteq> trace world0 \<and>
     ResponseURL (demo_event ''Create'') = Some url \<and>
     trace w1 = trace world0 @ [(HttpPut url body, rep)] \<and>
     res = Inr body \<and>
     Status body = ''SUCCESS'' \<and>
     Reason body = ''SUCCESS: See CloudWatch logs'' \<and>
     body_PhysicalResourceId body = ''NONE'' \<and>
     Data body = []"
proof -
  obtain res w1 where run:
    "send_response scripted (demo_event ''Create'') ''SUCCESS'' None None None world0 = (res, w1)"
    by (cases "send_response scripted (demo_event ''Create'') ''SUCCESS'' None None None world0")
  then have sent: "trace w1 \<noteq> trace world0" and returned: "\<exists>b. res = Inr b"
    by (auto simp: send_response_def run_defs scripted_def demo_event_def world0_def)
  from send_response_defaults[OF run sent] returned run sent show ?thesis
    by (auto simp: demo_event_def)
qed

subsection \<open>Target creation with retry\<close>

lemma create_target_attempts_spec:
  assumes "create_target_attempts cl gid arn spec n as w = (res, w1)"
  shows "\<exists>es. length es \<le> length as \<and> (\<forall>e\<in>set es. gateway_not_ready e) \<and>
     (let c = CreateGatewayTarget gid ''GASPAgent'' ''GASP Agent Lambda Target'' arn spec;
          retried = retry_entries c (zip as es)
      in (length es < length as \<and>
            (\<exists>t. trace w1 = trace w @ retried @ [(c, Target t)] \<and> res = Inr (targetId t))) \<or>
         (length es < length as \<and>
            (\<exists>e. \<not> gateway_not_ready e \<and> trace w1 = trace w @ retried @ [(c, Raised e)] \<and>
                 res = Inl e)) \<or>
         (length es = length as \<and> trace w1 = trace w @ retried \<and>
            res = Inl (Exception (''Failed to create target after '' @ str_nat n @ '' attempts''))))"
  using assms
proof (induction as arbitrary: w)
  case Nil
  then show ?case by (auto simp: retry_entries_def)
next
  case (Cons a as)
  let ?c = "CreateGatewayTarget gid ''GASPAgent'' ''GASP Agent Lambda Target'' arn spec"
  obtain r w' where call: "call_create_gateway_target cl gid ''GASPAgent''
      ''GASP Agent Lambda Target'' arn spec w = (r, w')"
    by (cases "call_create_gateway_target cl gid ''GASPAgent''
      ''GASP Agent Lambda Target'' arn spec w")
  then have tr: "trace w' = trace w @ [(?c, case r of Inl e \<Rightarrow> Raised e | Inr v \<Rightarrow> Target v)]"
    unfolding call_create_gateway_target_def by (rule invoke_trace)
  show ?case
  proof (cases r)
    case (Inr t)
    with Cons.prems call tr have "trace w1 = trace w @ [(?c, Target t)]" "res = Inr (targetId t)"
      by auto
    then show ?thesis
      by (intro exI[of _ "[]"]) (simp add: retry_entries_def)
  next
    case (Inl e)
    show ?thesis
    proof (cases "gateway_not_ready e")
      case False
      with Inl Cons.prems call tr have "trace w1 = trace w @ [(?c, Raised e)]" "res = Inl e"
        by (auto simp: gateway_not_ready_def)
      with False show ?thesis
        by (intro exI[of _ "[]"]) (auto simp add: retry_entries_def)
    next
      case True
      with Inl Cons.prems call
      have rest: "create_target_attempts cl gid arn spec n as (sleep (2 ^ a) w') = (res, w1)"
        by (auto simp: gateway_not_ready_def)
      have tr2: "trace (sleep (2 ^ a) w') = trace w @ retry_entries ?c [(a, e)]"
        using tr Inl by (simp add: trace_sleep retry_entries_def)
      from Cons.IH[OF rest] obtain es where es:
        "length es \<le> length as" "\<forall>e\<in>set es. gateway_not_ready e"
        "(length es < length as \<and>
            (\<exists>t. trace w1 = trace (sleep (2 ^ a) w') @ retry_entries ?c (zip as es)
                     @ [(?c, Target t)] \<and> res = Inr (targetId t))) \<or>
         (length es < length as \<and>
            (\<exists>e. \<not> gateway_not_ready e \<and>
                 trace w1 = trace (sleep (2 ^ a) w') @ retry_entries ?c (zip as es)
                     @ [(?c, Raised e)] \<and>
                 res = Inl e)) \<or>
         (length es = length as \<and>
            trace w1 = trace (sleep (2 ^ a) w') @ retry_entries ?c (zip as es) \<and>
            res = Inl (Exception (''Failed to create target after '' @ str_nat n
                                    @ '' attempts'')))"
        unfolding Let_def by blast
      have cat: "retry_entries ?c [(a, e)] @ retry_entries ?c (zip as es)
                 = retry_entries ?c (zip (a # as) (e # es))"
        by (simp add: retry_entries_def)
      show ?thesis
        apply (rule exI[of _ "e # es"])
        using es True unfolding Let_def tr2 cat[symmetric]
        by auto
    qed
  qed
qed

lemma zip_upt_take: "length es \<le> n \<Longrightarrow> zip [0..<n] es = zip [0..<length es] es"
proof -
  assume le: "length es \<le> n"
  have "zip [0..<n] es = take (length es) (zip [0..<n] es)"
    using le by simp
  also have "\<dots> = zip (take (length es) [0..<n]) (take (length es) es)"
    by (simp only: take_zip)
  also have "\<dots> = zip [0..<length es] es"
    using le by simp
  finally show ?thesis .
qed

text \<open>
  C5. \<^verbatim>\<open>create_target_with_retry\<close> issues the create call at most \<open>max_retries\<close> times
  (5 by default). Every attempt but the last one made failed with an exception whose
  text contains \<^verbatim>\<open>CREATING\<close> or \<^verbatim>\<open>UPDATING\<close>, and was followed by a sleep of
  \<open>2 ^ attempt\<close> seconds, the attempts counted from 0. The run ends in one of three
  ways: an attempt succeeds and its target id is returned; an attempt fails with any
  other exception, which propagates at once with no sleep and no further attempt; or all
  \<open>max_retries\<close> attempts failed as not ready, and the exception
  \<^verbatim>\<open>Failed to create target after <max_retries> attempts\<close> is raised.
\<close>

theorem create_target_with_retry_spec:
  assumes "create_target_with_retry cl gateway_id lambda_arn api_spec max_retries w = (res, w1)"
  shows "\<exists>es. length es \<le> max_retries \<and> (\<forall>e\<in>set es. gateway_not_ready e) \<and>
     (let c = CreateGatewayTarget gateway_id ''GASPAgent'' ''GASP Agent Lambda Target''
                lambda_arn api_spec;
          retried = retry_entries c (zip [0..<length es] es)
      in (length es < max_retries \<and>
            (\<exists>t. trace w1 = trace w @ retried @ [(c, Target t)] \<and> res = Inr (targetId t))) \<or>
         (length es < max_retries \<and>
            (\<exists>e. \<not> gateway_not_ready e \<and> trace w1 = trace w @ retried @ [(c, Raised e)] \<and>
                 res = Inl e)) \<or>
         (length es = max_retries \<and> trace w1 = trace w @ retried \<and>
            res = Inl (Exception (''Failed to create target after '' @ str_nat max_retries
                                    @ '' attempts''))))"
proof -
  from create_target_attempts_spec[OF assms[unfolded create_target_with_retry_def]]
  obtain es where es: "length es \<le> max_retries" "\<forall>e\<in>set es. gateway_not_ready e"
    and d: "(let c = CreateGatewayTarget gateway_id ''GASPAgent'' ''GASP Agent Lambda Target''
                lambda_arn api_spec;
          retried = retry_entries c (zip [0..<max_retries] es)
      in (length es < length [0..<max_retries] \<and>
            (\<exists>t. trace w1 = trace w @ retried @ [(c, Target t)] \<and> res = Inr (targetId t))) \<or>
         (length es < length [0..<max_retries] \<and>
            (\<exists>e. \<not> gateway_not_ready e \<and> trace w1 = trace w @ retried @ [(c, Raised e)] \<and>
                 res = Inl e)) \<or>
         (length es = length [0..<max_retries] \<and> trace w1 = trace w @ retried \<and>
            res = Inl (Exception (''Failed to create target after '' @ str_nat max_retries
                                    @ '' attempts''))))"
    by auto
  show ?thesis
    apply (rule exI[of _ es])
    using es d[unfolded zip_upt_take[OF es(1)]] by simp
qed

lemma always_creating_run:
  "create_target_with_retry scripted ''gw-1'' ''arn'' (JArr []) 5 always_creating =
   (Inl (Exception ''Failed to create target after 5 attempts''),
    \<lparr>remote = \<lparr>poll_statuses = [], target_failures = []\<rparr>, clock = 31,
     trace = retry_entries
        (CreateGatewayTarget ''gw-1'' ''GASPAgent'' ''GASP Agent Lambda Target'' ''arn'' (JArr []))
        [(0, creating), (1, creating), (2, creating), (3, creating), (4, creating)]\<rparr>)"
  by (simp add: create_target_with_retry_def upt_5 str_nat_5_Suc call_create_gateway_target_def
      run_defs scripted_def world0_def always_creating_def creating_def retry_entries_def
      numeral_eq_Suc)

theorem create_target_with_retry_spec_witness:
  "\<exists>res w1 es.
     create_target_with_retry scripted ''gw-1'' ''arn'' (JArr []) 5 always_creating = (res, w1) \<and>
     res = Inl (Exception ''Failed to create target after 5 attempts'') \<and>
     clock w1 = clock always_creating + 1 + 2 + 4 + 8 + 16 \<and>
     length es \<le> 5 \<and> (\<forall>e\<in>set es. gateway_not_ready e) \<and>
     (let c = CreateGatewayTarget ''gw-1'' ''GASPAgent'' ''GASP Agent Lambda Target''
                ''arn'' (JArr []);
          retried = retry_entries c (zip [0..<length es] es)
      in (length es < 5 \<and>
            (\<exists>t. trace w1 = trace always_creating @ retried @ [(c, Target t)] \<and>
                 res = Inr (targetId t))) \<or>
         (length es < 5 \<and>
            (\<exists>e. \<not> gateway_not_ready e \<and>
                 trace w1 = trace always_creating @ retried @ [(c, Raised e)] \<and> res = Inl e)) \<or>
         (length es = 5 \<and> trace w1 = trace always_creating @ retried \<and>
            res = Inl (Exception (''Failed to create target after '' @ str_nat 5
                                    @ '' attempts''))))"
proof -
  note run = always_creating_run
  from create_target_with_retry_spec[OF run] obtain es where
    "length es \<le> 5 \<and> (\<forall>e\<in>set es. gateway_not_ready e) \<and>
     (let c = CreateGatewayTarget ''gw-1'' ''GASPAgent'' ''GASP Agent Lambda Target''
                ''arn'' (JArr []);
          retried = retry_entries c (zip [0..<length es] es)
      in (length es < 5 \<and>
            (\<exists>t. trace \<lparr>remote = \<lparr>poll_statuses = [], target_failures = []\<rparr>, clock = 31,
     trace = retry_entries
        (CreateGatewayTarget ''gw-1'' ''GASPAgent'' ''GASP Agent Lambda Target'' ''arn'' (JArr []))
        [(0, creating), (1, creating), (2, creating), (3, creating), (4, creating)]\<rparr>
                 = trace always_creating @ retried @ [(c, Target t)] \<and>
                 (Inl (Exception ''Failed to create target after 5 attempts'') :: exn + string)
                   = Inr (targetId t))) \<or>
         (length es < 5 \<and>
            (\<exists>e. \<not> gateway_not_ready e \<and>
                 trace \<lparr>remote = \<lparr>poll_statuses = [], target_failures = []\<rparr>, clock = 31,
     trace = retry_entries
        (CreateGatewayTarget ''gw-1'' ''GASPAgent'' ''GASP Agent Lambda Target'' ''arn'' (JArr []))
        [(0, creating), (1, creating), (2, creating), (3, creating), (4, creating)]\<rparr>
                 = trace always_creating @ retried @ [(c, Raised e)] \<and>
                 (Inl (Exception ''Failed to create target after 5 attempts'') :: exn + string)
                   = Inl e)) \<or>
         (length es = 5 \<and>
            trace \<lparr>remote = \<lparr>poll_statuses = [], target_failures = []\<rparr>, clock = 31,
     trace = retry_entries
        (CreateGatewayTarget ''gw-1'' ''GASPAgent'' ''GASP Agent Lambda Target'' ''arn'' (JArr []))
        [(0, creating), (1, creating), (2, creating), (3, creating), (4, creating)]\<rparr>
              = trace always_creating @ retried \<and>
            (Inl (Exception ''Failed to create target after 5 attempts'') :: exn + string) =
            Inl (Exception (''Failed to create target after '' @ str_nat 5
                                    @ '' attempts''))))"
    by blast
  then show ?thesis
    unfolding run
    apply (intro exI conjI)
         apply (rule refl)
        apply (rule refl)
       apply (simp add: always_creating_def world0_def)
      apply (erule conjunct1)
     apply (erule conjunct2[THEN conjunct1])
    apply (erule conjunct2[THEN conjunct2])
    done
qed

subsection \<open>Waiting for the gateway\<close>

lemma clock_invoke: "invoke cl c lg f w = (res, w1) \<Longrightarrow> clock w \<le> clock w1"
  by (auto simp: invoke_def split: prod.splits)

lemma clock_sleep: "clock (sleep n w) = clock w + n"
  by (simp add: sleep_def)

lemma wait_loop_spec:
  assumes "wait_loop cl gid max_wait start w = (res, w1)" and "start \<le> clock w"
  shows "\<exists>seen. (\<forall>d\<in>set seen. gw_status d \<notin> {''READY'', ''FAILED'', ''DELETING''}) \<and>
     ((clock w - start + 10 * length seen < max_wait \<and>
         (\<exists>d. gw_status d = ''READY'' \<and>
              trace w1 = trace w @ poll_entries gid seen @ [(GetGateway gid, Gateway d)] \<and>
              res = Inr ())) \<or>
      (clock w - start + 10 * length seen < max_wait \<and>
         (\<exists>d. gw_status d \<in> {''FAILED'', ''DELETING''} \<and>
              trace w1 = trace w @ poll_entries gid seen @ [(GetGateway gid, Gateway d)] \<and>
              res = Inl (Exception (''Gateway in unexpected status: '' @ gw_status d)))) \<or>
      (clock w - start + 10 * length seen < max_wait \<and>
         (\<exists>e. trace w1 = trace w @ poll_entries gid seen @ [(GetGateway gid, Raised e)] \<and>
              res = Inl e)) \<or>
      ((seen = [] \<or> clock w - start + 10 * length seen < max_wait + 10) \<and>
         max_wait \<le> clock w1 - start \<and>
         trace w1 = trace w @ poll_entries gid seen \<and>
         res = Inl (Exception (''Gateway not ready after '' @ str_nat max_wait @ ''s''))))"
  using assms
proof (induction cl gid max_wait start w rule: wait_loop.induct)
  case (1 cl gid max_wait start w)
  show ?case
  proof (cases "clock w - start < max_wait")
    case False
    with "1.prems" have "w1 = w" "res = Inl (Exception (''Gateway not ready after '' @ str_nat max_wait @ ''s''))"
      by (simp_all add: wait_loop.simps[of cl gid max_wait start w])
    with False show ?thesis
      by (intro exI[of _ "[]"]) (simp add: poll_entries_def)
  next
    case True
    obtain r w' where call: "call_get_gateway cl gid w = (r, w')"
      by (cases "call_get_gateway cl gid w")
    then have tr: "trace w' = trace w @ [(GetGateway gid, case r of Inl e \<Rightarrow> Raised e | Inr v \<Rightarrow> Gateway v)]"
      and ck: "clock w \<le> clock w'"
      unfolding call_get_gateway_def by (rule invoke_trace, rule clock_invoke)
    show ?thesis
    proof (cases r)
      case (Inl e)
      with "1.prems" True call tr have "trace w1 = trace w @ [(GetGateway gid, Raised e)]" "res = Inl e"
        by (simp_all add: wait_loop.simps[of cl gid max_wait start w])
      with True show ?thesis
        by (intro exI[of _ "[]"]) (simp add: poll_entries_def)
    next
      case (Inr d)
      consider (ready) "gw_status d = ''READY''"
        | (failed) "gw_status d \<noteq> ''READY''" "gw_status d \<in> {''FAILED'', ''DELETING''}"
        | (other) "gw_status d \<notin> {''READY'', ''FAILED'', ''DELETING''}"
        by blast
      then show ?thesis
      proof cases
        case ready
        with "1.prems" True call tr Inr
        have "trace w1 = trace w @ [(GetGateway gid, Gateway d)]" "res = Inr ()"
          by (simp_all add: wait_loop.simps[of cl gid max_wait start w])
        with True ready show ?thesis
          by (intro exI[of _ "[]"]) (auto simp add: poll_entries_def)
      next
        case failed
        with "1.prems" True call tr Inr
        have "trace w1 = trace w @ [(GetGateway gid, Gateway d)]"
          "res = Inl (Exception (''Gateway in unexpected status: '' @ gw_status d))"
          by (simp_all add: wait_loop.simps[of cl gid max_wait start w])
        with True failed show ?thesis
          by (intro exI[of _ "[]"]) (auto simp add: poll_entries_def)
      next
        case other
        then have o1: "gw_status d \<noteq> ''READY''" and o2: "gw_status d \<notin> set [''FAILED'', ''DELETING'']"
          by auto
        with "1.prems" True call Inr
        have rest: "wait_loop cl gid max_wait start (sleep 10 w') = (res, w1)"
          by (simp add: wait_loop.simps[of cl gid max_wait start w])
        have tr2: "trace (sleep 10 w') = trace w @ poll_entries gid [d]"
          using tr Inr by (simp add: trace_sleep poll_entries_def)
        have ck2: "clock w + 10 \<le> clock (sleep 10 w')"
          using ck by (simp add: clock_sleep)
        have st2: "start \<le> clock (sleep 10 w')"
          using ck "1.prems"(2) by (simp add: clock_sleep)
        from "1.IH"[OF True call[symmetric] Inr o1 o2 rest st2]
        obtain seen where seen: "\<forall>d\<in>set seen. gw_status d \<notin> {''READY'', ''FAILED'', ''DELETING''}"
          and d: "(clock (sleep 10 w') - start + 10 * length seen < max_wait \<and>
         (\<exists>d. gw_status d = ''READY'' \<and>
              trace w1 = trace (sleep 10 w') @ poll_entries gid seen @ [(GetGateway gid, Gateway d)] \<and>
              res = Inr ())) \<or>
      (clock (sleep 10 w') - start + 10 * length seen < max_wait \<and>
         (\<exists>d. gw_status d \<in> {''FAILED'', ''DELETING''} \<and>
              trace w1 = trace (sleep 10 w') @ poll_entries gid seen @ [(GetGateway gid, Gateway d)] \<and>
              res = Inl (Exception (''Gateway in unexpected status: '' @ gw_status d)))) \<or>
      (clock (sleep 10 w') - start + 10 * length seen < max_wait \<and>
         (\<exists>e. trace w1 = trace (sleep 10 w') @ poll_entries gid seen @ [(GetGateway gid, Raised e)] \<and>
              res = Inl e)) \<or>
      ((seen = [] \<or> clock (sleep 10 w') - start + 10 * length seen < max_wait + 10) \<and>
         max_wait \<le> clock w1 - start \<and>
         trace w1 = trace (sleep 10 w') @ poll_entries gid seen \<and>
         res = Inl (Exception (''Gateway not ready after '' @ str_nat max_wait @ ''s'')))"
          by blast
        have cat: "poll_entries gid [d] @ poll_entries gid seen = poll_entries gid (d # seen)"
          by (simp add: poll_entries_def)
        have b1: "clock w - start + 10 * length (d # seen) \<le> clock (sleep 10 w') - start + 10 * length seen"
          using ck2 "1.prems"(2) by simp
        have b2: "clock w - start + 10 * length [d] < max_wait + 10"
          using True by simp
        show ?thesis
          apply (rule exI[of _ "d # seen"])
          using seen other d b1 b2 unfolding tr2 cat[symmetric]
          apply (elim disjE conjE exE)
              apply (simp_all (no_asm_simp))
              apply auto
          done
      qed
    qed
  qed
qed

text \<open>
  C6. \<^verbatim>\<open>wait_for_gateway_ready\<close> polls \<^verbatim>\<open>get_gateway\<close> and sleeps 10 seconds after every
  poll that saw a status other than \<^verbatim>\<open>READY\<close>, \<^verbatim>\<open>FAILED\<close> and \<^verbatim>\<open>DELETING\<close>. It
  ends in one of four ways: a poll sees \<^verbatim>\<open>READY\<close> and it returns normally at once; a
  poll sees \<^verbatim>\<open>FAILED\<close> or \<^verbatim>\<open>DELETING\<close> and it raises at once an exception naming that
  status; a poll raises and the exception propagates; or \<open>max_wait\<close> seconds (120 by
  default) have passed at the start of a round and it raises
  \<^verbatim>\<open>Gateway not ready after <max_wait>s\<close>. A poll is only started while fewer than
  \<open>max_wait\<close> seconds have passed, so there are at most 12 polls for 120 seconds.
\<close>

theorem wait_for_gateway_ready_spec:
  assumes "wait_for_gateway_ready cl gateway_id max_wait w = (res, w1)"
  shows "\<exists>seen. (\<forall>d\<in>set seen. gw_status d \<notin> {''READY'', ''FAILED'', ''DELETING''}) \<and>
     ((10 * length seen < max_wait \<and>
         (\<exists>d. gw_status d = ''READY'' \<and>
              trace w1 = trace w @ poll_entries gateway_id seen
                           @ [(GetGateway gateway_id, Gateway d)] \<and>
              res = Inr ())) \<or>
      (10 * length seen < max_wait \<and>
         (\<exists>d. gw_status d \<in> {''FAILED'', ''DELETING''} \<and>
              trace w1 = trace w @ poll_entries gateway_id seen
                           @ [(GetGateway gateway_id, Gateway d)] \<and>
              res = Inl (Exception (''Gateway in unexpected status: '' @ gw_status d)))) \<or>
      (10 * length seen < max_wait \<and>
         (\<exists>e. trace w1 = trace w @ poll_entries gateway_id seen
                           @ [(GetGateway gateway_id, Raised e)] \<and>
              res = Inl e)) \<or>
      (10 * length seen < max_wait + 10 \<and>
         max_wait \<le> clock w1 - clock w \<and>
         trace w1 = trace w @ poll_entries gateway_id seen \<and>
         res = Inl (Exception (''Gateway not ready after '' @ str_nat max_wait @ ''s''))))"
proof -
  from wait_loop_spec[OF assms[unfolded wait_for_gateway_ready_def] order_refl]
  obtain seen where seen: "\<forall>d\<in>set seen. gw_status d \<notin> {''READY'', ''FAILED'', ''DELETING''}"
    and d: "(clock w - clock w + 10 * length seen < max_wait \<and>
         (\<exists>d. gw_status d = ''READY'' \<and>
              trace w1 = trace w @ poll_entries gateway_id seen @ [(GetGateway gateway_id, Gateway d)] \<and>
              res = Inr ())) \<or>
      (clock w - clock w + 10 * length seen < max_wait \<and>
         (\<exists>d. gw_status d \<in> {''FAILED'', ''DELETING''} \<and>
              trace w1 = trace w @ poll_entries gateway_id seen @ [(GetGateway gateway_id, Gateway d)] \<and>
              res = Inl (Exception (''Gateway in unexpected status: '' @ gw_status d)))) \<or>
      (clock w - clock w + 10 * length seen < max_wait \<and>
         (\<exists>e. trace w1 = trace w @ poll_entries gateway_id seen @ [(GetGateway gateway_id, Raised e)] \<and>
              res = Inl e)) \<or>
      ((seen = [] \<or> clock w - clock w + 10 * length seen < max_wait + 10) \<and>
         max_wait \<le> clock w1 - clock w \<and>
         trace w1 = trace w @ poll_entries gateway_id seen \<and>
         res = Inl (Exception (''Gateway not ready after '' @ str_nat max_wait @ ''s'')))"
    by blast
  have z: "clock w - clock w + 10 * length seen = 10 * length seen"
    by simp
  have e: "seen = [] \<or> 10 * length seen < max_wait + 10 \<Longrightarrow> 10 * length seen < max_wait + 10"
    by auto
  show ?thesis
    apply (rule exI[of _ seen])
    apply (rule conjI[OF seen])
    using d e unfolding z by blast
qed

lemma polls_ready_run:
  "wait_for_gateway_ready scripted ''gw-new'' 120 (polls [''CREATING'', ''CREATING'', ''READY'']) =
     (Inr (),
      \<lparr>remote = \<lparr>poll_statuses = [], target_failures = []\<rparr>, clock = 20,
       trace = poll_entries ''gw-new'' [reported ''gw-new'' ''CREATING'', reported ''gw-new'' ''CREATING'']
                @ [(GetGateway ''gw-new'', Gateway (reported ''gw-new'' ''READY''))]\<rparr>)"
  by (simp add: wait_for_gateway_ready_def wait_loop.simps call_get_gateway_def run_defs
      scripted_def world0_def polls_def poll_entries_def reported_def)

lemma polls_failed_run:
  "wait_for_gateway_ready scripted ''gw-new'' 120 (polls [''CREATING'', ''FAILED'']) =
     (Inl (Exception ''Gateway in unexpected status: FAILED''),
      \<lparr>remote = \<lparr>poll_statuses = [], target_failures = []\<rparr>, clock = 10,
       trace = poll_entries ''gw-new'' [reported ''gw-new'' ''CREATING'']
                @ [(GetGateway ''gw-new'', Gateway (reported ''gw-new'' ''FAILED''))]\<rparr>)"
  by (simp add: wait_for_gateway_ready_def wait_loop.simps call_get_gateway_def run_defs
      scripted_def world0_def polls_def poll_entries_def reported_def)

lemma replicate_13: "replicate 13 x = [x, x, x, x, x, x, x, x, x, x, x, x, x]"
  by (simp add: numeral_eq_Suc)

lemma replicate_12: "replicate 12 x = [x, x, x, x, x, x, x, x, x, x, x, x]"
  by (simp add: numeral_eq_Suc)

lemma polls_timeout_run:
  "wait_for_gateway_ready scripted ''gw-new'' 120 (polls (replicate 13 ''CREATING'')) =
     (Inl (Exception ''Gateway not ready after 120s''),
      \<lparr>remote = \<lparr>poll_statuses = [''CREATING''], target_failures = []\<rparr>, clock = 120,
       trace = poll_entries ''gw-new'' (replicate 12 (reported ''gw-new'' ''CREATING''))\<rparr>)"
  by (simp add: wait_for_gateway_ready_def wait_loop.simps call_get_gateway_def run_defs
      scripted_def world0_def polls_def poll_entries_def reported_def str_nat_120 replicate_12
      replicate_13)

theorem wait_for_gateway_ready_spec_witness:
  "(\<exists>res w1 seen.
      wait_for_gateway_ready scripted ''gw-new'' 120 (polls [''CREATING'', ''CREATING'', ''READY''])
        = (res, w1) \<and>
      res = Inr () \<and> length (trace w1) = 5 \<and>
      (\<forall>d\<in>set seen. gw_status d \<notin> {''READY'', ''FAILED'', ''DELETING''}) \<and>
      ((10 * length seen < 120 \<and>
         (\<exists>d. gw_status d = ''READY'' \<and>
              trace w1 = trace (polls [''CREATING'', ''CREATING'', ''READY''])
                           @ poll_entries ''gw-new'' seen
                           @ [(GetGateway ''gw-new'', Gateway d)] \<and>
              res = Inr ())) \<or>
      (10 * length seen < 120 \<and>
         (\<exists>d. gw_status d \<in> {''FAILED'', ''DELETING''} \<and>
              trace w1 = trace (polls [''CREATING'', ''CREATING'', ''READY''])
                           @ poll_entries ''gw-new'' seen
                           @ [(GetGateway ''gw-new'', Gateway d)] \<and>
              res = Inl (Exception (''Gateway in unexpected status: '' @ gw_status d)))) \<or>
      (10 * length seen < 120 \<and>
         (\<exists>e. trace w1 = trace (polls [''CREATING'', ''CREATING'', ''READY''])
                           @ poll_entries ''gw-new'' seen
                           @ [(GetGateway ''gw-new'', Raised e)] \<and>
              res = Inl e)) \<or>
      (10 * length seen < 120 + 10 \<and>
         120 \<le> clock w1 - clock (polls [''CREATING'', ''CREATING'', ''READY'']) \<and>
         trace w1 = trace (polls [''CREATING'', ''CREATING'', ''READY''])
                      @ poll_entries ''gw-new'' seen \<and>
         res = Inl (Exception (''Gateway not ready after '' @ str_nat 120 @ ''s''))))) \<and>
   (\<exists>w1. wait_for_gateway_ready scripted ''gw-new'' 120 (polls [''CREATING'', ''FAILED''])
           = (Inl (Exception ''Gateway in unexpected status: FAILED''), w1) \<and>
         length (trace w1) = 3 \<and> clock w1 = 10) \<and>
   (\<exists>w1. wait_for_gateway_ready scripted ''gw-new'' 120 (polls (replicate 13 ''CREATING''))
           = (Inl (Exception ''Gateway not ready after 120s''), w1) \<and>
         length (trace w1) = 24 \<and> clock w1 = 120)"
proof (intro conjI)
  note run = polls_ready_run
  have len: "length (trace (snd (wait_for_gateway_ready scripted ''gw-new'' 120
      (polls [''CREATING'', ''CREATING'', ''READY''])))) = 5"
    unfolding run by (simp add: poll_entries_def)
  from wait_for_gateway_ready_spec[OF run] len
  show "\<exists>res w1 seen.
      wait_for_gateway_ready scripted ''gw-new'' 120 (polls [''CREATING'', ''CREATING'', ''READY''])
        = (res, w1) \<and>
      res = Inr () \<and> length (trace w1) = 5 \<and>
      (\<forall>d\<in>set seen. gw_status d \<notin> {''READY'', ''FAILED'', ''DELETING''}) \<and>
      ((10 * length seen < 120 \<and>
         (\<exists>d. gw_status d = ''READY'' \<and>
              trace w1 = trace (polls [''CREATING'', ''CREATING'', ''READY''])
                           @ poll_entries ''gw-new'' seen
                           @ [(GetGateway ''gw-new'', Gateway d)] \<and>
              res = Inr ())) \<or>
      (10 * length seen < 120 \<and>
         (\<exists>d. gw_status d \<in> {''FAILED'', ''DELETING''} \<and>
              trace w1 = trace (polls [''CREATING'', ''CREATING'', ''READY''])
                           @ poll_entries ''gw-new'' seen
                           @ [(GetGateway ''gw-new'', Gateway d)] \<and>
              res = Inl (Exception (''Gateway in unexpected status: '' @ gw_status d)))) \<or>
      (10 * length seen < 120 \<and>
         (\<exists>e. trace w1 = trace (polls [''CREATING'', ''CREATING'', ''READY''])
                           @ poll_entries ''gw-new'' seen
                           @ [(GetGateway ''gw-new'', Raised e)] \<and>
              res = Inl e)) \<or>
      (10 * length seen < 120 + 10 \<and>
         120 \<le> clock w1 - clock (polls [''CREATING'', ''CREATING'', ''READY'']) \<and>
         trace w1 = trace (polls [''CREATING'', ''CREATING'', ''READY''])
                      @ poll_entries ''gw-new'' seen \<and>
         res = Inl (Exception (''Gateway not ready after '' @ str_nat 120 @ ''s''))))"
    unfolding run snd_conv by blast
next
  show "\<exists>w1. wait_for_gateway_ready scripted ''gw-new'' 120 (polls [''CREATING'', ''FAILED''])
           = (Inl (Exception ''Gateway in unexpected status: FAILED''), w1) \<and>
         length (trace w1) = 3 \<and> clock w1 = 10"
    unfolding polls_failed_run by (simp add: poll_entries_def)
next
  show "\<exists>w1. wait_for_gateway_ready scripted ''gw-new'' 120 (polls (replicate 13 ''CREATING''))
           = (Inl (Exception ''Gateway not ready after 120s''), w1) \<and>
         length (trace w1) = 24 \<and> clock w1 = 120"
    unfolding polls_timeout_run by (simp add: poll_entries_def replicate_12)
qed

subsection \<open>Deletion\<close>

lemma send_response_sent:
  assumes "well_formed event"
    and "send_response cl event status reason data physical_resource_id w = (res, w1)"
  shows "\<exists>rep. trace w1 = trace w @ [(HttpPut (the (ResponseURL event))
                    (body_of event status reason data physical_resource_id), rep)] \<and>
           ((rep = Done \<and> res = Inr (body_of event status reason data physical_resource_id)) \<or>
            (\<exists>e. rep = Raised e \<and> res = Inl e))"
  using assms
  by (auto simp: send_response_def well_formed_def body_of_def run_defs
      split: option.splits prod.splits sum.splits)

lemma delete_targets_trace:
  "delete_targets cl gid ts w = (r, w1) \<Longrightarrow>
     \<exists>new. trace w1 = trace w @ new \<and> (\<forall>c\<in>fst ` set new. teardown_call gid c)"
proof (induction ts arbitrary: w)
  case Nil
  then show ?case by simp
next
  case (Cons t ts)
  obtain r' w' where call: "call_delete_gateway_target cl gid (targetId t) w = (r', w')"
    by (cases "call_delete_gateway_target cl gid (targetId t) w")
  then have tr: "trace w' = trace w @ [(DeleteGatewayTarget gid (targetId t),
      case r' of Inl e \<Rightarrow> Raised e | Inr v \<Rightarrow> Done)]"
    unfolding call_delete_gateway_target_def by (rule invoke_trace)
  show ?case
  proof (cases r')
    case (Inl e)
    with Cons.prems call tr show ?thesis
      by (auto simp: teardown_call_def)
  next
    case (Inr u)
    with Cons.prems call have "delete_targets cl gid ts (sleep 5 w') = (r, w1)"
      by simp
    from Cons.IH[OF this] obtain new where
      "trace w1 = trace (sleep 5 w') @ new" "\<forall>c\<in>fst ` set new. teardown_call gid c"
      by blast
    with tr show ?thesis
      by (intro exI[of _ "[(DeleteGatewayTarget gid (targetId t),
            case r' of Inl e \<Rightarrow> Raised e | Inr v \<Rightarrow> Done), (Sleep 5, Done)] @ new"])
         (auto simp: trace_sleep teardown_call_def)
  qed
qed

lemma teardown_trace:
  assumes "try_except
          (and_then (call_list_gateway_targets cl gid) (\<lambda>targets.
           and_then (delete_targets cl gid targets) (\<lambda>_.
           call_delete_gateway cl gid)))
          (\<lambda>e. ok ()) w = (r, w1)"
  shows "r = Inr () \<and> (\<exists>new. trace w1 = trace w @ new \<and> (\<forall>c\<in>fst ` set new. teardown_call gid c))"
proof -
  obtain r1 wa where l: "call_list_gateway_targets cl gid w = (r1, wa)"
    by (cases "call_list_gateway_targets cl gid w")
  then have tr1: "trace wa = trace w @ [(ListGatewayTargets gid,
      case r1 of Inl e \<Rightarrow> Raised e | Inr v \<Rightarrow> Targets v)]"
    unfolding call_list_gateway_targets_def by (rule invoke_trace)
  show ?thesis
  proof (cases r1)
    case (Inl e)
    with assms l tr1 show ?thesis
      by (auto simp: try_except_def and_then_def ok_def teardown_call_def)
  next
    case (Inr targets)
    obtain r2 wb where d: "delete_targets cl gid targets wa = (r2, wb)"
      by (cases "delete_targets cl gid targets wa")
    from delete_targets_trace[OF d] obtain new where
      new: "trace wb = trace wa @ new" "\<forall>c\<in>fst ` set new. teardown_call gid c"
      by blast
    show ?thesis
    proof (cases r2)
      case (Inl e)
      with assms l Inr d have "r = Inr ()" "w1 = wb"
        by (auto simp: try_except_def and_then_def ok_def)
      with new tr1 show ?thesis
        by (auto simp: teardown_call_def)
    next
      case Inr2: (Inr u)
      obtain r3 wc where g: "call_delete_gateway cl gid wb = (r3, wc)"
        by (cases "call_delete_gateway cl gid wb")
      then have tr3: "trace wc = trace wb @ [(DeleteGateway gid,
          case r3 of Inl e \<Rightarrow> Raised e | Inr v \<Rightarrow> Done)]"
        unfolding call_delete_gateway_def by (rule invoke_trace)
      from assms l Inr d Inr2 g have "r = Inr ()" "w1 = wc"
        by (auto simp: try_except_def and_then_def ok_def split: sum.splits)
      with new tr1 tr3 show ?thesis
        by (auto simp: teardown_call_def)
    qed
  qed
qed

text \<open>
  C2. For every event that carries a physical id and the fields of the callback,
  \<^verbatim>\<open>delete_gateway\<close> issues only teardown calls (list targets, delete target, sleep 5,
  delete gateway) and then exactly one callback, whose status is \<^verbatim>\<open>SUCCESS\<close> and whose
  physical id is the event's, whatever the teardown calls replied or raised. The
  operation returns that body; the only exception that can leave it is one raised by the
  HTTP PUT of the callback itself.
\<close>

theorem delete_gateway_reports_success:
  assumes "well_formed event" and "PhysicalResourceId event = Some gateway_id"
    and "delete_gateway cl event w = (res, w1)"
  shows "\<exists>teardown body rep.
           trace w1 = trace w @ teardown @ [(HttpPut (the (ResponseURL event)) body, rep)] \<and>
           (\<forall>c\<in>fst ` set teardown. teardown_call gateway_id c) \<and>
           Status body = ''SUCCESS'' \<and> body_PhysicalResourceId body = gateway_id \<and>
           Data body = [] \<and>
           ((rep = Done \<and> res = Inr body) \<or> (\<exists>e. rep = Raised e \<and> res = Inl e))"
proof -
  obtain r wa where t: "try_except
          (and_then (call_list_gateway_targets cl gateway_id) (\<lambda>targets.
           and_then (delete_targets cl gateway_id targets) (\<lambda>_.
           call_delete_gateway cl gateway_id)))
          (\<lambda>e. ok ()) w = (r, wa)"
    by (cases "try_except
          (and_then (call_list_gateway_targets cl gateway_id) (\<lambda>targets.
           and_then (delete_targets cl gateway_id targets) (\<lambda>_.
           call_delete_gateway cl gateway_id)))
          (\<lambda>e. ok ()) w")
  from teardown_trace[OF t] obtain new where r: "r = Inr ()"
    and new: "trace wa = trace w @ new" "\<forall>c\<in>fst ` set new. teardown_call gateway_id c"
    by blast
  from assms(2,3) t r
  have s: "send_response cl event ''SUCCESS'' None None (Some gateway_id) wa = (res, w1)"
    by (simp add: delete_gateway_def and_then_def getitem_def)
  from send_response_sent[OF assms(1) s] obtain rep where
    rep: "trace w1 = trace wa @ [(HttpPut (the (ResponseURL event))
                    (body_of event ''SUCCESS'' None None (Some gateway_id)), rep)]"
      "(rep = Done \<and> res = Inr (body_of event ''SUCCESS'' None None (Some gateway_id))) \<or>
            (\<exists>e. rep = Raised e \<and> res = Inl e)"
    by blast
  have b: "Status (body_of event ''SUCCESS'' None None (Some gateway_id)) = ''SUCCESS''"
    "body_PhysicalResourceId (body_of event ''SUCCESS'' None None (Some gateway_id)) = gateway_id"
    "Data (body_of event ''SUCCESS'' None None (Some gateway_id)) = []"
    using assms(2) by (simp_all add: body_of_def)
  show ?thesis
    apply (rule exI[of _ new])
    apply (rule exI[of _ "body_of event ''SUCCESS'' None None (Some gateway_id)"])
    apply (rule exI[of _ rep])
    using new rep b by simp
qed

lemma delete_event_well_formed: "well_formed delete_event"
  by (simp add: well_formed_def delete_event_def demo_event_def)

lemma network_down_run:
  "delete_gateway network_down delete_event world0 =
     (Inr deleted_body,
      world0\<lparr>trace := [(ListGatewayTargets ''gw-1'', Raised (Exception ''network error'')),
                        (HttpPut ''https://cfn'' deleted_body, Done)]\<rparr>)"
  by (simp add: delete_gateway_def send_response_def call_list_gateway_targets_def
      call_delete_gateway_def run_defs network_down_def scripted_def delete_event_def
      demo_event_def world0_def deleted_body_def)

lemma already_deleted_run:
  "delete_gateway already_deleted delete_event world0 =
     (Inr deleted_body,
      world0\<lparr>trace := [(ListGatewayTargets ''gw-1'', Targets []),
                        (DeleteGateway ''gw-1'', Raised (Exception ''ResourceNotFoundException'')),
                        (HttpPut ''https://cfn'' deleted_body, Done)]\<rparr>)"
  by (simp add: delete_gateway_def send_response_def call_list_gateway_targets_def
      call_delete_gateway_def run_defs already_deleted_def scripted_def delete_event_def
      demo_event_def world0_def deleted_body_def)

theorem delete_gateway_reports_success_witness:
  "well_formed delete_event \<and> PhysicalResourceId delete_event = Some ''gw-1'' \<and>
   (\<exists>res w1 teardown body rep.
      delete_gateway network_down delete_event world0 = (res, w1) \<and>
      res = Inr deleted_body \<and>
      trace w1 = trace world0 @ teardown @ [(HttpPut (the (ResponseURL delete_event)) body, rep)] \<and>
      (\<forall>c\<in>fst ` set teardown. teardown_call ''gw-1'' c) \<and>
      Status body = ''SUCCESS'' \<and> body_PhysicalResourceId body = ''gw-1'' \<and> Data body = [] \<and>
      ((rep = Done \<and> res = Inr body) \<or> (\<exists>e. rep = Raised e \<and> res = Inl e))) \<and>
   fst (delete_gateway already_deleted delete_event world0) = Inr deleted_body"
proof -
  have pid: "PhysicalResourceId delete_event = Some ''gw-1''"
    by (simp add: delete_event_def)
  from delete_gateway_reports_success[OF delete_event_well_formed pid network_down_run]
  show ?thesis
    using delete_event_well_formed pid network_down_run already_deleted_run
    by simp
qed

subsection \<open>The handler\<close>

lemmas program_defs = handler_def dispatch_def create_gateway_def create_new_gateway_def
  scan_gateways.simps existing_gateway_def update_gateway_def delete_gateway_def
  gateway_url_or_constructed_def update_ssm_parameters_def create_or_update_target_def
  create_target_with_retry_def wait_for_gateway_ready_def wait_loop.simps send_response_def
  call_list_gateways_def call_get_gateway_def call_create_gateway_def call_delete_gateway_def
  call_list_gateway_targets_def call_create_gateway_target_def call_update_gateway_target_def
  call_delete_gateway_target_def call_put_parameter_def upt_5

lemmas demo_defs = scripted_def world0_def demo_props_def demo_event_def

text \<open>
  C1 fails on a well-formed \<^verbatim>\<open>Create\<close> event when the HTTP pool refuses the connection.
  The callback at the end of \<^verbatim>\<open>create_gateway\<close> raises inside the \<^verbatim>\<open>try\<close> block; the
  handler catches that and calls \<^verbatim>\<open>send_response\<close> with \<^verbatim>\<open>FAILED\<close>, outside any
  \<^verbatim>\<open>try\<close>, and the PUT raises again: the exception leaves the handler, and no
  \<^verbatim>\<open>FAILED\<close> outcome is returned.
\<close>

theorem handler_exception_escapes:
  "fst (dispatch http_down (demo_event ''Create'') ''Create'' demo_props world0) =
     Inl (Exception ''connection refused'') \<and>
   fst (handler http_down (demo_event ''Create'') world0) =
     Inl (Exception ''connection refused'') \<and>
   map (\<lambda>(body, rep). (Status body, rep))
     (callbacks (trace (snd (handler http_down (demo_event ''Create'') world0)))) =
     [(''SUCCESS'', Raised (Exception ''connection refused'')),
      (''FAILED'', Raised (Exception ''connection refused''))]"
  by (simp add: program_defs run_defs demo_defs http_down_def callbacks_def)

text \<open>
  An exception whose text is empty is reported with the default reason: \<^verbatim>\<open>send_response\<close>
  takes \<^verbatim>\<open>reason or f"{status}: See CloudWatch logs"\<close>.
\<close>

lemma empty_message_default_reason:
  "fst (dispatch silent_failure (demo_event ''Create'') ''Create'' demo_props world0) =
     Inl (Exception []) \<and>
   map_sum id Reason (fst (handler silent_failure (demo_event ''Create'') world0)) =
     Inr ''FAILED: See CloudWatch logs''"
  by (simp add: program_defs run_defs demo_defs silent_failure_def)

text \<open>
  What the handler does on an exception. For every event that carries \<^verbatim>\<open>RequestType\<close>
  and \<^verbatim>\<open>ResourceProperties\<close>: a body returned by the body of the \<^verbatim>\<open>try\<close> statement is
  returned as it is; an exception raised there (an unknown request type raises
  \<^verbatim>\<open>ValueError\<close> there) is caught, and if the event carries the fields of the callback,
  one \<^verbatim>\<open>FAILED\<close> callback is put whose \<^verbatim>\<open>Reason\<close> is the exception's text, or
  \<^verbatim>\<open>FAILED: See CloudWatch logs\<close> when that text is empty. The handler returns that body
  when the PUT returns, and the PUT's exception otherwise.
\<close>

theorem handler_reports_failure:
  assumes "RequestType event = Some request_type" and "ResourceProperties event = Some props"
  shows "(\<forall>body wa. dispatch cl event request_type props w = (Inr body, wa) \<longrightarrow>
            handler cl event w = (Inr body, wa)) \<and>
         (\<forall>e wa res w1.
            dispatch cl event request_type props w = (Inl e, wa) \<and> well_formed event \<and>
            handler cl event w = (res, w1) \<longrightarrow>
            (\<exists>body rep.
               trace w1 = trace wa @ [(HttpPut (the (ResponseURL event)) body, rep)] \<and>
               Status body = ''FAILED'' \<and>
               Reason body = (if str e = [] then ''FAILED: See CloudWatch logs'' else str e) \<and>
               ((rep = Done \<and> res = Inr body) \<or> (\<exists>e'. rep = Raised e' \<and> res = Inl e')))) \<and>
         (request_type \<notin> {''Create'', ''Update'', ''Delete''} \<longrightarrow>
            dispatch cl event request_type props w =
              (Inl (ValueError (''Unknown request type: '' @ request_type)), w))"
proof (intro conjI allI impI)
  fix body wa
  assume "dispatch cl event request_type props w = (Inr body, wa)"
  with assms show "handler cl event w = (Inr body, wa)"
    by (simp add: handler_def and_then_def getitem_def try_except_def)
next
  fix e wa res w1
  assume a: "dispatch cl event request_type props w = (Inl e, wa) \<and> well_formed event \<and>
            handler cl event w = (res, w1)"
  then have d: "dispatch cl event request_type props w = (Inl e, wa)"
    and wf: "well_formed event" and h: "handler cl event w = (res, w1)"
    by simp_all
  from assms d h
  have s: "send_response cl event ''FAILED'' (Some (str e)) None None wa = (res, w1)"
    by (simp add: handler_def and_then_def getitem_def try_except_def)
  from send_response_sent[OF wf s] obtain rep where
    rep: "trace w1 = trace wa @ [(HttpPut (the (ResponseURL event))
                    (body_of event ''FAILED'' (Some (str e)) None None), rep)]"
      "(rep = Done \<and> res = Inr (body_of event ''FAILED'' (Some (str e)) None None)) \<or>
            (\<exists>e. rep = Raised e \<and> res = Inl e)"
    by blast
  have b: "Status (body_of event ''FAILED'' (Some (str e)) None None) = ''FAILED''"
    "Reason (body_of event ''FAILED'' (Some (str e)) None None) =
       (if str e = [] then ''FAILED: See CloudWatch logs'' else str e)"
    by (simp_all add: body_of_def)
  show "\<exists>body rep.
               trace w1 = trace wa @ [(HttpPut (the (ResponseURL event)) body, rep)] \<and>
               Status body = ''FAILED'' \<and>
               Reason body = (if str e = [] then ''FAILED: See CloudWatch logs'' else str e) \<and>
               ((rep = Done \<and> res = Inr body) \<or> (\<exists>e'. rep = Raised e' \<and> res = Inl e'))"
    apply (rule exI[of _ "body_of event ''FAILED'' (Some (str e)) None None"])
    apply (rule exI[of _ rep])
    using rep b by simp
next
  assume "request_type \<notin> {''Create'', ''Update'', ''Delete''}"
  then show "dispatch cl event request_type props w =
              (Inl (ValueError (''Unknown request type: '' @ request_type)), w)"
    by (simp add: dispatch_def raise_def)
qed

lemma unknown_run:
  "handler scripted (demo_event ''Replace'') world0 =
     (Inr unknown_body, world0\<lparr>trace := [(HttpPut ''https://cfn'' unknown_body, Done)]\<rparr>)"
  by (simp add: program_defs run_defs demo_defs unknown_body_def)

theorem handler_reports_failure_witness:
  "RequestType (demo_event ''Replace'') = Some ''Replace'' \<and>
   ResourceProperties (demo_event ''Replace'') = Some demo_props \<and>
   ''Replace'' \<notin> {''Create'', ''Update'', ''Delete''} \<and>
   well_formed (demo_event ''Replace'') \<and>
   dispatch scripted (demo_event ''Replace'') ''Replace'' demo_props world0 =
     (Inl (ValueError ''Unknown request type: Replace''), world0) \<and>
   (\<exists>res w1 body rep.
      handler scripted (demo_event ''Replace'') world0 = (res, w1) \<and>
      trace w1 = trace world0 @ [(HttpPut (the (ResponseURL (demo_event ''Replace''))) body, rep)] \<and>
      Status body = ''FAILED'' \<and>
      Reason body = ''Unknown request type: Replace'' \<and>
      rep = Done \<and> res = Inr body)"
proof -
  have rt: "RequestType (demo_event ''Replace'') = Some ''Replace''"
    and rp: "ResourceProperties (demo_event ''Replace'') = Some demo_props"
    and wf: "well_formed (demo_event ''Replace'')"
    and un: "''Replace'' \<notin> {''Create'', ''Update'', ''Delete''}"
    by (simp_all add: demo_event_def well_formed_def)
  note inst = handler_reports_failure[OF rt rp, of scripted world0]
  from inst un have d: "dispatch scripted (demo_event ''Replace'') ''Replace'' demo_props world0 =
     (Inl (ValueError ''Unknown request type: Replace''), world0)"
    by simp
  from inst d wf unknown_run
  have "\<exists>body rep.
      trace (world0\<lparr>trace := [(HttpPut ''https://cfn'' unknown_body, Done)]\<rparr>) =
        trace world0 @ [(HttpPut (the (ResponseURL (demo_event ''Replace''))) body, rep)] \<and>
      Status body = ''FAILED'' \<and>
      Reason body = (if str (ValueError ''Unknown request type: Replace'') = []
                     then ''FAILED: See CloudWatch logs''
                     else str (ValueError ''Unknown request type: Replace'')) \<and>
      ((rep = Done \<and> (Inr unknown_body :: exn + response_body) = Inr body) \<or>
       (\<exists>e'. rep = Raised e' \<and> (Inr unknown_body :: exn + response_body) = Inl e'))"
    by blast
  then obtain body rep where
    "trace (world0\<lparr>trace := [(HttpPut ''https://cfn'' unknown_body, Done)]\<rparr>) =
        trace world0 @ [(HttpPut (the (ResponseURL (demo_event ''Replace''))) body, rep)]"
    "Status body = ''FAILED''" "Reason body = ''Unknown request type: Replace''"
    "rep = Done" "unknown_body = body"
    by auto
  with rt rp wf un d unknown_run show ?thesis
    by (intro conjI exI[of _ "Inr unknown_body"]
        exI[of _ "world0\<lparr>trace := [(HttpPut ''https://cfn'' unknown_body, Done)]\<rparr>"]
        exI[of _ body] exI[of _ rep]) simp_all
qed

subsection \<open>Which calls a run issues\<close>

lemma issues_onlyD:
  "issues_only P m \<Longrightarrow> m w = (r, w1) \<Longrightarrow>
     \<exists>new. trace w1 = trace w @ new \<and> (\<forall>c\<in>fst ` set new. P c)"
  unfolding issues_only_def by blast

lemma issues_only_ok: "issues_only P (ok x)"
  by (simp add: issues_only_def ok_def)

lemma issues_only_raise: "issues_only P (raise e)"
  by (simp add: issues_only_def raise_def)

lemma issues_only_getitem: "issues_only P (getitem v key)"
  by (auto simp: issues_only_def getitem_def split: option.splits)

lemma issues_only_Pair: "issues_only P (Pair x)"
  by (simp add: issues_only_def)

lemma issues_only_invoke: "P c \<Longrightarrow> issues_only P (invoke cl c lg f)"
  by (auto simp: issues_only_def dest!: invoke_trace)

lemma issues_only_and_then:
  assumes "issues_only P m" and "\<And>x w wa. m w = (Inr x, wa) \<Longrightarrow> issues_only P (f x)"
  shows "issues_only P (and_then m f)"
  unfolding issues_only_def
proof (intro allI impI)
  fix w r w1
  assume a: "and_then m f w = (r, w1)"
  obtain r0 wa where m: "m w = (r0, wa)" by (cases "m w")
  from issues_onlyD[OF assms(1) m] obtain n1 where
    n1: "trace wa = trace w @ n1" "\<forall>c\<in>fst ` set n1. P c" by blast
  show "\<exists>new. trace w1 = trace w @ new \<and> (\<forall>c\<in>fst ` set new. P c)"
  proof (cases r0)
    case (Inl e)
    with a m have "w1 = wa" by (simp add: and_then_def)
    with n1 show ?thesis by blast
  next
    case (Inr x)
    with a m have f: "f x wa = (r, w1)" by (simp add: and_then_def)
    from m Inr have "m w = (Inr x, wa)" by simp
    from issues_onlyD[OF assms(2)[OF this] f] obtain n2 where
      "trace w1 = trace wa @ n2" "\<forall>c\<in>fst ` set n2. P c" by blast
    with n1 show ?thesis
      by (intro exI[of _ "n1 @ n2"]) auto
  qed
qed

lemma issues_only_try_except:
  assumes "issues_only P m" and "\<And>e. issues_only P (h e)"
  shows "issues_only P (try_except m h)"
  unfolding issues_only_def
proof (intro allI impI)
  fix w r w1
  assume a: "try_except m h w = (r, w1)"
  obtain r0 wa where m: "m w = (r0, wa)" by (cases "m w")
  from issues_onlyD[OF assms(1) m] obtain n1 where
    n1: "trace wa = trace w @ n1" "\<forall>c\<in>fst ` set n1. P c" by blast
  show "\<exists>new. trace w1 = trace w @ new \<and> (\<forall>c\<in>fst ` set new. P c)"
  proof (cases r0)
    case (Inr x)
    with a m have "w1 = wa" by (simp add: try_except_def)
    with n1 show ?thesis by blast
  next
    case (Inl e)
    with a m have f: "h e wa = (r, w1)" by (simp add: try_except_def)
    from issues_onlyD[OF assms(2) f] obtain n2 where
      "trace w1 = trace wa @ n2" "\<forall>c\<in>fst ` set n2. P c" by blast
    with n1 show ?thesis
      by (intro exI[of _ "n1 @ n2"]) auto
  qed
qed

lemma issues_only_seq:
  assumes "issues_only P m" and "\<And>r. issues_only P (k r)"
  shows "issues_only P (\<lambda>w. case m w of (r, wa) \<Rightarrow> k r wa)"
  unfolding issues_only_def
proof (intro allI impI)
  fix w r w1
  assume a: "(case m w of (r, wa) \<Rightarrow> k r wa) = (r, w1)"
  obtain r0 wa where m: "m w = (r0, wa)" by (cases "m w")
  from issues_onlyD[OF assms(1) m] obtain n1 where
    n1: "trace wa = trace w @ n1" "\<forall>c\<in>fst ` set n1. P c" by blast
  from a m have f: "k r0 wa = (r, w1)" by simp
  from issues_onlyD[OF assms(2) f] obtain n2 where
    "trace w1 = trace wa @ n2" "\<forall>c\<in>fst ` set n2. P c" by blast
  with n1 show "\<exists>new. trace w1 = trace w @ new \<and> (\<forall>c\<in>fst ` set new. P c)"
    by (intro exI[of _ "n1 @ n2"]) auto
qed

lemma issues_only_sleep:
  assumes "P (Sleep n)" and "issues_only P m"
  shows "issues_only P (\<lambda>w. m (sleep n w))"
  unfolding issues_only_def
proof (intro allI impI)
  fix w r w1
  assume "m (sleep n w) = (r, w1)"
  from issues_onlyD[OF assms(2) this] obtain n2 where
    "trace w1 = trace (sleep n w) @ n2" "\<forall>c\<in>fst ` set n2. P c" by blast
  with assms(1) show "\<exists>new. trace w1 = trace w @ new \<and> (\<forall>c\<in>fst ` set new. P c)"
    by (intro exI[of _ "(Sleep n, Done) # n2"]) (auto simp: trace_sleep)
qed

lemma fp_send_response:
  assumes "\<And>url body. P (HttpPut url body)"
  shows "issues_only P (send_response cl event status reason data physical_resource_id)"
  unfolding send_response_def Let_def
  by (intro issues_only_and_then issues_only_getitem issues_only_invoke issues_only_ok assms)

lemma fp_update_ssm_parameters:
  assumes "\<And>prefix. props ''SsmPrefix'' = Some prefix \<Longrightarrow>
             P (PutParameter (prefix @ ''/target_id'') target_id) \<and>
             P (PutParameter (prefix @ ''/gateway_id'') (gatewayId gateway_details)) \<and>
             (\<forall>u. gatewayUrl gateway_details = Some u \<and> u \<noteq> [] \<longrightarrow>
                  P (PutParameter (prefix @ ''/gateway_url'') u))"
  shows "issues_only P (update_ssm_parameters cl gateway_details target_id props)"
  unfolding update_ssm_parameters_def
proof (rule issues_only_and_then[OF issues_only_getitem])
  fix x and w wa :: "'b world"
  assume "getitem (props ''SsmPrefix'') ''SsmPrefix'' w = (Inr x, wa)"
  then have "props ''SsmPrefix'' = Some x"
    by (auto simp: getitem_def split: option.splits)
  note p = assms[OF this]
  show "issues_only P
          (and_then
            (case gatewayUrl gateway_details of None \<Rightarrow> ok ()
             | Some gateway_url \<Rightarrow>
                 if gateway_url \<noteq> [] then call_put_parameter cl (x @ ''/gateway_url'') gateway_url
                 else ok ())
            (\<lambda>_. and_then (call_put_parameter cl (x @ ''/target_id'') target_id)
                   (\<lambda>_. call_put_parameter cl (x @ ''/gateway_id'') (gatewayId gateway_details))))"
    using p
    by (intro issues_only_and_then)
       (auto simp: call_put_parameter_def intro!: issues_only_invoke issues_only_ok
             split: option.splits)
qed

lemma fp_create_target_attempts:
  assumes "P (CreateGatewayTarget gid ''GASPAgent'' ''GASP Agent Lambda Target'' arn spec)"
    and "\<And>a. a \<in> set as \<Longrightarrow> P (Sleep (2 ^ a))"
  shows "issues_only P (create_target_attempts cl gid arn spec n as)"
  using assms(2)
proof (induction as)
  case Nil
  show ?case by (simp add: issues_only_def)
next
  case (Cons a as)
  have rest: "issues_only P (create_target_attempts cl gid arn spec n as)"
    using Cons by simp
  have sl: "P (Sleep (2 ^ a))" using Cons.prems by simp
  have c: "issues_only P (call_create_gateway_target cl gid ''GASPAgent''
             ''GASP Agent Lambda Target'' arn spec)"
    unfolding call_create_gateway_target_def by (rule issues_only_invoke) (rule assms(1))
  have k: "issues_only P (\<lambda>wa. case r of
        Inr response \<Rightarrow> (Inr (targetId response), wa)
      | Inl e \<Rightarrow>
          if str_in ''CREATING'' (str e) \<or> str_in ''UPDATING'' (str e)
          then create_target_attempts cl gid arn spec n as (sleep (2 ^ a) wa)
          else (Inl e, wa))" for r
  proof (cases r)
    case (Inr t)
    then show ?thesis by (simp add: issues_only_def)
  next
    case (Inl e)
    show ?thesis
    proof (cases "str_in ''CREATING'' (str e) \<or> str_in ''UPDATING'' (str e)")
      case True
      with Inl issues_only_sleep[OF sl rest] show ?thesis by simp
    next
      case False
      with Inl show ?thesis by (simp add: issues_only_def)
    qed
  qed
  have eq: "create_target_attempts cl gid arn spec n (a # as) =
     (\<lambda>w. case call_create_gateway_target cl gid ''GASPAgent'' ''GASP Agent Lambda Target''
                  arn spec w of
        (r, wa) \<Rightarrow> (case r of
        Inr response \<Rightarrow> (Inr (targetId response), wa)
      | Inl e \<Rightarrow>
          if str_in ''CREATING'' (str e) \<or> str_in ''UPDATING'' (str e)
          then create_target_attempts cl gid arn spec n as (sleep (2 ^ a) wa)
          else (Inl e, wa)))"
    by (auto simp: fun_eq_iff split: prod.splits sum.splits)
  show ?case
    unfolding eq by (rule issues_only_seq[OF c k])
qed

lemma fp_create_target_with_retry:
  assumes "P (CreateGatewayTarget gid ''GASPAgent'' ''GASP Agent Lambda Target'' arn spec)"
    and "\<And>a. a < n \<Longrightarrow> P (Sleep (2 ^ a))"
  shows "issues_only P (create_target_with_retry cl gid arn spec n)"
  unfolding create_target_with_retry_def
  by (rule fp_create_target_attempts) (use assms in auto)

lemma fp_create_or_update_target:
  assumes "P (ListGatewayTargets gid)"
    and "\<And>tid. P (UpdateGatewayTarget gid tid ''GASPAgent'' arn spec)"
    and "P (CreateGatewayTarget gid ''GASPAgent'' ''GASP Agent Lambda Target'' arn spec)"
    and "\<And>a. a < 5 \<Longrightarrow> P (Sleep (2 ^ a))"
  shows "issues_only P (create_or_update_target cl gid arn spec)"
proof -
  have m: "issues_only P (and_then (call_list_gateway_targets cl gid) (\<lambda>targets.
             case targets of
               [] \<Rightarrow> ok None
             | t # _ \<Rightarrow>
                 and_then (call_update_gateway_target cl gid (targetId t) ''GASPAgent''
                             arn spec) (\<lambda>_.
                 ok (Some (targetId t)))))"
    using assms(1,2)
    by (intro issues_only_and_then)
       (auto simp: call_list_gateway_targets_def call_update_gateway_target_def
             intro!: issues_only_invoke issues_only_ok issues_only_and_then split: list.splits)
  have r: "issues_only P (create_target_with_retry cl gid arn spec 5)"
    by (rule fp_create_target_with_retry[OF assms(3,4)])
  have k: "issues_only P (\<lambda>w1. case r of
        Inr (Some target_id) \<Rightarrow> (Inr target_id, w1)
      | Inr None \<Rightarrow> create_target_with_retry cl gid arn spec 5 w1
      | Inl e \<Rightarrow> create_target_with_retry cl gid arn spec 5 w1)" for r :: "exn + string option"
    using r by (auto simp: issues_only_def split: sum.splits option.splits)
  have eq: "create_or_update_target cl gid arn spec =
    (\<lambda>w. case and_then (call_list_gateway_targets cl gid) (\<lambda>targets.
             case targets of
               [] \<Rightarrow> ok None
             | t # _ \<Rightarrow>
                 and_then (call_update_gateway_target cl gid (targetId t) ''GASPAgent''
                             arn spec) (\<lambda>_.
                 ok (Some (targetId t)))) w of
        (r, w1) \<Rightarrow> (case r of
        Inr (Some target_id) \<Rightarrow> (Inr target_id, w1)
      | Inr None \<Rightarrow> create_target_with_retry cl gid arn spec 5 w1
      | Inl e \<Rightarrow> create_target_with_retry cl gid arn spec 5 w1))"
    by (auto simp: fun_eq_iff create_or_update_target_def split: prod.splits sum.splits option.splits)
  show ?thesis
    unfolding eq by (rule issues_only_seq[OF m k])
qed

lemma existing_gateway_eq:
  "existing_gateway cl event props lambda_arn api_spec gw =
     and_then (call_get_gateway cl (gatewayId gw)) (\<lambda>gateway_details.
     and_then (create_or_update_target cl (gatewayId gw) lambda_arn api_spec) (\<lambda>target_id.
     persist_and_report cl event props gateway_details (gatewayId gw) target_id))"
  by (simp add: existing_gateway_def persist_and_report_def Let_def)

lemma create_new_gateway_eq:
  "create_new_gateway cl event props gateway_name lambda_arn api_spec gateway_role_arn =
     and_then (getitem (props ''CognitoClientId'') ''CognitoClientId'') (\<lambda>client_id.
     and_then (getitem (props ''CognitoDiscoveryUrl'') ''CognitoDiscoveryUrl'') (\<lambda>discovery_url.
     and_then (call_create_gateway cl gateway_name ''GASP Gateway (CDK Managed)''
                 gateway_role_arn ''MCP'' ''CUSTOM_JWT'' [client_id] discovery_url) (\<lambda>response.
     and_then (wait_for_gateway_ready cl (gatewayId response) 120) (\<lambda>_.
     and_then (call_get_gateway cl (gatewayId response)) (\<lambda>gateway_details.
     and_then (create_target_with_retry cl (gatewayId response) lambda_arn api_spec 5) (\<lambda>target_id.
     persist_and_report cl event props gateway_details (gatewayId response) target_id))))))"
  by (simp add: create_new_gateway_def persist_and_report_def Let_def)

lemma update_gateway_eq:
  "update_gateway cl event props =
     and_then (getitem (PhysicalResourceId event) ''PhysicalResourceId'') (\<lambda>gateway_id.
     and_then (getitem (props ''LambdaArn'') ''LambdaArn'') (\<lambda>lambda_arn.
     and_then (getitem (props ''ApiSpec'') ''ApiSpec'') (\<lambda>api_spec_text.
     and_then (Pair (json_loads cl api_spec_text)) (\<lambda>api_spec.
     if (case OldResourceProperties event of None \<Rightarrow> Map.empty | Some p \<Rightarrow> p) ''GatewayName''
          \<noteq> props ''GatewayName''
     then and_then (delete_gateway cl event) (\<lambda>_. create_gateway cl event props)
     else update_in_place cl event props gateway_id lambda_arn api_spec))))"
  unfolding update_gateway_def update_in_place_def persist_and_report_def Let_def
  by (rule refl)

lemma fp_persist_and_report:
  assumes "\<And>prefix. props ''SsmPrefix'' = Some prefix \<Longrightarrow>
             P (PutParameter (prefix @ ''/target_id'') target_id) \<and>
             P (PutParameter (prefix @ ''/gateway_id'') (gatewayId gateway_details)) \<and>
             (\<forall>u. gatewayUrl gateway_details = Some u \<and> u \<noteq> [] \<longrightarrow>
                  P (PutParameter (prefix @ ''/gateway_url'') u))"
    and "\<And>url body. P (HttpPut url body)"
  shows "issues_only P (persist_and_report cl event props gateway_details gateway_id target_id)"
  unfolding persist_and_report_def gateway_url_or_constructed_def
  by (intro issues_only_and_then fp_update_ssm_parameters fp_send_response assms)
     (auto intro!: issues_only_and_then issues_only_getitem issues_only_ok split: option.splits)

lemma persist_and_report_result:
  assumes "persist_and_report cl event props d gid tid w = (Inr body, w1)"
  shows "Status body = ''SUCCESS'' \<and>
         (\<exists>u. url_of d gid props = Some u \<and> Data body = success_data gid u tid) \<and>
         body_PhysicalResourceId body =
           (if gid = [] then (case PhysicalResourceId event of None \<Rightarrow> ''NONE'' | Some p \<Rightarrow> p)
            else gid)"
proof -
  from assms obtain u wa wb where
    u: "gateway_url_or_constructed d gid props wa = (Inr u, wb)"
    and s: "send_response cl event ''SUCCESS'' None (Some (success_data gid u tid)) (Some gid) wb
              = (Inr body, w1)"
    by (auto simp: persist_and_report_def and_then_def success_data_def
        split: prod.splits sum.splits)
  from u have "url_of d gid props = Some u"
    by (auto simp: gateway_url_or_constructed_def url_of_def constructed_url_def ok_def
        and_then_def getitem_def split: option.splits if_splits)
  moreover from s have "Status body = ''SUCCESS''" "Data body = success_data gid u tid"
    "body_PhysicalResourceId body =
           (if gid = [] then (case PhysicalResourceId event of None \<Rightarrow> ''NONE'' | Some p \<Rightarrow> p)
            else gid)"
    by (auto simp: send_response_def run_defs split: option.splits prod.splits sum.splits)
  ultimately show ?thesis by blast
qed

lemma fp_wait_for_gateway_ready:
  assumes "P (GetGateway gid)" and "P (Sleep 10)"
  shows "issues_only P (wait_for_gateway_ready cl gid max_wait)"
  unfolding issues_only_def
proof (intro allI impI)
  fix w r w1
  assume "wait_for_gateway_ready cl gid max_wait w = (r, w1)"
  then have "wait_loop cl gid max_wait (clock w) w = (r, w1)"
    by (simp add: wait_for_gateway_ready_def)
  from wait_loop_spec[OF this order_refl] obtain seen rep where
    "trace w1 = trace w @ poll_entries gid seen @ [(GetGateway gid, rep)] \<or>
     trace w1 = trace w @ poll_entries gid seen"
    by blast
  moreover have "\<forall>c\<in>fst ` set (poll_entries gid seen). P c"
    using assms by (induction seen) (auto simp: poll_entries_def)
  ultimately show "\<exists>new. trace w1 = trace w @ new \<and> (\<forall>c\<in>fst ` set new. P c)"
    using assms(1) by (elim disjE) (rule exI, rule conjI, assumption, auto)
qed

lemma fp_delete_gateway:
  assumes "\<And>gid c. PhysicalResourceId event = Some gid \<Longrightarrow> teardown_call gid c \<Longrightarrow> P c"
    and "\<And>url body. P (HttpPut url body)"
  shows "issues_only P (delete_gateway cl event)"
  unfolding delete_gateway_def
proof (rule issues_only_and_then[OF issues_only_getitem])
  fix gid and w wa :: "'a world"
  assume "getitem (PhysicalResourceId event) ''PhysicalResourceId'' w = (Inr gid, wa)"
  then have pid: "PhysicalResourceId event = Some gid"
    by (auto simp: getitem_def split: option.splits)
  have t: "issues_only P (try_except
          (and_then (call_list_gateway_targets cl gid) (\<lambda>targets.
           and_then (delete_targets cl gid targets) (\<lambda>_.
           call_delete_gateway cl gid)))
          (\<lambda>e. ok ()))"
    unfolding issues_only_def
  proof (intro allI impI)
    fix w r w1
    assume "try_except
          (and_then (call_list_gateway_targets cl gid) (\<lambda>targets.
           and_then (delete_targets cl gid targets) (\<lambda>_.
           call_delete_gateway cl gid)))
          (\<lambda>e. ok ()) w = (r, w1)"
    from teardown_trace[OF this] assms(1)[OF pid]
    show "\<exists>new. trace w1 = trace w @ new \<and> (\<forall>c\<in>fst ` set new. P c)"
      by blast
  qed
  show "issues_only P (and_then (try_except
          (and_then (call_list_gateway_targets cl gid) (\<lambda>targets.
           and_then (delete_targets cl gid targets) (\<lambda>_.
           call_delete_gateway cl gid)))
          (\<lambda>e. ok ()))
        (\<lambda>_. send_response cl event ''SUCCESS'' None None (Some gid)))"
    by (intro issues_only_and_then t fp_send_response assms(2))
qed

text \<open>Footprints of the paths, for a predicate that holds of every plain call, and of the
  write of \<open>gateway_url\<close> when a gateway record with a URL was fetched.\<close>

lemma fp_tail:
  assumes A: "\<And>c. plain_call props c \<Longrightarrow> P c"
    and B: "\<And>u prefix. gatewayUrl d = Some u \<Longrightarrow> u \<noteq> [] \<Longrightarrow>
              props ''SsmPrefix'' = Some prefix \<Longrightarrow> P (PutParameter (prefix @ ''/gateway_url'') u)"
  shows "issues_only P (persist_and_report cl event props d gid tid)"
proof (rule fp_persist_and_report)
  fix prefix
  assume p: "props ''SsmPrefix'' = Some prefix"
  have "P (PutParameter (prefix @ ''/target_id'') tid)"
    "P (PutParameter (prefix @ ''/gateway_id'') (gatewayId d))"
    by (rule A, simp add: plain_call_def p)+
  moreover have "\<forall>u. gatewayUrl d = Some u \<and> u \<noteq> [] \<longrightarrow>
                  P (PutParameter (prefix @ ''/gateway_url'') u)"
    using B p by blast
  ultimately show "P (PutParameter (prefix @ ''/target_id'') tid) \<and>
             P (PutParameter (prefix @ ''/gateway_id'') (gatewayId d)) \<and>
             (\<forall>u. gatewayUrl d = Some u \<and> u \<noteq> [] \<longrightarrow>
                  P (PutParameter (prefix @ ''/gateway_url'') u))"
    by blast
next
  fix url body
  show "P (HttpPut url body)"
    by (rule A) (simp add: plain_call_def)
qed

lemma got_gateway:
  "call_get_gateway cl gid w = (Inr d, wa) \<Longrightarrow>
     \<exists>r r1. agentcore_get_gateway cl gid r = (Inr d, r1)"
  by (auto simp: call_get_gateway_def invoke_def split: prod.splits)

lemma fp_existing_gateway:
  assumes A: "\<And>c. plain_call props c \<Longrightarrow> P c"
    and B: "\<And>gid r d r1 u prefix. agentcore_get_gateway cl gid r = (Inr d, r1) \<Longrightarrow>
              gatewayUrl d = Some u \<Longrightarrow> u \<noteq> [] \<Longrightarrow>
              props ''SsmPrefix'' = Some prefix \<Longrightarrow> P (PutParameter (prefix @ ''/gateway_url'') u)"
  shows "issues_only P (existing_gateway cl event props arn spec gw)"
  unfolding existing_gateway_eq
proof (intro issues_only_and_then)
  show "issues_only P (call_get_gateway cl (gatewayId gw))"
    unfolding call_get_gateway_def by (rule issues_only_invoke) (simp add: A plain_call_def)
next
  fix d and w wa :: "'a world"
  show "issues_only P (create_or_update_target cl (gatewayId gw) arn spec)"
    by (rule fp_create_or_update_target) (simp_all add: A plain_call_def)
next
  fix d tid and w wa w' wa' :: "'a world"
  assume "call_get_gateway cl (gatewayId gw) w = (Inr d, wa)"
  from got_gateway[OF this] obtain r r1 where
    "agentcore_get_gateway cl (gatewayId gw) r = (Inr d, r1)" by blast
  then show "issues_only P (persist_and_report cl event props d (gatewayId gw) tid)"
    by (intro fp_tail A B)
qed

lemma fp_scan_gateways:
  assumes A: "\<And>c. plain_call props c \<Longrightarrow> P c"
    and B: "\<And>gid r d r1 u prefix. agentcore_get_gateway cl gid r = (Inr d, r1) \<Longrightarrow>
              gatewayUrl d = Some u \<Longrightarrow> u \<noteq> [] \<Longrightarrow>
              props ''SsmPrefix'' = Some prefix \<Longrightarrow> P (PutParameter (prefix @ ''/gateway_url'') u)"
  shows "issues_only P (scan_gateways cl event props nm arn spec gws)"
proof (induction gws)
  case Nil
  show ?case by (simp add: issues_only_ok)
next
  case (Cons gw gws)
  have e: "issues_only P (existing_gateway cl event props arn spec gw)"
    apply (rule fp_existing_gateway)
     apply (erule A)
    apply (erule (3) B)
    done
  show ?case
  proof (cases "gw_name gw = nm")
    case True
    then show ?thesis
      by (simp add: issues_only_and_then e issues_only_ok)
  next
    case False
    with Cons show ?thesis by simp
  qed
qed

lemma fp_create_new_gateway:
  assumes A: "\<And>c. plain_call props c \<Longrightarrow> P c"
    and B: "\<And>gid r d r1 u prefix. agentcore_get_gateway cl gid r = (Inr d, r1) \<Longrightarrow>
              gatewayUrl d = Some u \<Longrightarrow> u \<noteq> [] \<Longrightarrow>
              props ''SsmPrefix'' = Some prefix \<Longrightarrow> P (PutParameter (prefix @ ''/gateway_url'') u)"
  shows "issues_only P (create_new_gateway cl event props nm arn spec role)"
  unfolding create_new_gateway_eq
proof (intro issues_only_and_then issues_only_getitem)
  fix client_id discovery_url
  show "issues_only P (call_create_gateway cl nm ''GASP Gateway (CDK Managed)'' role ''MCP''
          ''CUSTOM_JWT'' [client_id] discovery_url)"
    unfolding call_create_gateway_def by (rule issues_only_invoke) (simp add: A plain_call_def)
next
  fix response :: gateway_record
  show "issues_only P (wait_for_gateway_ready cl (gatewayId response) 120)"
    by (rule fp_wait_for_gateway_ready) (simp_all add: A plain_call_def)
next
  fix response :: gateway_record
  show "issues_only P (call_get_gateway cl (gatewayId response))"
    unfolding call_get_gateway_def by (rule issues_only_invoke) (simp add: A plain_call_def)
next
  fix response :: gateway_record
  show "issues_only P (create_target_with_retry cl (gatewayId response) arn spec 5)"
    by (rule fp_create_target_with_retry) (simp_all add: A plain_call_def)
next
  fix response d :: gateway_record and tid and w wa :: "'a world"
  assume "call_get_gateway cl (gatewayId response) w = (Inr d, wa)"
  from got_gateway[OF this] obtain r r1 where
    "agentcore_get_gateway cl (gatewayId response) r = (Inr d, r1)" by blast
  then show "issues_only P (persist_and_report cl event props d (gatewayId response) tid)"
    by (intro fp_tail A B)
qed

lemma fp_create_gateway:
  assumes A: "\<And>c. plain_call props c \<Longrightarrow> P c"
    and B: "\<And>gid r d r1 u prefix. agentcore_get_gateway cl gid r = (Inr d, r1) \<Longrightarrow>
              gatewayUrl d = Some u \<Longrightarrow> u \<noteq> [] \<Longrightarrow>
              props ''SsmPrefix'' = Some prefix \<Longrightarrow> P (PutParameter (prefix @ ''/gateway_url'') u)"
  shows "issues_only P (create_gateway cl event props)"
  unfolding create_gateway_def
proof (intro issues_only_and_then issues_only_getitem issues_only_Pair)
  fix nm arn spec role
  have n: "issues_only P (create_new_gateway cl event props nm arn spec role)"
    apply (rule fp_create_new_gateway)
     apply (erule A)
    apply (erule (3) B)
    done
  have s: "issues_only P (scan_gateways cl event props nm arn spec gws)" for gws
    apply (rule fp_scan_gateways)
     apply (erule A)
    apply (erule (3) B)
    done
  have m: "issues_only P (and_then (call_list_gateways cl)
             (scan_gateways cl event props nm arn spec))"
    by (intro issues_only_and_then s)
       (simp add: call_list_gateways_def issues_only_invoke A plain_call_def)
  have k: "issues_only P (\<lambda>w1. case r of
            Inl e \<Rightarrow> create_new_gateway cl event props nm arn spec role w1
          | Inr None \<Rightarrow> create_new_gateway cl event props nm arn spec role w1
          | Inr (Some body) \<Rightarrow> (Inr body, w1))" for r :: "exn + response_body option"
    using n by (auto simp: issues_only_def split: sum.splits option.splits)
  show "issues_only P (\<lambda>w. case and_then (call_list_gateways cl)
                  (scan_gateways cl event props nm arn spec) w of
            (Inr (Some body), w1) \<Rightarrow> (Inr body, w1)
          | (Inr None, w1) \<Rightarrow> create_new_gateway cl event props nm arn spec role w1
          | (Inl e, w1) \<Rightarrow> create_new_gateway cl event props nm arn spec role w1)"
    using issues_only_seq[OF m k] by simp
qed

lemma fp_update_in_place:
  assumes A: "\<And>c. plain_call props c \<Longrightarrow> P c"
    and B: "\<And>gid r d r1 u prefix. agentcore_get_gateway cl gid r = (Inr d, r1) \<Longrightarrow>
              gatewayUrl d = Some u \<Longrightarrow> u \<noteq> [] \<Longrightarrow>
              props ''SsmPrefix'' = Some prefix \<Longrightarrow> P (PutParameter (prefix @ ''/gateway_url'') u)"
  shows "issues_only P (update_in_place cl event props gid arn spec)"
  unfolding update_in_place_def
proof (intro issues_only_and_then)
  show "issues_only P (create_or_update_target cl gid arn spec)"
    by (rule fp_create_or_update_target) (simp_all add: A plain_call_def)
next
  fix tid :: string
  show "issues_only P (call_get_gateway cl gid)"
    unfolding call_get_gateway_def by (rule issues_only_invoke) (simp add: A plain_call_def)
next
  fix d tid and w wa :: "'a world"
  assume "call_get_gateway cl gid w = (Inr d, wa)"
  from got_gateway[OF this] obtain r r1 where
    "agentcore_get_gateway cl gid r = (Inr d, r1)" by blast
  then show "issues_only P (persist_and_report cl event props d gid tid)"
    by (intro fp_tail A B)
qed

lemma fp_delete_gateway_any:
  assumes A: "\<And>c. plain_call props c \<Longrightarrow> P c"
  shows "issues_only P (delete_gateway cl event)"
  by (rule fp_delete_gateway; rule A) (auto simp: plain_call_def teardown_call_def split: call.splits)

lemma fp_update_gateway:
  assumes A: "\<And>c. plain_call props c \<Longrightarrow> P c"
    and B: "\<And>gid r d r1 u prefix. agentcore_get_gateway cl gid r = (Inr d, r1) \<Longrightarrow>
              gatewayUrl d = Some u \<Longrightarrow> u \<noteq> [] \<Longrightarrow>
              props ''SsmPrefix'' = Some prefix \<Longrightarrow> P (PutParameter (prefix @ ''/gateway_url'') u)"
  shows "issues_only P (update_gateway cl event props)"
  unfolding update_gateway_eq
proof (intro issues_only_and_then issues_only_getitem issues_only_Pair)
  fix gid arn spec
  have c: "issues_only P (create_gateway cl event props)"
    apply (rule fp_create_gateway)
     apply (erule A)
    apply (erule (3) B)
    done
  have u: "issues_only P (update_in_place cl event props gid arn spec)"
    apply (rule fp_update_in_place)
     apply (erule A)
    apply (erule (3) B)
    done
  have d: "issues_only P (delete_gateway cl event)"
    by (rule fp_delete_gateway_any) (erule A)
  show "issues_only P
          (if (case OldResourceProperties event of None \<Rightarrow> Map.empty | Some p \<Rightarrow> p) ''GatewayName''
               \<noteq> props ''GatewayName''
           then and_then (delete_gateway cl event) (\<lambda>_. create_gateway cl event props)
           else update_in_place cl event props gid arn spec)"
    using c u d by (simp add: issues_only_and_then)
qed

lemma fp_handler:
  assumes A: "\<And>c. plain_call props c \<Longrightarrow> P c"
    and B: "\<And>gid r d r1 u prefix. agentcore_get_gateway cl gid r = (Inr d, r1) \<Longrightarrow>
              gatewayUrl d = Some u \<Longrightarrow> u \<noteq> [] \<Longrightarrow>
              props ''SsmPrefix'' = Some prefix \<Longrightarrow> P (PutParameter (prefix @ ''/gateway_url'') u)"
    and props: "ResourceProperties event = Some props"
  shows "issues_only P (handler cl event)"
  unfolding handler_def
proof (intro issues_only_and_then issues_only_getitem issues_only_try_except)
  fix request_type props' and w wa :: "'a world"
  assume "getitem (ResourceProperties event) ''ResourceProperties'' w = (Inr props', wa)"
  with props have eq: "props' = props"
    by (simp add: getitem_def)
  have c: "issues_only P (create_gateway cl event props)"
    apply (rule fp_create_gateway)
     apply (erule A)
    apply (erule (3) B)
    done
  have u: "issues_only P (update_gateway cl event props)"
    apply (rule fp_update_gateway)
     apply (erule A)
    apply (erule (3) B)
    done
  have d: "issues_only P (delete_gateway cl event)"
    by (rule fp_delete_gateway_any) (erule A)
  show "issues_only P (dispatch cl event request_type props')"
    unfolding eq dispatch_def using c u d by (simp add: issues_only_raise)
next
  fix e
  show "issues_only P (send_response cl event ''FAILED'' (Some (str e)) None None)"
    by (rule fp_send_response) (simp add: A plain_call_def)
qed

subsection \<open>The reported URL\<close>

lemma url_from_last_fetch_extend:
  assumes "url_from_last_fetch cl props (tr0 @ n1) tr1 body"
  shows "url_from_last_fetch cl props tr0 tr1 body"
proof (cases "Data body = []")
  case True
  then show ?thesis by (simp add: url_from_last_fetch_def)
next
  case False
  with assms obtain pre gid d post u tid where
    p: "tr1 = (tr0 @ n1) @ pre @ (GetGateway gid, Gateway d) # post"
      "\<forall>c\<in>fst ` set post. \<not> gets_gateway c"
      "fetched cl gid d"
      "url_of d gid props = Some u" "Data body = success_data gid u tid"
    unfolding url_from_last_fetch_def by (elim disjE exE conjE) simp_all
  from p(1) have "tr1 = tr0 @ (n1 @ pre) @ (GetGateway gid, Gateway d) # post"
    by simp
  with p(2-5) show ?thesis
    unfolding url_from_last_fetch_def
    by (intro disjI2 exI[of _ "n1 @ pre"] exI[of _ gid] exI[of _ d] exI[of _ post]
        exI[of _ u] exI[of _ tid] conjI)
qed

lemma rf_and_then:
  assumes "issues_only (\<lambda>_. True) m"
    and "\<And>x w wa. m w = (Inr x, wa) \<Longrightarrow> reports_last_fetched cl props (f x)"
  shows "reports_last_fetched cl props (and_then m f)"
  unfolding reports_last_fetched_def
proof (intro allI impI)
  fix w body w1
  assume "and_then m f w = (Inr body, w1)"
  then obtain x wa where m: "m w = (Inr x, wa)" and f: "f x wa = (Inr body, w1)"
    by (auto simp: and_then_def split: prod.splits sum.splits)
  from issues_onlyD[OF assms(1) m] obtain n1 where n1: "trace wa = trace w @ n1" by blast
  from assms(2)[OF m] f have "url_from_last_fetch cl props (trace wa) (trace w1) body"
    unfolding reports_last_fetched_def by blast
  then show "url_from_last_fetch cl props (trace w) (trace w1) body"
    unfolding n1 by (rule url_from_last_fetch_extend)
qed

lemma rf_seq:
  assumes "issues_only (\<lambda>_. True) m" and "\<And>r. reports_last_fetched cl props (k r)"
  shows "reports_last_fetched cl props (\<lambda>w. case m w of (r, wa) \<Rightarrow> k r wa)"
  unfolding reports_last_fetched_def
proof (intro allI impI)
  fix w body w1
  assume a: "(case m w of (r, wa) \<Rightarrow> k r wa) = (Inr body, w1)"
  obtain r0 wa where m: "m w = (r0, wa)" by (cases "m w")
  with a have f: "k r0 wa = (Inr body, w1)" by simp
  from issues_onlyD[OF assms(1) m] obtain n1 where n1: "trace wa = trace w @ n1" by blast
  from assms(2)[of r0] f have "url_from_last_fetch cl props (trace wa) (trace w1) body"
    unfolding reports_last_fetched_def by blast
  then show "url_from_last_fetch cl props (trace w) (trace w1) body"
    unfolding n1 by (rule url_from_last_fetch_extend)
qed

lemma rf_get:
  assumes "\<And>d. issues_only (\<lambda>c. \<not> gets_gateway c) (k d)"
    and "\<And>d w body w1. k d w = (Inr body, w1) \<Longrightarrow>
           \<exists>u tid. url_of d gid props = Some u \<and> Data body = success_data gid u tid"
  shows "reports_last_fetched cl props (and_then (call_get_gateway cl gid) k)"
  unfolding reports_last_fetched_def
proof (intro allI impI)
  fix w body w1
  assume "and_then (call_get_gateway cl gid) k w = (Inr body, w1)"
  then obtain d wa where g: "call_get_gateway cl gid w = (Inr d, wa)"
    and k: "k d wa = (Inr body, w1)"
    by (auto simp: and_then_def split: prod.splits sum.splits)
  from g have tr: "trace wa = trace w @ [(GetGateway gid, Gateway d)]"
    unfolding call_get_gateway_def by (auto dest: invoke_trace)
  from issues_onlyD[OF assms(1) k] obtain post where
    post: "trace w1 = trace wa @ post" "\<forall>c\<in>fst ` set post. \<not> gets_gateway c" by blast
  from assms(2)[OF k] obtain u tid where
    u: "url_of d gid props = Some u" "Data body = success_data gid u tid" by blast
  from tr post(1) have t: "trace w1 = trace w @ [] @ (GetGateway gid, Gateway d) # post"
    by simp
  have ft: "fetched cl gid d"
    unfolding fetched_def by (rule got_gateway[OF g])
  from t post(2) ft u show "url_from_last_fetch cl props (trace w) (trace w1) body"
    unfolding url_from_last_fetch_def
    by (intro disjI2 exI[of _ "[]"] exI[of _ gid] exI[of _ d] exI[of _ post]
        exI[of _ u] exI[of _ tid] conjI)
qed

lemma rf_no_data:
  "reports_last_fetched cl props (send_response cl' event status reason None pid)"
  unfolding reports_last_fetched_def url_from_last_fetch_def
  by (auto simp: send_response_def and_then_def getitem_def ok_def Let_def
      split: option.splits prod.splits sum.splits)

lemma rf_raise: "reports_last_fetched cl props (raise e)"
  by (simp add: reports_last_fetched_def raise_def)

lemma rf_Pair: "Data body = [] \<Longrightarrow> reports_last_fetched cl props (Pair (Inr body))"
  by (simp add: reports_last_fetched_def url_from_last_fetch_def)

lemma rf_tail_no_get:
  "issues_only (\<lambda>c. \<not> gets_gateway c) (persist_and_report cl event props d gid tid)"
  by (rule fp_persist_and_report) (simp_all add: gets_gateway_def)

lemma rf_tail_data:
  assumes "and_then m (\<lambda>tid. persist_and_report cl event props d gid tid) w = (Inr body, w1)"
  shows "\<exists>u tid. url_of d gid props = Some u \<and> Data body = success_data gid u tid"
proof -
  from assms obtain tid wa where
    "persist_and_report cl event props d gid tid wa = (Inr body, w1)"
    by (auto simp: and_then_def split: prod.splits sum.splits)
  from persist_and_report_result[OF this] show ?thesis by blast
qed

lemma rf_existing_gateway:
  "reports_last_fetched cl props (existing_gateway cl event props arn spec gw)"
  unfolding existing_gateway_eq
proof (rule rf_get)
  fix d
  show "issues_only (\<lambda>c. \<not> gets_gateway c)
          (and_then (create_or_update_target cl (gatewayId gw) arn spec)
             (persist_and_report cl event props d (gatewayId gw)))"
    by (intro issues_only_and_then rf_tail_no_get fp_create_or_update_target)
       (simp_all add: gets_gateway_def)
next
  fix d and w w1 :: "'a world" and body
  assume "and_then (create_or_update_target cl (gatewayId gw) arn spec)
             (persist_and_report cl event props d (gatewayId gw)) w = (Inr body, w1)"
  then show "\<exists>u tid. url_of d (gatewayId gw) props = Some u \<and>
                     Data body = success_data (gatewayId gw) u tid"
    by (rule rf_tail_data)
qed

lemma rf_update_in_place:
  "reports_last_fetched cl props (update_in_place cl event props gid arn spec)"
  unfolding update_in_place_def
proof (rule rf_and_then)
  show "issues_only (\<lambda>_. True) (create_or_update_target cl gid arn spec)"
    by (rule fp_create_or_update_target) simp_all
next
  fix tid
  show "reports_last_fetched cl props
          (and_then (call_get_gateway cl gid)
             (\<lambda>gateway_details. persist_and_report cl event props gateway_details gid tid))"
  proof (rule rf_get)
    fix d
    show "issues_only (\<lambda>c. \<not> gets_gateway c) (persist_and_report cl event props d gid tid)"
      by (rule rf_tail_no_get)
  next
    fix d and w w1 :: "'a world" and body
    assume "persist_and_report cl event props d gid tid w = (Inr body, w1)"
    from persist_and_report_result[OF this]
    show "\<exists>u tid. url_of d gid props = Some u \<and> Data body = success_data gid u tid"
      by blast
  qed
qed

lemma rf_create_new_gateway:
  "reports_last_fetched cl props (create_new_gateway cl event props nm arn spec role)"
  unfolding create_new_gateway_eq
proof (rule rf_and_then, rule issues_only_getitem, rule rf_and_then, rule issues_only_getitem,
    rule rf_and_then, goal_cases)
  case (1 client_id w1 wa1 discovery_url w2 wa2)
  show "issues_only (\<lambda>_. True) (call_create_gateway cl nm ''GASP Gateway (CDK Managed)'' role
          ''MCP'' ''CUSTOM_JWT'' [client_id] discovery_url)"
    unfolding call_create_gateway_def by (rule issues_only_invoke) simp
next
  case (2 client_id w1 wa1 discovery_url w2 wa2 response w3 wa3)
  have w: "issues_only (\<lambda>_. True) (wait_for_gateway_ready cl (gatewayId response) 120)"
    by (rule fp_wait_for_gateway_ready) simp_all
  have "reports_last_fetched cl props
          (and_then (call_get_gateway cl (gatewayId response))
             (\<lambda>gateway_details.
                and_then (create_target_with_retry cl (gatewayId response) arn spec 5)
                  (persist_and_report cl event props gateway_details (gatewayId response))))"
  proof (rule rf_get)
    fix d
    show "issues_only (\<lambda>c. \<not> gets_gateway c)
            (and_then (create_target_with_retry cl (gatewayId response) arn spec 5)
               (persist_and_report cl event props d (gatewayId response)))"
      by (intro issues_only_and_then rf_tail_no_get fp_create_target_with_retry)
         (simp_all add: gets_gateway_def)
  next
    fix d and w w1 :: "'a world" and body
    assume "and_then (create_target_with_retry cl (gatewayId response) arn spec 5)
               (persist_and_report cl event props d (gatewayId response)) w = (Inr body, w1)"
    then show "\<exists>u tid. url_of d (gatewayId response) props = Some u \<and>
                       Data body = success_data (gatewayId response) u tid"
      by (rule rf_tail_data)
  qed
  then show ?case
    by (rule rf_and_then[OF w])
qed

lemma scan_gateways_find:
  "scan_gateways cl event props nm arn spec gws =
     (case find (\<lambda>g. gw_name g = nm) gws of
        None \<Rightarrow> ok None
      | Some gw \<Rightarrow> and_then (existing_gateway cl event props arn spec gw) (\<lambda>body. ok (Some body)))"
  by (induction gws) simp_all

lemma rf_try_except:
  assumes "reports_last_fetched cl props m" and "issues_only (\<lambda>_. True) m"
    and "\<And>e. reports_last_fetched cl props (h e)"
  shows "reports_last_fetched cl props (try_except m h)"
  unfolding reports_last_fetched_def
proof (intro allI impI)
  fix w body w1
  assume a: "try_except m h w = (Inr body, w1)"
  obtain r0 wa where m: "m w = (r0, wa)" by (cases "m w")
  show "url_from_last_fetch cl props (trace w) (trace w1) body"
  proof (cases r0)
    case (Inr b)
    with a m have "m w = (Inr body, w1)" by (simp add: try_except_def)
    with assms(1) show ?thesis unfolding reports_last_fetched_def by blast
  next
    case (Inl e)
    with a m have h: "h e wa = (Inr body, w1)" by (simp add: try_except_def)
    from issues_onlyD[OF assms(2) m] obtain n1 where n1: "trace wa = trace w @ n1" by blast
    from assms(3)[of e] h have "url_from_last_fetch cl props (trace wa) (trace w1) body"
      unfolding reports_last_fetched_def by blast
    then show ?thesis
      unfolding n1 by (rule url_from_last_fetch_extend)
  qed
qed

lemma grows_list_gateways: "issues_only (\<lambda>_. True) (call_list_gateways cl)"
  unfolding call_list_gateways_def by (rule issues_only_invoke) simp

lemma grows_create_gateway: "issues_only (\<lambda>_. True) (create_gateway cl event props)"
  by (rule fp_create_gateway) simp_all

lemma grows_delete_gateway: "issues_only (\<lambda>_. True) (delete_gateway cl event)"
  by (rule fp_delete_gateway) simp_all

lemma grows_update_gateway: "issues_only (\<lambda>_. True) (update_gateway cl event props)"
  by (rule fp_update_gateway) simp_all

lemma rf_create_gateway:
  "reports_last_fetched cl props (create_gateway cl event props)"
  unfolding create_gateway_def
proof (rule rf_and_then, rule issues_only_getitem, rule rf_and_then, rule issues_only_getitem,
    rule rf_and_then, rule issues_only_getitem, rule rf_and_then, rule issues_only_Pair,
    rule rf_and_then, rule issues_only_getitem, goal_cases)
  case (1 nm w1 wa1 arn w2 wa2 spec_text w3 wa3 spec w4 wa4 role w5 wa5)
  let ?M = "and_then (call_list_gateways cl) (scan_gateways cl event props nm arn spec)"
  let ?N = "create_new_gateway cl event props nm arn spec role"
  have gm: "issues_only (\<lambda>_. True) ?M"
    by (intro issues_only_and_then grows_list_gateways fp_scan_gateways) simp_all
  show ?case
    unfolding reports_last_fetched_def
  proof (intro allI impI)
    fix w body w1
    assume a: "(case ?M w of
            (Inr (Some body), w1) \<Rightarrow> (Inr body, w1)
          | (Inr None, w1) \<Rightarrow> ?N w1
          | (Inl e, w1) \<Rightarrow> ?N w1) = (Inr body, w1)"
    obtain r0 wa where m: "?M w = (r0, wa)" by (cases "?M w")
    from issues_onlyD[OF gm m] obtain n1 where n1: "trace wa = trace w @ n1" by blast
    consider (found) "r0 = Inr (Some body)" "w1 = wa" | (new) "?N wa = (Inr body, w1)"
      using a m by (auto split: sum.splits option.splits)
    then show "url_from_last_fetch cl props (trace w) (trace w1) body"
    proof cases
      case found
      with m obtain gws wb where l: "call_list_gateways cl w = (Inr gws, wb)"
        and s: "scan_gateways cl event props nm arn spec gws wb = (Inr (Some body), w1)"
        by (auto simp: and_then_def split: prod.splits sum.splits)
      from s obtain gw where "existing_gateway cl event props arn spec gw wb = (Inr body, w1)"
        by (auto simp: scan_gateways_find and_then_def ok_def
            split: option.splits prod.splits sum.splits)
      with rf_existing_gateway[of cl props event arn spec gw]
      have "url_from_last_fetch cl props (trace wb) (trace w1) body"
        unfolding reports_last_fetched_def by blast
      moreover from issues_onlyD[OF grows_list_gateways l] obtain n0 where
        "trace wb = trace w @ n0" by blast
      ultimately show ?thesis
        by (simp add: url_from_last_fetch_extend)
    next
      case new
      with rf_create_new_gateway[of cl props event nm arn spec role]
      have "url_from_last_fetch cl props (trace wa) (trace w1) body"
        unfolding reports_last_fetched_def by blast
      then show ?thesis
        unfolding n1 by (rule url_from_last_fetch_extend)
    qed
  qed
qed

lemma rf_delete_gateway: "reports_last_fetched cl props (delete_gateway cl' event)"
  unfolding delete_gateway_def
proof (rule rf_and_then, rule issues_only_getitem, rule rf_and_then, goal_cases)
  case (1 gid w wa)
  show ?case
    unfolding issues_only_def
  proof (intro allI impI)
    fix w r w1
    assume "try_except
          (and_then (call_list_gateway_targets cl' gid) (\<lambda>targets.
           and_then (delete_targets cl' gid targets) (\<lambda>_.
           call_delete_gateway cl' gid)))
          (\<lambda>e. ok ()) w = (r, w1)"
    from teardown_trace[OF this]
    show "\<exists>new. trace w1 = trace w @ new \<and> (\<forall>c\<in>fst ` set new. True)"
      by blast
  qed
next
  case (2 gid w wa u w' wa')
  show ?case by (rule rf_no_data)
qed

lemma rf_update_gateway:
  "reports_last_fetched cl props (update_gateway cl event props)"
  unfolding update_gateway_eq
proof (rule rf_and_then, rule issues_only_getitem, rule rf_and_then, rule issues_only_getitem,
    rule rf_and_then, rule issues_only_getitem, rule rf_and_then, rule issues_only_Pair,
    goal_cases)
  case (1 gid w1 wa1 arn w2 wa2 spec_text w3 wa3 spec w4 wa4)
  have "reports_last_fetched cl props
          (and_then (delete_gateway cl event) (\<lambda>_. create_gateway cl event props))"
    by (rule rf_and_then[OF grows_delete_gateway rf_create_gateway])
  then show ?case
    by (simp add: rf_update_in_place)
qed

lemma rf_handler:
  assumes "ResourceProperties event = Some props"
  shows "reports_last_fetched cl props (handler cl event)"
  unfolding handler_def
proof (rule rf_and_then, rule issues_only_getitem, rule rf_and_then, rule issues_only_getitem,
    goal_cases)
  case (1 rt w1 wa1 props' w2 wa2)
  with assms have eq: "props' = props" by (simp add: getitem_def)
  have d: "reports_last_fetched cl props (dispatch cl event rt props)"
    unfolding dispatch_def
    by (simp add: rf_create_gateway rf_update_gateway rf_delete_gateway rf_raise)
  have g: "issues_only (\<lambda>_. True) (dispatch cl event rt props)"
    unfolding dispatch_def
    by (simp add: grows_create_gateway grows_update_gateway grows_delete_gateway
        issues_only_raise)
  show ?case
    unfolding eq by (rule rf_try_except[OF d g rf_no_data])
qed

lemmas demo_more_defs = update_event_def updated_body_def updated_trace_def reported_def

lemma update_run:
  "handler scripted update_event world0 =
     (Inr updated_body, world0\<lparr>trace := updated_trace (reported ''gw-1'' ''READY'')\<rparr>)"
  by (simp add: program_defs run_defs demo_defs demo_more_defs)

text \<open>
  C8, as stated, fails when the control plane reports the URL field with an empty value:
  \<^verbatim>\<open>if not gateway_url\<close> takes the empty string for a missing one, and the outcome
  carries the constructed URL, not the reported one.
\<close>

theorem blank_url_is_replaced:
  "agentcore_get_gateway blank_url ''gw-1'' (remote world0) =
     (Inr \<lparr>gatewayId = ''gw-1'', gw_name = ''demo'', gw_status = ''READY'', gatewayUrl = Some []\<rparr>,
      remote world0) \<and>
   handler blank_url update_event world0 =
     (Inr updated_body,
      world0\<lparr>trace := updated_trace
        \<lparr>gatewayId = ''gw-1'', gw_name = ''demo'', gw_status = ''READY'', gatewayUrl = Some []\<rparr>\<rparr>) \<and>
   map_of (Data updated_body) ''GatewayUrl'' =
     Some ''https://gw-1.gateway.bedrock-agentcore.us-east-1.amazonaws.com/mcp''"
  by (simp add: program_defs run_defs demo_defs demo_more_defs blank_url_def)

text \<open>
  C8, amended. Whenever \<^verbatim>\<open>create_gateway\<close>, \<^verbatim>\<open>update_gateway\<close> or the handler returns a
  body that carries data, the data are the gateway id, the URL and the target id, and the
  URL is resolved from the gateway record that the run fetched last for that id: it is
  the reported URL when that is present and not empty, and otherwise (absent or empty)
  it is \<^verbatim>\<open>https://{id}.gateway.bedrock-agentcore.{region}.amazonaws.com/mcp\<close> with the
  \<^verbatim>\<open>Region\<close> of the request.
\<close>

theorem reported_url_resolution:
  assumes "create_gateway cl event props w = (Inr body, w1) \<or>
           update_gateway cl event props w = (Inr body, w1) \<or>
           (ResourceProperties event = Some props \<and> handler cl event w = (Inr body, w1))"
    and "Data body \<noteq> []"
  shows "\<exists>pre gid d post u tid.
     trace w1 = trace w @ pre @ (GetGateway gid, Gateway d) # post \<and>
     (\<forall>c\<in>fst ` set post. \<not> gets_gateway c) \<and>
     Data body = [(''GatewayId'', gid), (''GatewayUrl'', u), (''TargetId'', tid)] \<and>
     (case gatewayUrl d of
        Some api_url \<Rightarrow>
          if api_url \<noteq> [] then u = api_url
          else (\<exists>region. props ''Region'' = Some region \<and>
                  u = ''https://'' @ gid @ ''.gateway.bedrock-agentcore.'' @ region
                        @ ''.amazonaws.com/mcp'')
      | None \<Rightarrow>
          (\<exists>region. props ''Region'' = Some region \<and>
             u = ''https://'' @ gid @ ''.gateway.bedrock-agentcore.'' @ region
                   @ ''.amazonaws.com/mcp''))"
proof -
  from assms(1) have "url_from_last_fetch cl props (trace w) (trace w1) body"
  proof (elim disjE conjE)
    assume "create_gateway cl event props w = (Inr body, w1)"
    with rf_create_gateway[of cl props event] show ?thesis
      unfolding reports_last_fetched_def by blast
  next
    assume "update_gateway cl event props w = (Inr body, w1)"
    with rf_update_gateway[of cl props event] show ?thesis
      unfolding reports_last_fetched_def by blast
  next
    assume "ResourceProperties event = Some props" "handler cl event w = (Inr body, w1)"
    with rf_handler[of event props cl] show ?thesis
      unfolding reports_last_fetched_def by blast
  qed
  with assms(2) obtain pre gid d post u tid where
    p: "trace w1 = trace w @ pre @ (GetGateway gid, Gateway d) # post"
      "\<forall>c\<in>fst ` set post. \<not> gets_gateway c"
      "url_of d gid props = Some u" "Data body = success_data gid u tid"
    unfolding url_from_last_fetch_def by (elim disjE exE conjE) simp_all
  from p(3) have "case gatewayUrl d of
        Some api_url \<Rightarrow>
          if api_url \<noteq> [] then u = api_url
          else (\<exists>region. props ''Region'' = Some region \<and>
                  u = ''https://'' @ gid @ ''.gateway.bedrock-agentcore.'' @ region
                        @ ''.amazonaws.com/mcp'')
      | None \<Rightarrow>
          (\<exists>region. props ''Region'' = Some region \<and>
             u = ''https://'' @ gid @ ''.gateway.bedrock-agentcore.'' @ region
                   @ ''.amazonaws.com/mcp'')"
    by (auto simp: url_of_def constructed_url_def split: option.splits if_splits)
  with p(1,2,4) show ?thesis
    unfolding success_data_def
    by (intro exI[of _ pre] exI[of _ gid] exI[of _ d] exI[of _ post]
        exI[of _ u] exI[of _ tid] conjI)
qed

theorem reported_url_resolution_witness:
  "ResourceProperties update_event = Some demo_props \<and>
   handler scripted update_event world0 =
     (Inr updated_body, world0\<lparr>trace := updated_trace (reported ''gw-1'' ''READY'')\<rparr>) \<and>
   Data updated_body \<noteq> [] \<and>
   (\<exists>pre gid d post u tid.
     trace (world0\<lparr>trace := updated_trace (reported ''gw-1'' ''READY'')\<rparr>) =
       trace world0 @ pre @ (GetGateway gid, Gateway d) # post \<and>
     (\<forall>c\<in>fst ` set post. \<not> gets_gateway c) \<and>
     Data updated_body = [(''GatewayId'', gid), (''GatewayUrl'', u), (''TargetId'', tid)] \<and>
     gid = ''gw-1'' \<and>
     u = ''https://gw-1.gateway.bedrock-agentcore.us-east-1.amazonaws.com/mcp'')"
proof -
  have rp: "ResourceProperties update_event = Some demo_props"
    by (simp add: update_event_def demo_event_def)
  have nd: "Data updated_body \<noteq> []"
    by (simp add: updated_body_def)
  from reported_url_resolution[OF disjI2[OF disjI2[OF conjI[OF rp update_run]]] nd]
  obtain pre gid d post u tid where
    p: "trace (world0\<lparr>trace := updated_trace (reported ''gw-1'' ''READY'')\<rparr>) =
       trace world0 @ pre @ (GetGateway gid, Gateway d) # post"
     "\<forall>c\<in>fst ` set post. \<not> gets_gateway c"
     "Data updated_body = [(''GatewayId'', gid), (''GatewayUrl'', u), (''TargetId'', tid)]"
    by blast
  from p(3) have "gid = ''gw-1''"
    "u = ''https://gw-1.gateway.bedrock-agentcore.us-east-1.amazonaws.com/mcp''"
    by (simp_all add: updated_body_def)
  with p rp nd update_run show ?thesis
    by (intro conjI exI[of _ pre] exI[of _ gid] exI[of _ d] exI[of _ post]
        exI[of _ u] exI[of _ tid])
qed

subsection \<open>The parameter store\<close>

lemma create_run:
  "handler scripted (demo_event ''Create'') world0 =
     (Inr created_body, world0\<lparr>trace := created_trace\<rparr>)"
  by (simp add: program_defs run_defs demo_defs created_body_def created_trace_def reported_def)

lemma scripted_reports_no_url:
  "agentcore_get_gateway scripted gid r = (Inr d, r1) \<Longrightarrow> gatewayUrl d = None"
  by (auto simp: scripted_def split: list.splits)

text \<open>
  When the control plane's \<^verbatim>\<open>get_gateway\<close> never reports a URL, a run of the handler
  writes no parameter but \<^verbatim>\<open>{prefix}/target_id\<close> and \<^verbatim>\<open>{prefix}/gateway_id\<close>; in
  particular \<^verbatim>\<open>{prefix}/gateway_url\<close> is never written. A body returned with data
  nevertheless carries the constructed URL as \<^verbatim>\<open>GatewayUrl\<close>.
\<close>

theorem url_parameter_not_written:
  assumes "\<forall>gid r d r1. agentcore_get_gateway cl gid r = (Inr d, r1) \<longrightarrow> gatewayUrl d = None"
    and "ResourceProperties event = Some props" and "props ''SsmPrefix'' = Some ssm_prefix"
    and "handler cl event w = (res, w1)"
  shows "\<exists>new. trace w1 = trace w @ new \<and>
           (\<forall>n v. PutParameter n v \<in> fst ` set new \<longrightarrow>
                n = ssm_prefix @ ''/target_id'' \<or> n = ssm_prefix @ ''/gateway_id'') \<and>
           (\<forall>v. PutParameter (ssm_prefix @ ''/gateway_url'') v \<notin> fst ` set new) \<and>
           (\<forall>body. res = Inr body \<and> Data body \<noteq> [] \<longrightarrow>
              (\<exists>gid region tid.
                 props ''Region'' = Some region \<and>
                 Data body =
                   [(''GatewayId'', gid),
                    (''GatewayUrl'', ''https://'' @ gid @ ''.gateway.bedrock-agentcore.'' @ region
                                       @ ''.amazonaws.com/mcp''),
                    (''TargetId'', tid)]))"
proof -
  have "issues_only (plain_call props) (handler cl event)"
  proof (rule fp_handler[OF _ _ assms(2)])
    fix gid r d r1 u p
    assume "agentcore_get_gateway cl gid r = (Inr d, r1)" "gatewayUrl d = Some u"
    with assms(1) show "plain_call props (PutParameter (p @ ''/gateway_url'') u)"
      by fastforce
  qed
  from issues_onlyD[OF this assms(4)] obtain new where
    new: "trace w1 = trace w @ new" "\<forall>c\<in>fst ` set new. plain_call props c"
    by blast
  have puts: "n = ssm_prefix @ ''/target_id'' \<or> n = ssm_prefix @ ''/gateway_id''"
    if "PutParameter n v \<in> fst ` set new" for n v
    using new(2) that assms(3) by (fastforce simp: plain_call_def)
  have no_url: "PutParameter (ssm_prefix @ ''/gateway_url'') v \<notin> fst ` set new" for v
    using puts[of "ssm_prefix @ ''/gateway_url''" v] by auto
  have data: "\<exists>gid region tid.
                 props ''Region'' = Some region \<and>
                 Data body =
                   [(''GatewayId'', gid),
                    (''GatewayUrl'', ''https://'' @ gid @ ''.gateway.bedrock-agentcore.'' @ region
                                       @ ''.amazonaws.com/mcp''),
                    (''TargetId'', tid)]"
    if b: "res = Inr body \<and> Data body \<noteq> []" for body
  proof -
    from b assms(4) rf_handler[OF assms(2), of cl]
    have "url_from_last_fetch cl props (trace w) (trace w1) body"
      unfolding reports_last_fetched_def by blast
    with b obtain gid d u tid where
      p: "fetched cl gid d" "url_of d gid props = Some u" "Data body = success_data gid u tid"
      unfolding url_from_last_fetch_def by (elim disjE exE conjE) simp_all
    from p(1) assms(1) have "gatewayUrl d = None"
      unfolding fetched_def by blast
    with p(2) obtain region where "props ''Region'' = Some region"
      "u = ''https://'' @ gid @ ''.gateway.bedrock-agentcore.'' @ region @ ''.amazonaws.com/mcp''"
      by (auto simp: url_of_def constructed_url_def)
    with p(3) show ?thesis
      by (auto simp: success_data_def)
  qed
  from new(1) puts no_url data show ?thesis
    by (intro exI[of _ new] conjI allI impI)
qed

theorem url_parameter_not_written_witness:
  "ResourceProperties (demo_event ''Create'') = Some demo_props \<and>
   demo_props ''SsmPrefix'' = Some ''/app'' \<and>
   handler scripted (demo_event ''Create'') world0 =
     (Inr created_body, world0\<lparr>trace := created_trace\<rparr>) \<and>
   Data created_body \<noteq> [] \<and>
   [c \<leftarrow> map fst created_trace. \<exists>n v. c = PutParameter n v] =
     [PutParameter ''/app/target_id'' ''tgt-1'', PutParameter ''/app/gateway_id'' ''gw-new''] \<and>
   (\<exists>new. trace (world0\<lparr>trace := created_trace\<rparr>) = trace world0 @ new \<and>
           (\<forall>n v. PutParameter n v \<in> fst ` set new \<longrightarrow>
                n = ''/app'' @ ''/target_id'' \<or> n = ''/app'' @ ''/gateway_id'') \<and>
           (\<forall>v. PutParameter (''/app'' @ ''/gateway_url'') v \<notin> fst ` set new) \<and>
           (\<forall>body. (Inr created_body :: exn + response_body) = Inr body \<and> Data body \<noteq> [] \<longrightarrow>
              (\<exists>gid region tid.
                 demo_props ''Region'' = Some region \<and>
                 Data body =
                   [(''GatewayId'', gid),
                    (''GatewayUrl'', ''https://'' @ gid @ ''.gateway.bedrock-agentcore.'' @ region
                                       @ ''.amazonaws.com/mcp''),
                    (''TargetId'', tid)])))"
proof -
  have never: "\<forall>gid r d r1. agentcore_get_gateway scripted gid r = (Inr d, r1) \<longrightarrow>
      gatewayUrl d = None"
    using scripted_reports_no_url by blast
  have rp: "ResourceProperties (demo_event ''Create'') = Some demo_props"
    and sp: "demo_props ''SsmPrefix'' = Some ''/app''"
    and nd: "Data created_body \<noteq> []"
    and puts: "[c \<leftarrow> map fst created_trace. \<exists>n v. c = PutParameter n v] =
     [PutParameter ''/app/target_id'' ''tgt-1'', PutParameter ''/app/gateway_id'' ''gw-new'']"
    by (simp_all add: demo_event_def demo_props_def created_body_def created_trace_def)
  from url_parameter_not_written[OF never rp sp create_run] rp sp create_run nd puts
  show ?thesis
    by (intro conjI)
qed


subsection \<open>Callbacks of an update with a changed name\<close>

text \<open>
  C3 fails on an \<^verbatim>\<open>Update\<close> event whose \<^verbatim>\<open>GatewayName\<close> changed, with a control plane on
  which every call succeeds: \<^verbatim>\<open>update_gateway\<close> calls \<^verbatim>\<open>delete_gateway\<close>, which sends its
  own \<^verbatim>\<open>SUCCESS\<close> callback for the old physical id, and then \<^verbatim>\<open>create_gateway\<close>, which
  sends the callback of the new gateway. Two callbacks are delivered in one invocation.
\<close>

theorem renamed_update_sends_two_callbacks:
  "map (\<lambda>(body, rep). (Status body, body_PhysicalResourceId body, Data body = [], rep))
     (callbacks (trace (snd (handler scripted renamed_event world0)))) =
     [(''SUCCESS'', ''gw-1'', True, Done), (''SUCCESS'', ''gw-new'', False, Done)]"
  by (simp add: program_defs run_defs demo_defs renamed_event_def callbacks_def)

subsection \<open>Updates\<close>

lemma update_gateway_split:
  assumes "PhysicalResourceId event = Some pid" and "props ''LambdaArn'' = Some arn"
    and "props ''ApiSpec'' = Some spec_text" and "json_loads cl spec_text = Inr spec"
  shows "update_gateway cl event props w =
     (if old_gateway_name event \<noteq> props ''GatewayName''
      then and_then (delete_gateway cl event) (\<lambda>_. create_gateway cl event props) w
      else update_in_place cl event props pid arn spec w)"
  using assms
  by (simp add: update_gateway_eq and_then_def getitem_def old_gateway_name_def)

lemma fp_in_place:
  "issues_only (in_place_call pid) (update_in_place cl event props pid arn spec)"
  unfolding update_in_place_def
  by (intro issues_only_and_then fp_create_or_update_target fp_persist_and_report)
     (simp_all add: in_place_call_def call_get_gateway_def issues_only_invoke)

lemma in_place_target_first:
  assumes "update_in_place cl event props pid arn spec w = (res, w1)"
  shows "\<exists>r wa rest. create_or_update_target cl pid arn spec w = (r, wa) \<and>
           trace w1 = trace wa @ rest \<and> (\<forall>c\<in>fst ` set rest. \<not> target_call c)"
proof -
  obtain r wa where t: "create_or_update_target cl pid arn spec w = (r, wa)"
    by (cases "create_or_update_target cl pid arn spec w")
  show ?thesis
  proof (cases r)
    case (Inl e)
    with assms t have "w1 = wa" by (simp add: update_in_place_def and_then_def)
    with t show ?thesis by auto
  next
    case (Inr tid)
    with assms t have k: "and_then (call_get_gateway cl pid)
        (\<lambda>d. persist_and_report cl event props d pid tid) wa = (res, w1)"
      by (simp add: update_in_place_def and_then_def)
    have "issues_only (\<lambda>c. \<not> target_call c) (and_then (call_get_gateway cl pid)
        (\<lambda>d. persist_and_report cl event props d pid tid))"
      by (intro issues_only_and_then fp_persist_and_report)
         (simp_all add: target_call_def call_get_gateway_def issues_only_invoke)
    from issues_onlyD[OF this k] t show ?thesis by blast
  qed
qed

lemma in_place_result:
  assumes "PhysicalResourceId event = Some pid"
    and "update_in_place cl event props pid arn spec w = (Inr body, w1)"
  shows "Status body = ''SUCCESS'' \<and> body_PhysicalResourceId body = pid"
proof -
  from assms(2) obtain tid d wa where
    "persist_and_report cl event props d pid tid wa = (Inr body, w1)"
    by (auto simp: update_in_place_def and_then_def split: prod.splits sum.splits)
  from persist_and_report_result[OF this] assms(1) show ?thesis
    by (auto split: if_splits)
qed

lemma gateway_ids_given_append:
  "gateway_ids_given props (a @ b) = gateway_ids_given props a @ gateway_ids_given props b"
  by (simp add: gateway_ids_given_def)

lemma gateway_ids_given_in_place:
  "\<forall>c\<in>fst ` set tr. in_place_call gid c \<Longrightarrow> gateway_ids_given props tr = []"
  by (induction tr) (auto simp: gateway_ids_given_def in_place_call_def split: call.splits)

lemma in_place_no_delete: "in_place_call gid c \<Longrightarrow> \<not> deletes c"
  by (auto simp: in_place_call_def deletes_def split: call.splits)

lemma persist_and_report_gives:
  assumes "persist_and_report cl event props d gid tid w = (Inr body, w1)"
  shows "reports_gateway event gid body"
  using persist_and_report_result[OF assms]
  unfolding reports_gateway_def success_data_def by blast

lemma fp_existing_in_place:
  "issues_only (in_place_call (gatewayId gw)) (existing_gateway cl event props arn spec gw)"
  unfolding existing_gateway_eq
  by (intro issues_only_and_then fp_create_or_update_target fp_persist_and_report)
     (simp_all add: in_place_call_def call_get_gateway_def issues_only_invoke)

lemma existing_gateway_gives:
  assumes "existing_gateway cl event props arn spec gw w = (Inr body, w1)"
  shows "reports_gateway event (gatewayId gw) body"
proof -
  from assms obtain d tid wb where
    "persist_and_report cl event props d (gatewayId gw) tid wb = (Inr body, w1)"
    unfolding existing_gateway_eq
    by (auto simp: and_then_def split: prod.splits sum.splits)
  then show ?thesis by (rule persist_and_report_gives)
qed

lemma fp_after_create:
  "issues_only (in_place_call gid) (after_create cl event props arn spec gid)"
  unfolding after_create_def
  by (intro issues_only_and_then fp_wait_for_gateway_ready fp_create_target_with_retry
        fp_persist_and_report)
     (simp_all add: in_place_call_def call_get_gateway_def issues_only_invoke)

lemma after_create_gives:
  assumes "after_create cl event props arn spec gid w = (Inr body, w1)"
  shows "reports_gateway event gid body"
proof -
  from assms obtain d tid wb where
    "persist_and_report cl event props d gid tid wb = (Inr body, w1)"
    unfolding after_create_def
    by (auto simp: and_then_def split: prod.splits sum.splits)
  then show ?thesis by (rule persist_and_report_gives)
qed

lemma create_new_gateway_gives:
  assumes "create_new_gateway cl event props nm arn spec role w = (Inr body, w1)"
  shows "\<exists>post gid. trace w1 = trace w @ post \<and>
           gateway_ids_given props post = [gid] \<and>
           (\<forall>c\<in>fst ` set post. \<not> deletes c) \<and>
           reports_gateway event gid body"
proof -
  from assms obtain client_id discovery_url response wc where
    c: "call_create_gateway cl nm ''GASP Gateway (CDK Managed)'' role ''MCP'' ''CUSTOM_JWT''
          [client_id] discovery_url w = (Inr response, wc)"
    and a: "after_create cl event props arn spec (gatewayId response) wc = (Inr body, w1)"
    unfolding create_new_gateway_eq after_create_def
    by (auto simp: and_then_def getitem_def split: option.splits prod.splits sum.splits)
  from c have t: "trace wc = trace w @
      [(CreateGateway nm ''GASP Gateway (CDK Managed)'' role ''MCP'' ''CUSTOM_JWT''
          [client_id] discovery_url, Gateway response)]"
    unfolding call_create_gateway_def by (auto dest: invoke_trace)
  from issues_onlyD[OF fp_after_create a] obtain rest where
    r: "trace w1 = trace wc @ rest" "\<forall>c\<in>fst ` set rest. in_place_call (gatewayId response) c"
    by blast
  let ?post = "(CreateGateway nm ''GASP Gateway (CDK Managed)'' role ''MCP'' ''CUSTOM_JWT''
          [client_id] discovery_url, Gateway response) # rest"
  have "trace w1 = trace w @ ?post" using t r(1) by simp
  moreover have "gateway_ids_given props ?post = [gatewayId response]"
    using gateway_ids_given_in_place[OF r(2), of props]
    by (simp add: gateway_ids_given_def)
  moreover have "\<forall>c\<in>fst ` set ?post. \<not> deletes c"
    using r(2) in_place_no_delete by (auto simp: deletes_def)
  moreover note after_create_gives[OF a]
  ultimately show ?thesis by blast
qed

lemma create_gateway_gives:
  assumes "create_gateway cl event props w = (Inr body, w1)"
  shows "\<exists>created. trace w1 = trace w @ created \<and>
           gateway_ids_given props created \<noteq> [] \<and>
           (\<forall>c\<in>fst ` set created. \<not> deletes c) \<and>
           reports_gateway event (last (gateway_ids_given props created)) body"
proof -
  from assms obtain nm arn spec role where
    nm: "props ''GatewayName'' = Some nm"
    and run: "(case and_then (call_list_gateways cl)
                  (scan_gateways cl event props nm arn spec) w of
            (Inr (Some body), w1) \<Rightarrow> (Inr body, w1)
          | (Inr None, w1) \<Rightarrow> create_new_gateway cl event props nm arn spec role w1
          | (Inl e, w1) \<Rightarrow> create_new_gateway cl event props nm arn spec role w1)
          = (Inr body, w1)"
    unfolding create_gateway_def
    by (auto simp: and_then_def getitem_def split: option.splits sum.splits)
  have same_name: "(\<lambda>gw. Some (gw_name gw) = props ''GatewayName'') = (\<lambda>gw. gw_name gw = nm)"
    using nm by auto
  obtain rl wl where l: "call_list_gateways cl w = (rl, wl)"
    by (cases "call_list_gateways cl w")
  then have tl: "trace wl = trace w @
      [(ListGateways, case rl of Inl e \<Rightarrow> Raised e | Inr v \<Rightarrow> Gateways v)]"
    unfolding call_list_gateways_def by (rule invoke_trace)
  let ?listing = "(ListGateways, case rl of Inl e \<Rightarrow> Raised e | Inr v \<Rightarrow> Gateways v)"
  have new_path: ?thesis
    if n: "create_new_gateway cl event props nm arn spec role wa = (Inr body, w1)"
      and pre: "trace wa = trace w @ pre" "\<forall>c\<in>fst ` set pre. \<not> deletes c" for wa pre
  proof -
    from create_new_gateway_gives[OF n] obtain post gid where
      p: "trace w1 = trace wa @ post" "gateway_ids_given props post = [gid]"
        "\<forall>c\<in>fst ` set post. \<not> deletes c" "reports_gateway event gid body"
      by blast
    have "trace w1 = trace w @ (pre @ post)" using pre(1) p(1) by simp
    moreover have "gateway_ids_given props (pre @ post) \<noteq> []"
      "last (gateway_ids_given props (pre @ post)) = gid"
      using p(2) by (simp_all add: gateway_ids_given_append)
    moreover have "\<forall>c\<in>fst ` set (pre @ post). \<not> deletes c"
      using pre(2) p(3) by auto
    ultimately show ?thesis using p(4) by metis
  qed
  have listing_nd: "\<forall>c\<in>fst ` set [?listing]. \<not> deletes c"
    by (simp add: deletes_def)
  show ?thesis
  proof (cases rl)
    case (Inl e)
    with run l have "create_new_gateway cl event props nm arn spec role wl = (Inr body, w1)"
      by (simp add: and_then_def)
    from new_path[OF this tl listing_nd] show ?thesis .
  next
    case (Inr gws)
    show ?thesis
    proof (cases "find (\<lambda>g. gw_name g = nm) gws")
      case None
      with run l Inr have "create_new_gateway cl event props nm arn spec role wl = (Inr body, w1)"
        by (simp add: and_then_def scan_gateways_find ok_def)
      from new_path[OF this tl listing_nd] show ?thesis .
    next
      case (Some gw)
      obtain re we where e: "existing_gateway cl event props arn spec gw wl = (re, we)"
        by (cases "existing_gateway cl event props arn spec gw wl")
      from issues_onlyD[OF fp_existing_in_place e] obtain ex where
        ex: "trace we = trace wl @ ex" "\<forall>c\<in>fst ` set ex. in_place_call (gatewayId gw) c"
        by blast
      have tr_we: "trace we = trace w @ (?listing # ex)"
        using tl ex(1) by simp
      have nd: "\<forall>c\<in>fst ` set (?listing # ex). \<not> deletes c"
        using ex(2) in_place_no_delete by (auto simp: deletes_def)
      show ?thesis
      proof (cases re)
        case Inl2: (Inl e')
        with run l Inr Some e
        have "create_new_gateway cl event props nm arn spec role we = (Inr body, w1)"
          by (simp add: and_then_def scan_gateways_find)
        from new_path[OF this tr_we nd] show ?thesis .
      next
        case Inr2: (Inr found)
        with run l Inr Some e have b: "found = body" "we = w1"
          by (simp_all add: and_then_def scan_gateways_find ok_def)
        have ids: "gateway_ids_given props (?listing # ex) = [gatewayId gw]"
          using gateway_ids_given_in_place[OF ex(2), of props] Inr Some
          by (simp add: gateway_ids_given_def same_name)
        from e Inr2 b have "existing_gateway cl event props arn spec gw wl = (Inr body, w1)"
          by simp
        from existing_gateway_gives[OF this]
        have "reports_gateway event (last (gateway_ids_given props (?listing # ex))) body"
          by (simp add: ids)
        moreover have "gateway_ids_given props (?listing # ex) \<noteq> []"
          by (simp add: ids)
        moreover have "trace w1 = trace w @ (?listing # ex)"
          using tr_we b by simp
        ultimately show ?thesis using nd by metis
      qed
    qed
  qed
qed

lemma issues_only_mono:
  assumes "issues_only P m" and "\<And>c. P c \<Longrightarrow> Q c"
  shows "issues_only Q m"
  unfolding issues_only_def
proof (intro allI impI)
  fix w r w1
  assume "m w = (r, w1)"
  from issues_onlyD[OF assms(1) this] obtain new where
    n: "trace w1 = trace w @ new" "\<forall>c\<in>fst ` set new. P c"
    by blast
  from n(2) assms(2) have "\<forall>c\<in>fst ` set new. Q c" by auto
  with n(1) show "\<exists>new. trace w1 = trace w @ new \<and> (\<forall>c\<in>fst ` set new. Q c)"
    by (intro exI[of _ new] conjI)
qed

lemma nd_existing_gateway:
  "issues_only (\<lambda>c. \<not> deletes c) (existing_gateway cl event props arn spec gw)"
  by (rule issues_only_mono[OF fp_existing_in_place]) (rule in_place_no_delete)

lemma nd_scan_gateways:
  "issues_only (\<lambda>c. \<not> deletes c) (scan_gateways cl event props nm arn spec gws)"
proof (induction gws)
  case Nil
  show ?case by (simp add: issues_only_ok)
next
  case (Cons gw gws)
  show ?case
  proof (cases "gw_name gw = nm")
    case True
    then show ?thesis
      by (simp add: issues_only_and_then nd_existing_gateway issues_only_ok)
  next
    case False
    with Cons show ?thesis by simp
  qed
qed

lemma create_new_gateway_after:
  "create_new_gateway cl event props nm arn spec role =
     and_then (getitem (props ''CognitoClientId'') ''CognitoClientId'') (\<lambda>client_id.
     and_then (getitem (props ''CognitoDiscoveryUrl'') ''CognitoDiscoveryUrl'') (\<lambda>discovery_url.
     and_then (call_create_gateway cl nm ''GASP Gateway (CDK Managed)''
                 role ''MCP'' ''CUSTOM_JWT'' [client_id] discovery_url) (\<lambda>response.
     after_create cl event props arn spec (gatewayId response))))"
  unfolding create_new_gateway_eq after_create_def by (rule refl)

lemma nd_create_new_gateway:
  "issues_only (\<lambda>c. \<not> deletes c) (create_new_gateway cl event props nm arn spec role)"
  unfolding create_new_gateway_after
proof (intro issues_only_and_then issues_only_getitem)
  fix client_id discovery_url
  show "issues_only (\<lambda>c. \<not> deletes c) (call_create_gateway cl nm ''GASP Gateway (CDK Managed)''
          role ''MCP'' ''CUSTOM_JWT'' [client_id] discovery_url)"
    unfolding call_create_gateway_def by (rule issues_only_invoke) (simp add: deletes_def)
next
  fix response :: gateway_record
  show "issues_only (\<lambda>c. \<not> deletes c) (after_create cl event props arn spec (gatewayId response))"
    by (rule issues_only_mono[OF fp_after_create]) (rule in_place_no_delete)
qed

lemma fp_create_gateway_no_delete:
  "issues_only (\<lambda>c. \<not> deletes c) (create_gateway cl event props)"
  unfolding create_gateway_def
proof (intro issues_only_and_then issues_only_getitem issues_only_Pair)
  fix nm arn spec role
  have m: "issues_only (\<lambda>c. \<not> deletes c) (and_then (call_list_gateways cl)
             (scan_gateways cl event props nm arn spec))"
    by (intro issues_only_and_then nd_scan_gateways)
       (simp add: call_list_gateways_def issues_only_invoke deletes_def)
  have k: "issues_only (\<lambda>c. \<not> deletes c) (\<lambda>w1. case r of
            Inl e \<Rightarrow> create_new_gateway cl event props nm arn spec role w1
          | Inr None \<Rightarrow> create_new_gateway cl event props nm arn spec role w1
          | Inr (Some body) \<Rightarrow> (Inr body, w1))" for r :: "exn + response_body option"
    using nd_create_new_gateway[of cl event props nm arn spec role]
    by (auto simp: issues_only_def split: sum.splits option.splits)
  show "issues_only (\<lambda>c. \<not> deletes c) (\<lambda>w. case and_then (call_list_gateways cl)
                  (scan_gateways cl event props nm arn spec) w of
            (Inr (Some body), w1) \<Rightarrow> (Inr body, w1)
          | (Inr None, w1) \<Rightarrow> create_new_gateway cl event props nm arn spec role w1
          | (Inl e, w1) \<Rightarrow> create_new_gateway cl event props nm arn spec role w1)"
    using issues_only_seq[OF m k] by simp
qed

lemma delete_gateway_trace:
  assumes "PhysicalResourceId event = Some pid" and "delete_gateway cl event w = (rd, wd)"
  shows "\<exists>teardown answer. trace wd = trace w @ teardown @ answer \<and>
           (\<forall>c\<in>fst ` set teardown. teardown_call pid c) \<and>
           (\<forall>c\<in>fst ` set answer. reports c)"
proof -
  let ?T = "try_except
          (and_then (call_list_gateway_targets cl pid) (\<lambda>targets.
           and_then (delete_targets cl pid targets) (\<lambda>_.
           call_delete_gateway cl pid)))
          (\<lambda>e. ok ())"
  obtain r wt where t: "?T w = (r, wt)" by (cases "?T w")
  from teardown_trace[OF t] obtain teardown where
    td: "r = Inr ()" "trace wt = trace w @ teardown" "\<forall>c\<in>fst ` set teardown. teardown_call pid c"
    by blast
  from assms t td(1)
  have s: "send_response cl event ''SUCCESS'' None None (Some pid) wt = (rd, wd)"
    by (simp add: delete_gateway_def and_then_def getitem_def)
  have "issues_only reports (send_response cl event ''SUCCESS'' None None (Some pid))"
    by (rule fp_send_response) (simp add: reports_def)
  from issues_onlyD[OF this s] obtain answer where
    "trace wd = trace wt @ answer" "\<forall>c\<in>fst ` set answer. reports c"
    by blast
  with td(2,3) show ?thesis
    by (intro exI[of _ teardown] exI[of _ answer]) simp
qed

text \<open>
  C4, as stated, fails on an \<^verbatim>\<open>Update\<close> event with a changed name when the control plane
  gives the new gateway the id the old one had: the physical id returned is the original
  one. Nothing in the code compares the two ids.
\<close>

theorem renamed_update_may_keep_id:
  "PhysicalResourceId renamed_same_id_event = Some ''gw-new'' \<and>
   old_gateway_name renamed_same_id_event = Some ''old'' \<and>
   demo_props ''GatewayName'' = Some ''demo'' \<and>
   map_sum id (\<lambda>body. (Status body, body_PhysicalResourceId body))
     (fst (update_gateway scripted renamed_same_id_event demo_props world0)) =
     Inr (''SUCCESS'', ''gw-new'')"
  by (simp add: program_defs run_defs demo_defs renamed_same_id_event_def old_gateway_name_def)

text \<open>
  C4, amended. For every \<^verbatim>\<open>Update\<close> event that carries a physical id, with
  \<^verbatim>\<open>LambdaArn\<close> and a parseable \<^verbatim>\<open>ApiSpec\<close> among the properties. If the old and the
  new \<^verbatim>\<open>GatewayName\<close> differ, the run is \<^verbatim>\<open>delete_gateway\<close> on the event, whose calls
  are teardown calls on the old physical id followed by its callback, and then, unless
  that raised, \<^verbatim>\<open>create_gateway\<close> on the new properties, which deletes nothing and whose
  result is returned. A body so returned reports, with status \<^verbatim>\<open>SUCCESS\<close>, the gateway id
  the control plane gave last in the run of \<^verbatim>\<open>create_gateway\<close>: the id listed under the
  new name, or the id of the gateway created. The resulting physical id differs from the
  original one exactly when that id is not empty and is not the original id. If the names
  are equal, every call issued is a target call or \<^verbatim>\<open>get_gateway\<close> on the existing
  physical id, a backoff sleep, a parameter write or the callback (so no gateway is
  created or deleted); the run starts with one \<^verbatim>\<open>create_or_update_target\<close> on the
  existing physical id and issues no target call after it; and a body returned has status
  \<^verbatim>\<open>SUCCESS\<close> and the unchanged physical id.
\<close>

theorem update_gateway_branches:
  assumes "PhysicalResourceId event = Some pid" and "props ''LambdaArn'' = Some arn"
    and "props ''ApiSpec'' = Some spec_text" and "json_loads cl spec_text = Inr spec"
    and "update_gateway cl event props w = (res, w1)"
  shows "(old_gateway_name event \<noteq> props ''GatewayName'' \<longrightarrow>
            (\<exists>rd wd teardown answer created.
               delete_gateway cl event w = (rd, wd) \<and>
               trace wd = trace w @ teardown @ answer \<and>
               (\<forall>c\<in>fst ` set teardown. teardown_call pid c) \<and>
               (\<forall>c\<in>fst ` set answer. reports c) \<and>
               (case rd of
                  Inl e \<Rightarrow> res = Inl e \<and> w1 = wd
                | Inr deleted \<Rightarrow> create_gateway cl event props wd = (res, w1)) \<and>
               trace w1 = trace wd @ created \<and>
               (\<forall>c\<in>fst ` set created. \<not> deletes c) \<and>
               (\<forall>body. res = Inr body \<longrightarrow>
                  gateway_ids_given props created \<noteq> [] \<and>
                  reports_gateway event (last (gateway_ids_given props created)) body \<and>
                  (body_PhysicalResourceId body \<noteq> pid) =
                    (last (gateway_ids_given props created) \<notin> {[], pid})))) \<and>
         (old_gateway_name event = props ''GatewayName'' \<longrightarrow>
            (\<exists>new. trace w1 = trace w @ new \<and> (\<forall>c\<in>fst ` set new. in_place_call pid c)) \<and>
            (\<exists>r wa rest. create_or_update_target cl pid arn spec w = (r, wa) \<and>
               trace w1 = trace wa @ rest \<and> (\<forall>c\<in>fst ` set rest. \<not> target_call c)) \<and>
            (\<forall>body. res = Inr body \<longrightarrow>
               Status body = ''SUCCESS'' \<and> body_PhysicalResourceId body = pid))"
proof (intro conjI impI)
  assume d: "old_gateway_name event \<noteq> props ''GatewayName''"
  with assms have u: "and_then (delete_gateway cl event) (\<lambda>_. create_gateway cl event props) w
      = (res, w1)"
    by (simp add: update_gateway_split[OF assms(1-4)])
  obtain rd wd where del: "delete_gateway cl event w = (rd, wd)"
    by (cases "delete_gateway cl event w")
  from delete_gateway_trace[OF assms(1) del] obtain teardown answer where
    t: "trace wd = trace w @ teardown @ answer"
      "\<forall>c\<in>fst ` set teardown. teardown_call pid c" "\<forall>c\<in>fst ` set answer. reports c"
    by blast
  from u del have k: "case rd of
                  Inl e \<Rightarrow> res = Inl e \<and> w1 = wd
                | Inr deleted \<Rightarrow> create_gateway cl event props wd = (res, w1)"
    by (auto simp: and_then_def split: sum.splits)
  have "\<exists>created. trace w1 = trace wd @ created \<and>
               (\<forall>c\<in>fst ` set created. \<not> deletes c) \<and>
               (\<forall>body. res = Inr body \<longrightarrow>
                  gateway_ids_given props created \<noteq> [] \<and>
                  reports_gateway event (last (gateway_ids_given props created)) body \<and>
                  (body_PhysicalResourceId body \<noteq> pid) =
                    (last (gateway_ids_given props created) \<notin> {[], pid}))"
  proof (cases rd)
    case (Inl e)
    with k have "res = Inl e" "w1 = wd" by simp_all
    then show ?thesis by (intro exI[of _ "[]"]) simp
  next
    case (Inr deleted)
    with k have c: "create_gateway cl event props wd = (res, w1)" by simp
    from issues_onlyD[OF fp_create_gateway_no_delete c] obtain created where
      cr: "trace w1 = trace wd @ created" "\<forall>c\<in>fst ` set created. \<not> deletes c"
      by blast
    have "gateway_ids_given props created \<noteq> [] \<and>
          reports_gateway event (last (gateway_ids_given props created)) body \<and>
          (body_PhysicalResourceId body \<noteq> pid) =
            (last (gateway_ids_given props created) \<notin> {[], pid})"
      if "res = Inr body" for body
    proof -
      from c that have "create_gateway cl event props wd = (Inr body, w1)" by simp
      from create_gateway_gives[OF this] obtain created' where
        g: "trace w1 = trace wd @ created'" "gateway_ids_given props created' \<noteq> []"
          "reports_gateway event (last (gateway_ids_given props created')) body"
        by blast
      from g(1) cr(1) have "created' = created" by simp
      with g have g': "gateway_ids_given props created \<noteq> []"
          "reports_gateway event (last (gateway_ids_given props created)) body"
        by simp_all
      from g'(2) assms(1)
      have "(body_PhysicalResourceId body \<noteq> pid) =
            (last (gateway_ids_given props created) \<notin> {[], pid})"
        by (simp add: reports_gateway_def)
      with g' show ?thesis by simp
    qed
    with cr show ?thesis by (intro exI[of _ created]) simp
  qed
  then obtain created where
    "trace w1 = trace wd @ created" "\<forall>c\<in>fst ` set created. \<not> deletes c"
    "\<forall>body. res = Inr body \<longrightarrow>
                  gateway_ids_given props created \<noteq> [] \<and>
                  reports_gateway event (last (gateway_ids_given props created)) body \<and>
                  (body_PhysicalResourceId body \<noteq> pid) =
                    (last (gateway_ids_given props created) \<notin> {[], pid})"
    by blast
  with del t k show "\<exists>rd wd teardown answer created.
               delete_gateway cl event w = (rd, wd) \<and>
               trace wd = trace w @ teardown @ answer \<and>
               (\<forall>c\<in>fst ` set teardown. teardown_call pid c) \<and>
               (\<forall>c\<in>fst ` set answer. reports c) \<and>
               (case rd of
                  Inl e \<Rightarrow> res = Inl e \<and> w1 = wd
                | Inr deleted \<Rightarrow> create_gateway cl event props wd = (res, w1)) \<and>
               trace w1 = trace wd @ created \<and>
               (\<forall>c\<in>fst ` set created. \<not> deletes c) \<and>
               (\<forall>body. res = Inr body \<longrightarrow>
                  gateway_ids_given props created \<noteq> [] \<and>
                  reports_gateway event (last (gateway_ids_given props created)) body \<and>
                  (body_PhysicalResourceId body \<noteq> pid) =
                    (last (gateway_ids_given props created) \<notin> {[], pid}))"
    by (intro exI[of _ rd] exI[of _ wd] exI[of _ teardown] exI[of _ answer]
        exI[of _ created] conjI)
next
  assume "old_gateway_name event = props ''GatewayName''"
  with assms have u: "update_in_place cl event props pid arn spec w = (res, w1)"
    by (simp add: update_gateway_split[OF assms(1-4)])
  from issues_onlyD[OF fp_in_place u]
  show "\<exists>new. trace w1 = trace w @ new \<and> (\<forall>c\<in>fst ` set new. in_place_call pid c)" .
  from in_place_target_first[OF u]
  show "\<exists>r wa rest. create_or_update_target cl pid arn spec w = (r, wa) \<and>
               trace w1 = trace wa @ rest \<and> (\<forall>c\<in>fst ` set rest. \<not> target_call c)" .
  show "\<forall>body. res = Inr body \<longrightarrow>
               Status body = ''SUCCESS'' \<and> body_PhysicalResourceId body = pid"
    using in_place_result[OF assms(1)] u by blast
qed

lemma update_in_place_run:
  "update_gateway scripted update_event demo_props world0 =
     (Inr updated_body, world0\<lparr>trace := updated_trace (reported ''gw-1'' ''READY'')\<rparr>)"
  by (simp add: program_defs run_defs demo_defs demo_more_defs)

lemma renamed_delete_run:
  "delete_gateway scripted renamed_event world0 =
     (Inr deleted_body, world0\<lparr>trace := deleted_trace\<rparr>)"
  by (simp add: program_defs run_defs demo_defs renamed_event_def deleted_body_def
      deleted_trace_def)

lemma renamed_update_run:
  "update_gateway scripted renamed_event demo_props world0 =
     (Inr created_body, world0\<lparr>trace := deleted_trace @ created_trace\<rparr>)"
  by (simp add: program_defs run_defs demo_defs renamed_event_def deleted_body_def
      deleted_trace_def created_body_def created_trace_def reported_def)

theorem update_gateway_branches_witness:
  "PhysicalResourceId renamed_event = Some ''gw-1'' \<and>
   PhysicalResourceId update_event = Some ''gw-1'' \<and>
   demo_props ''LambdaArn'' = Some ''arn:aws:lambda:fn'' \<and>
   demo_props ''ApiSpec'' = Some ''[]'' \<and>
   json_loads scripted ''[]'' = Inr (JArr []) \<and>
   old_gateway_name renamed_event \<noteq> demo_props ''GatewayName'' \<and>
   update_gateway scripted renamed_event demo_props world0 =
     (Inr created_body, world0\<lparr>trace := deleted_trace @ created_trace\<rparr>) \<and>
   delete_gateway scripted renamed_event world0 =
     (Inr deleted_body, world0\<lparr>trace := deleted_trace\<rparr>) \<and>
   create_gateway scripted renamed_event demo_props (world0\<lparr>trace := deleted_trace\<rparr>) =
     (Inr created_body, world0\<lparr>trace := deleted_trace @ created_trace\<rparr>) \<and>
   (\<exists>teardown answer.
      deleted_trace = teardown @ answer \<and>
      (\<forall>c\<in>fst ` set teardown. teardown_call ''gw-1'' c) \<and>
      (\<forall>c\<in>fst ` set answer. reports c)) \<and>
   filter deletes (map fst created_trace) = [] \<and>
   gateway_ids_given demo_props created_trace = [''gw-new''] \<and>
   reports_gateway renamed_event ''gw-new'' created_body \<and>
   body_PhysicalResourceId created_body \<noteq> ''gw-1'' \<and>
   old_gateway_name update_event = demo_props ''GatewayName'' \<and>
   update_gateway scripted update_event demo_props world0 =
     (Inr updated_body, world0\<lparr>trace := updated_trace (reported ''gw-1'' ''READY'')\<rparr>) \<and>
   (\<exists>new. trace (world0\<lparr>trace := updated_trace (reported ''gw-1'' ''READY'')\<rparr>)
             = trace world0 @ new \<and>
          (\<forall>c\<in>fst ` set new. in_place_call ''gw-1'' c)) \<and>
   (\<exists>r wa rest.
      create_or_update_target scripted ''gw-1'' ''arn:aws:lambda:fn'' (JArr []) world0 = (r, wa) \<and>
      trace (world0\<lparr>trace := updated_trace (reported ''gw-1'' ''READY'')\<rparr>) = trace wa @ rest \<and>
      (\<forall>c\<in>fst ` set rest. \<not> target_call c)) \<and>
   Status updated_body = ''SUCCESS'' \<and> body_PhysicalResourceId updated_body = ''gw-1''"
proof -
  have pid: "PhysicalResourceId update_event = Some ''gw-1''"
    and pid': "PhysicalResourceId renamed_event = Some ''gw-1''"
    and arn: "demo_props ''LambdaArn'' = Some ''arn:aws:lambda:fn''"
    and spec: "demo_props ''ApiSpec'' = Some ''[]''"
    and js: "json_loads scripted ''[]'' = Inr (JArr [])"
    and same: "old_gateway_name update_event = demo_props ''GatewayName''"
    and differ: "old_gateway_name renamed_event \<noteq> demo_props ''GatewayName''"
    by (simp_all add: update_event_def renamed_event_def demo_event_def demo_props_def
        scripted_def old_gateway_name_def)
  have ids: "gateway_ids_given demo_props created_trace = [''gw-new'']"
    by (simp add: gateway_ids_given_def created_trace_def)
  note renamed = update_gateway_branches[OF pid' arn spec js renamed_update_run,
      THEN conjunct1, THEN mp, OF differ]
  from renamed obtain rd wd teardown answer created where
    r: "delete_gateway scripted renamed_event world0 = (rd, wd)"
      "trace wd = trace world0 @ teardown @ answer"
      "\<forall>c\<in>fst ` set teardown. teardown_call ''gw-1'' c"
      "\<forall>c\<in>fst ` set answer. reports c"
      "case rd of
         Inl e \<Rightarrow> (Inr created_body :: exn + response_body) = Inl e \<and>
                  world0\<lparr>trace := deleted_trace @ created_trace\<rparr> = wd
       | Inr deleted \<Rightarrow> create_gateway scripted renamed_event demo_props wd =
           (Inr created_body, world0\<lparr>trace := deleted_trace @ created_trace\<rparr>)"
      "trace (world0\<lparr>trace := deleted_trace @ created_trace\<rparr>) = trace wd @ created"
      "\<forall>c\<in>fst ` set created. \<not> deletes c"
      "\<forall>body. (Inr created_body :: exn + response_body) = Inr body \<longrightarrow>
          gateway_ids_given demo_props created \<noteq> [] \<and>
          reports_gateway renamed_event (last (gateway_ids_given demo_props created)) body \<and>
          (body_PhysicalResourceId body \<noteq> ''gw-1'') =
            (last (gateway_ids_given demo_props created) \<notin> {[], ''gw-1''})"
    by (elim exE conjE) (rule that; assumption)
  from r(1) renamed_delete_run have rd: "rd = Inr deleted_body"
    and wd: "wd = world0\<lparr>trace := deleted_trace\<rparr>"
    by simp_all
  from r(6) wd have created: "created = created_trace" by simp
  from r(5) rd wd
  have c: "create_gateway scripted renamed_event demo_props (world0\<lparr>trace := deleted_trace\<rparr>) =
     (Inr created_body, world0\<lparr>trace := deleted_trace @ created_trace\<rparr>)"
    by simp
  from r(2) wd have split: "deleted_trace = teardown @ answer"
    by (simp add: world0_def)
  from r(7) created have nd: "filter deletes (map fst created_trace) = []"
    by (auto simp: filter_empty_conv)
  from r(8) created ids
  have g: "reports_gateway renamed_event ''gw-new'' created_body"
    "body_PhysicalResourceId created_body \<noteq> ''gw-1''"
    by simp_all
  note in_place = update_gateway_branches[OF pid arn spec js update_in_place_run,
      THEN conjunct2, THEN mp, OF same]
  from in_place
  have u: "(\<exists>new. trace (world0\<lparr>trace := updated_trace (reported ''gw-1'' ''READY'')\<rparr>)
             = trace world0 @ new \<and>
          (\<forall>c\<in>fst ` set new. in_place_call ''gw-1'' c))"
   "(\<exists>r wa rest.
      create_or_update_target scripted ''gw-1'' ''arn:aws:lambda:fn'' (JArr []) world0 = (r, wa) \<and>
      trace (world0\<lparr>trace := updated_trace (reported ''gw-1'' ''READY'')\<rparr>) = trace wa @ rest \<and>
      (\<forall>c\<in>fst ` set rest. \<not> target_call c))"
   "Status updated_body = ''SUCCESS''" "body_PhysicalResourceId updated_body = ''gw-1''"
    by simp_all
  have t: "\<exists>teardown answer.
      deleted_trace = teardown @ answer \<and>
      (\<forall>c\<in>fst ` set teardown. teardown_call ''gw-1'' c) \<and>
      (\<forall>c\<in>fst ` set answer. reports c)"
    using split r(3,4) by blast
  show ?thesis
    by (intro conjI pid pid' arn spec js same differ renamed_update_run renamed_delete_run c t nd
        ids g u update_in_place_run)
qed

subsection \<open>Create when the gateway is listed\<close>

lemma backoff_values: "a < 5 \<Longrightarrow> (2::nat) ^ a \<in> {1, 2, 4, 8, 16}"
proof -
  assume "a < 5"
  then have "a = 0 \<or> a = 1 \<or> a = 2 \<or> a = 3 \<or> a = 4" by arith
  then show ?thesis by (elim disjE) simp_all
qed

lemma fp_retry_call:
  "issues_only (retry_call gid) (create_target_with_retry cl gid arn spec 5)"
proof (rule fp_create_target_with_retry)
  show "retry_call gid (CreateGatewayTarget gid ''GASPAgent'' ''GASP Agent Lambda Target'' arn spec)"
    by (simp add: retry_call_def)
next
  fix a :: nat
  assume "a < 5"
  from backoff_values[OF this] show "retry_call gid (Sleep (2 ^ a))"
    unfolding retry_call_def by (simp only: call.case)
qed

lemma create_or_update_target_trace:
  assumes "create_or_update_target cl gid arn spec w = (r, w1)"
  shows "\<exists>tgt. trace w1 = trace w @ tgt \<and> target_trace gid arn spec tgt"
proof -
  obtain lr wa where l: "call_list_gateway_targets cl gid w = (lr, wa)"
    by (cases "call_list_gateway_targets cl gid w")
  then have trl: "trace wa = trace w @ [(ListGatewayTargets gid,
      case lr of Inl e \<Rightarrow> Raised e | Inr v \<Rightarrow> Targets v)]"
    unfolding call_list_gateway_targets_def by (rule invoke_trace)
  have retry: "\<exists>tgt. trace w1 = trace w @ tgt \<and> target_trace gid arn spec tgt"
    if run: "create_target_with_retry cl gid arn spec 5 wb = (r, w1)"
      and first: "trace wb = trace w @ first"
      and shape: "first = [(ListGatewayTargets gid, Targets [])] \<or>
          (\<exists>e. first = [(ListGatewayTargets gid, Raised e)]) \<or>
          (\<exists>t ts e. first = [(ListGatewayTargets gid, Targets (t # ts)),
                             (UpdateGatewayTarget gid (targetId t) ''GASPAgent'' arn spec,
                              Raised e)])"
    for wb first
  proof -
    from issues_onlyD[OF fp_retry_call run] obtain retry where
      r1: "trace w1 = trace wb @ retry" and r2: "\<forall>c\<in>fst ` set retry. retry_call gid c"
      by blast
    have "target_trace gid arn spec (first @ retry)"
      unfolding target_trace_def
      by (rule disjI2, rule exI[of _ first], rule exI[of _ retry]) (intro conjI refl shape r2)
    moreover from r1 first have "trace w1 = trace w @ first @ retry" by simp
    ultimately show ?thesis by blast
  qed
  show ?thesis
  proof (cases lr)
    case (Inl e)
    with assms l have "create_target_with_retry cl gid arn spec 5 wa = (r, w1)"
      by (simp add: create_or_update_target_def and_then_def)
    then show ?thesis
      by (rule retry) (use trl Inl in auto)
  next
    case (Inr targets)
    show ?thesis
    proof (cases targets)
      case Nil
      with assms l Inr have "create_target_with_retry cl gid arn spec 5 wa = (r, w1)"
        by (simp add: create_or_update_target_def and_then_def ok_def)
      then show ?thesis
        by (rule retry) (use trl Inr Nil in auto)
    next
      case (Cons t ts)
      obtain ur wb where u: "call_update_gateway_target cl gid (targetId t) ''GASPAgent''
          arn spec wa = (ur, wb)"
        by (cases "call_update_gateway_target cl gid (targetId t) ''GASPAgent'' arn spec wa")
      then have tru: "trace wb = trace wa @ [(UpdateGatewayTarget gid (targetId t) ''GASPAgent''
          arn spec, case ur of Inl e \<Rightarrow> Raised e | Inr v \<Rightarrow> Done)]"
        unfolding call_update_gateway_target_def by (rule invoke_trace)
      show ?thesis
      proof (cases ur)
        case (Inl e)
        with assms l Inr Cons u have "create_target_with_retry cl gid arn spec 5 wb = (r, w1)"
          by (simp add: create_or_update_target_def and_then_def)
        then show ?thesis
          by (rule retry) (use trl tru Inr Cons Inl in auto)
      next
        case Inr2: (Inr x)
        with assms l Inr Cons u have "w1 = wb"
          by (simp add: create_or_update_target_def and_then_def ok_def)
        with trl tru Inr Cons Inr2
        have "trace w1 = trace w @ [(ListGatewayTargets gid, Targets (t # ts)),
                (UpdateGatewayTarget gid (targetId t) ''GASPAgent'' arn spec, Done)]"
          by simp
        moreover have "target_trace gid arn spec [(ListGatewayTargets gid, Targets (t # ts)),
                (UpdateGatewayTarget gid (targetId t) ''GASPAgent'' arn spec, Done)]"
          unfolding target_trace_def
          by (rule disjI1, rule exI[of _ t], rule exI[of _ ts]) (rule refl)
        ultimately show ?thesis by blast
      qed
    qed
  qed
qed

lemma fp_persists_or_reports:
  "issues_only persists_or_reports (persist_and_report cl event props d gid tid)"
  by (rule fp_persist_and_report) (simp_all add: persists_or_reports_def)

lemma existing_gateway_trace:
  assumes "existing_gateway cl event props arn spec gw w = (Inr body, w1)"
  shows "\<exists>d tgt fin.
           trace w1 = trace w @ [(GetGateway (gatewayId gw), Gateway d)] @ tgt @ fin \<and>
           target_trace (gatewayId gw) arn spec tgt \<and>
           (\<forall>c\<in>fst ` set fin. persists_or_reports c)"
proof -
  from assms obtain d wa tid wb where
    g: "call_get_gateway cl (gatewayId gw) w = (Inr d, wa)"
    and t: "create_or_update_target cl (gatewayId gw) arn spec wa = (Inr tid, wb)"
    and p: "persist_and_report cl event props d (gatewayId gw) tid wb = (Inr body, w1)"
    unfolding existing_gateway_eq
    by (auto simp: and_then_def split: prod.splits sum.splits)
  from g have "trace wa = trace w @ [(GetGateway (gatewayId gw), Gateway d)]"
    unfolding call_get_gateway_def by (auto dest: invoke_trace)
  moreover from create_or_update_target_trace[OF t] obtain tgt where
    "trace wb = trace wa @ tgt" "target_trace (gatewayId gw) arn spec tgt" by blast
  moreover from issues_onlyD[OF fp_persists_or_reports p] obtain fin where
    "trace w1 = trace wb @ fin" "\<forall>c\<in>fst ` set fin. persists_or_reports c" by blast
  ultimately show ?thesis
    by (intro exI[of _ d] exI[of _ tgt] exI[of _ fin]) simp
qed

text \<open>
  C7 fails on a \<^verbatim>\<open>Create\<close> event when the gateway \<open>demo\<close> is listed as \<open>gw-1\<close> and
  \<^verbatim>\<open>get_gateway\<close> is throttled for it. The \<^verbatim>\<open>except\<close> clause around the lookup swallows
  the exception and \<^verbatim>\<open>create_gateway\<close> goes on as if no gateway were listed: a
  gateway-create call is issued for the name \<open>demo\<close>, and the id returned is \<open>gw-new\<close>, not
  the id of the listed gateway.
\<close>

theorem listed_gateway_created_again:
  "agentcore_list_gateways listed_but_throttled (remote world0) =
     (Inr [reported ''gw-1'' ''READY''], remote world0) \<and>
   gw_name (reported ''gw-1'' ''READY'') = ''demo'' \<and>
   demo_props ''GatewayName'' = Some ''demo'' \<and>
   filter (\<lambda>c. case c of CreateGateway nm d r p a cs u \<Rightarrow> True | _ \<Rightarrow> False)
     (map fst (trace (snd (create_gateway listed_but_throttled (demo_event ''Create'')
                             demo_props world0)))) =
     [CreateGateway ''demo'' ''GASP Gateway (CDK Managed)'' ''arn:aws:iam:role'' ''MCP''
        ''CUSTOM_JWT'' [''client''] ''https://idp''] \<and>
   map_sum id (\<lambda>body. (Status body, body_PhysicalResourceId body))
     (fst (create_gateway listed_but_throttled (demo_event ''Create'') demo_props world0)) =
     Inr (''SUCCESS'', ''gw-new'')"
  by (simp add: program_defs run_defs demo_defs listed_but_throttled_def reported_def)

text \<open>
  When no step raises, create is idempotent. For every \<^verbatim>\<open>Create\<close> request whose
  \<^verbatim>\<open>GatewayName\<close> names a listed gateway: if the branch for the first such gateway
  (fetch it, reconcile its target, persist, report) completes without raising,
  \<^verbatim>\<open>create_gateway\<close> returns that branch's body, with status \<^verbatim>\<open>SUCCESS\<close> and the listed
  gateway's id, and the run is: list the gateways, fetch that gateway once, reconcile its
  target, then parameter writes and the callback. So no gateway is created and nothing
  waits for readiness. The target is reconciled by one update of the first listed target
  and nothing else, or, when no target is listed or listing or updating raised, by the
  retry loop of target creation: with a target listed and updated, no target is created.
\<close>

theorem create_gateway_reuses_listed:
  assumes "props ''GatewayName'' = Some gateway_name" and "props ''LambdaArn'' = Some arn"
    and "props ''ApiSpec'' = Some spec_text" and "json_loads cl spec_text = Inr spec"
    and "props ''GatewayRoleArn'' = Some role"
    and "call_list_gateways cl w = (Inr gateways, wa)"
    and "find (\<lambda>gw. gw_name gw = gateway_name) gateways = Some gw"
    and "existing_gateway cl event props arn spec gw wa = (Inr body, w1)"
  shows "create_gateway cl event props w = (Inr body, w1) \<and>
         Status body = ''SUCCESS'' \<and>
         (\<exists>u tid. Data body =
            [(''GatewayId'', gatewayId gw), (''GatewayUrl'', u), (''TargetId'', tid)]) \<and>
         (gatewayId gw = [] \<or> body_PhysicalResourceId body = gatewayId gw) \<and>
         (\<exists>d tgt fin.
            trace w1 = trace w @ [(ListGateways, Gateways gateways),
                                  (GetGateway (gatewayId gw), Gateway d)] @ tgt @ fin \<and>
            target_trace (gatewayId gw) arn spec tgt \<and>
            (\<forall>c\<in>fst ` set fin. persists_or_reports c))"
proof (intro conjI)
  from assms(7,8)
  have "scan_gateways cl event props gateway_name arn spec gateways wa = (Inr (Some body), w1)"
    by (simp add: scan_gateways_find and_then_def ok_def)
  with assms(1-6) show "create_gateway cl event props w = (Inr body, w1)"
    by (simp add: create_gateway_def and_then_def getitem_def)
next
  from assms(8) obtain d tid wb where
    p: "persist_and_report cl event props d (gatewayId gw) tid wb = (Inr body, w1)"
    unfolding existing_gateway_eq
    by (auto simp: and_then_def split: prod.splits sum.splits)
  note r = persist_and_report_result[OF p]
  from r show "Status body = ''SUCCESS''" by simp
  from r show "\<exists>u tid. Data body =
            [(''GatewayId'', gatewayId gw), (''GatewayUrl'', u), (''TargetId'', tid)]"
    unfolding success_data_def by blast
  from r show "gatewayId gw = [] \<or> body_PhysicalResourceId body = gatewayId gw"
    by (auto split: if_splits)
next
  from assms(6) have "trace wa = trace w @ [(ListGateways, Gateways gateways)]"
    unfolding call_list_gateways_def by (auto dest: invoke_trace)
  moreover from existing_gateway_trace[OF assms(8)] obtain d tgt fin where
    "trace w1 = trace wa @ [(GetGateway (gatewayId gw), Gateway d)] @ tgt @ fin"
    "target_trace (gatewayId gw) arn spec tgt" "\<forall>c\<in>fst ` set fin. persists_or_reports c"
    by blast
  ultimately show "\<exists>d tgt fin.
            trace w1 = trace w @ [(ListGateways, Gateways gateways),
                                  (GetGateway (gatewayId gw), Gateway d)] @ tgt @ fin \<and>
            target_trace (gatewayId gw) arn spec tgt \<and>
            (\<forall>c\<in>fst ` set fin. persists_or_reports c)"
    by (intro exI[of _ d] exI[of _ tgt] exI[of _ fin]) simp
qed

lemma listed_run:
  "call_list_gateways listed world0 =
     (Inr [reported ''gw-1'' ''READY''],
      world0\<lparr>trace := [(ListGateways, Gateways [reported ''gw-1'' ''READY''])]\<rparr>)"
  by (simp add: program_defs run_defs demo_defs listed_def)

lemma reused_run:
  "existing_gateway listed (demo_event ''Create'') demo_props ''arn:aws:lambda:fn'' (JArr [])
     (reported ''gw-1'' ''READY'')
     (world0\<lparr>trace := [(ListGateways, Gateways [reported ''gw-1'' ''READY''])]\<rparr>) =
     (Inr updated_body, world0\<lparr>trace := reused_trace\<rparr>)"
  by (simp add: program_defs run_defs demo_defs demo_more_defs listed_def reused_trace_def)

theorem create_gateway_reuses_listed_witness:
  "demo_props ''GatewayName'' = Some ''demo'' \<and>
   demo_props ''LambdaArn'' = Some ''arn:aws:lambda:fn'' \<and>
   demo_props ''ApiSpec'' = Some ''[]'' \<and>
   json_loads listed ''[]'' = Inr (JArr []) \<and>
   demo_props ''GatewayRoleArn'' = Some ''arn:aws:iam:role'' \<and>
   find (\<lambda>gw. gw_name gw = ''demo'') [reported ''gw-1'' ''READY''] =
     Some (reported ''gw-1'' ''READY'') \<and>
   create_gateway listed (demo_event ''Create'') demo_props world0 =
     (Inr updated_body, world0\<lparr>trace := reused_trace\<rparr>) \<and>
   Status updated_body = ''SUCCESS'' \<and>
   body_PhysicalResourceId updated_body = gatewayId (reported ''gw-1'' ''READY'') \<and>
   (\<exists>d tgt fin.
      trace (world0\<lparr>trace := reused_trace\<rparr>) =
        trace world0 @ [(ListGateways, Gateways [reported ''gw-1'' ''READY'']),
                        (GetGateway (gatewayId (reported ''gw-1'' ''READY'')), Gateway d)]
          @ tgt @ fin \<and>
      target_trace (gatewayId (reported ''gw-1'' ''READY'')) ''arn:aws:lambda:fn'' (JArr []) tgt \<and>
      (\<forall>c\<in>fst ` set fin. persists_or_reports c))"
proof -
  have nm: "demo_props ''GatewayName'' = Some ''demo''"
    and arn: "demo_props ''LambdaArn'' = Some ''arn:aws:lambda:fn''"
    and spec: "demo_props ''ApiSpec'' = Some ''[]''"
    and js: "json_loads listed ''[]'' = Inr (JArr [])"
    and role: "demo_props ''GatewayRoleArn'' = Some ''arn:aws:iam:role''"
    and first: "find (\<lambda>gw. gw_name gw = ''demo'') [reported ''gw-1'' ''READY''] =
     Some (reported ''gw-1'' ''READY'')"
    and nonempty: "gatewayId (reported ''gw-1'' ''READY'') \<noteq> []"
    by (simp_all add: demo_props_def listed_def scripted_def reported_def)
  note inst = create_gateway_reuses_listed[OF nm arn spec js role listed_run first reused_run]
  from inst nonempty have "body_PhysicalResourceId updated_body = gatewayId (reported ''gw-1'' ''READY'')"
    by blast
  with inst nm arn spec js role first show ?thesis
    by (intro conjI) blast+
qed

end
